theory Spec2Isabelle
  imports Complex_Main
begin

section \<open>JavaScript values and strings\<close>

text \<open>
  A JavaScript string is a sequence of 16-bit code units. It is kept here as the list of
  the bytes of its UTF-8 form; a surrogate that has no partner is written as the three
  bytes UTF-8 would give its code point (\<open>ED\<close>, then \<open>A0\<close> to \<open>BF\<close>, then one more byte),
  which occur in no other place. The string operations below are those of JavaScript on
  ASCII text; what they do beyond ASCII is said at each.
\<close>

definition startsWith :: "string \<Rightarrow> string \<Rightarrow> bool" where
  "startsWith s p = (take (length p) s = p)"

fun includesStr :: "string \<Rightarrow> string \<Rightarrow> bool" where
  "includesStr [] p = (p = [])"
| "includesStr (c # cs) p = (startsWith (c # cs) p \<or> includesStr cs p)"

text \<open>
  \<open>s.toLowerCase()\<close>: the ASCII capitals, and the two characters beyond ASCII whose
  lower case has an ASCII letter: U+0130 (bytes \<open>C4 B0\<close>) becomes \<open>i\<close> followed by
  U+0307 (bytes \<open>CC 87\<close>), and the Kelvin sign U+212A (bytes \<open>E2 84 AA\<close>) becomes \<open>k\<close>.
  Every other character beyond ASCII is left as it is: its lower case has no ASCII
  character, so whether a lower-cased string contains or equals an ASCII text is
  decided as in JavaScript. (The case tables of Unicode are not part of this theory.)
\<close>

definition toLowerChar :: "char \<Rightarrow> char" where
  "toLowerChar c =
     (if (65::nat) \<le> of_char c \<and> of_char c \<le> (90::nat) then char_of (of_char c + (32::nat)) else c)"

fun toLowerCase :: "string \<Rightarrow> string" where
  "toLowerCase [] = []"
| "toLowerCase (c # cs) =
     (if startsWith (c # cs) [CHR 0xC4, CHR 0xB0]
      then [CHR ''i'', CHR 0xCC, CHR 0x87] @ toLowerCase (drop 1 cs)
      else if startsWith (c # cs) [CHR 0xE2, CHR 0x84, CHR 0xAA]
      then CHR ''k'' # toLowerCase (drop 2 cs)
      else toLowerChar c # toLowerCase cs)"

text \<open>
  \<open>s.toUpperCase()\<close>, on ASCII text: the code applies it to the first character of the
  name of a package manager only.
\<close>

definition toUpperChar :: "char \<Rightarrow> char" where
  "toUpperChar c =
     (if (97::nat) \<le> of_char c \<and> of_char c \<le> (122::nat) then char_of (of_char c - (32::nat)) else c)"

definition toUpperCase :: "string \<Rightarrow> string" where
  "toUpperCase s = map toUpperChar s"

text \<open>\<open>xs.join(sep)\<close>, and the lines of a template literal.\<close>

fun joinWith :: "string \<Rightarrow> string list \<Rightarrow> string" where
  "joinWith sep [] = []"
| "joinWith sep [x] = x"
| "joinWith sep (x # y # ys) = x @ sep @ joinWith sep (y # ys)"

definition joinLines :: "string list \<Rightarrow> string" where
  "joinLines ls = joinWith [CHR 0x0A] ls"

text \<open>\<open>s.replace(/pat/g, rep)\<close> for a literal, non-empty pattern: left to right, no overlap.\<close>

fun replaceAll :: "string \<Rightarrow> string \<Rightarrow> nat \<Rightarrow> string \<Rightarrow> string" where
  "replaceAll pat rep skip [] = []"
| "replaceAll pat rep (Suc k) (c # cs) = replaceAll pat rep k cs"
| "replaceAll pat rep 0 (c # cs) =
     (if pat \<noteq> [] \<and> startsWith (c # cs) pat
      then rep @ replaceAll pat rep (length pat - 1) cs
      else c # replaceAll pat rep 0 cs)"

definition replaceStr :: "string \<Rightarrow> string \<Rightarrow> string \<Rightarrow> string" where
  "replaceStr pat rep s = replaceAll pat rep 0 s"

text \<open>\<open>s.replace(/\s+/g, '-')\<close>: every run of (ASCII) white space becomes one hyphen.\<close>

definition isSpace :: "char \<Rightarrow> bool" where
  "isSpace c = (c \<in> set [CHR 0x20, CHR 0x09, CHR 0x0A, CHR 0x0B, CHR 0x0C, CHR 0x0D])"

fun replaceSpacesFrom :: "bool \<Rightarrow> string \<Rightarrow> string" where
  "replaceSpacesFrom inRun [] = []"
| "replaceSpacesFrom inRun (c # cs) =
     (if isSpace c then (if inRun then replaceSpacesFrom True cs
                         else CHR ''-'' # replaceSpacesFrom True cs)
      else c # replaceSpacesFrom False cs)"

definition replaceSpaces :: "string \<Rightarrow> string" where
  "replaceSpaces s = replaceSpacesFrom False s"

text \<open>A natural number printed in decimal, as a template literal prints it.\<close>

definition digitChar :: "nat \<Rightarrow> char" where
  "digitChar d = char_of (48 + d)"

function showNat :: "nat \<Rightarrow> string" where
  "showNat n = (if n < 10 then [digitChar n] else showNat (n div 10) @ [digitChar (n mod 10)])"
  by pat_completeness auto
termination
  by (relation "measure id") auto

declare showNat.simps [simp del]

section \<open>Numbers\<close>

text \<open>
  A JavaScript number is an IEEE 754 double. A double is given here by the rational
  number it is. \<open>double q\<close> is the double nearest to the rational \<open>q\<close>, a tie going to
  the even significand: it is how a decimal literal of the source is read and how the
  exact result of an operation is rounded. The definition covers the normal range
  (a significand of 53 bits, no overflow and no subnormal numbers), where the numbers
  of this program are: they lie between \<open>1 / 2 ^ 60\<close> and \<open>2 ^ 60\<close>.
\<close>

function bitLength :: "int \<Rightarrow> int" where
  "bitLength n = (if n \<le> 0 then 0 else 1 + bitLength (n div 2))"
  by pat_completeness auto
termination
  by (relation "measure nat") auto

declare bitLength.simps [simp del]

definition pow2 :: "int \<Rightarrow> rat" where
  "pow2 e = (if 0 \<le> e then 2 ^ nat e else 1 / 2 ^ nat (- e))"

definition roundHalfEven :: "rat \<Rightarrow> int" where
  "roundHalfEven r =
     (let f = \<lfloor>r\<rfloor>; d = r - of_int f
      in if d < 1/2 then f else if 1/2 < d then f + 1 else if even f then f else f + 1)"

text \<open>
  The exponent \<open>e\<close> of a positive rational \<open>q\<close>: \<open>2 ^ 52 \<le> q / 2 ^ e < 2 ^ 53\<close>. The bit lengths of
  numerator and denominator give it up to one.
\<close>

definition binaryExponent :: "rat \<Rightarrow> int" where
  "binaryExponent q =
     (let e = bitLength (fst (quotient_of q)) - bitLength (snd (quotient_of q)) - 53
      in if q / pow2 e < 2 ^ 53 then e else e + 1)"

definition double :: "rat \<Rightarrow> rat" where
  "double q =
     (if q = 0 then 0
      else if q < 0
      then - (of_int (roundHalfEven (- q / pow2 (binaryExponent (- q)))) * pow2 (binaryExponent (- q)))
      else of_int (roundHalfEven (q / pow2 (binaryExponent q))) * pow2 (binaryExponent q))"

text \<open>The operations \<open>x + y\<close>, \<open>x * y\<close> and \<open>x / y\<close> on doubles, and \<open>Math.round\<close>.\<close>

definition doubleAdd :: "rat \<Rightarrow> rat \<Rightarrow> rat" where
  "doubleAdd x y = double (x + y)"

definition doubleMul :: "rat \<Rightarrow> rat \<Rightarrow> rat" where
  "doubleMul x y = double (x * y)"

definition doubleDiv :: "rat \<Rightarrow> rat \<Rightarrow> rat" where
  "doubleDiv x y = double (x / y)"

definition mathRound :: "rat \<Rightarrow> int" where
  "mathRound x = \<lfloor>x + 1/2\<rfloor>"

section \<open>JSON values\<close>

text \<open>
  The manifest \<open>packageJson\<close> has the type \<open>any\<close>: it is whatever \<open>JSON.parse\<close> made of
  the file \<open>package.json\<close>. An object is the list of its own properties in enumeration
  order, with distinct keys. The code modelled here never calculates with a number of
  the manifest: it tests it for being zero and prints it. So a number is kept as the
  text JavaScript prints for it (\<open>String(n)\<close>: \<open>0\<close>, \<open>1.5\<close>, \<open>1e+21\<close>); both zeros print
  as \<open>0\<close>, and \<open>JSON.parse\<close> gives no \<open>NaN\<close>.
\<close>

datatype json =
    JNull
  | JBool bool
  | JNum string
  | JStr string
  | JArr "json list"
  | JObj "(string \<times> json) list"

datatype error = TypeError | URIError | Error string | IOError

text \<open>
  \<open>v?.key\<close> for the property names the code reads. \<open>None\<close> is \<open>undefined\<close>. None of
  these names is a member of a prototype, so a value that is not an object has none of them.
\<close>

fun getProp :: "json option \<Rightarrow> string \<Rightarrow> json option" where
  "getProp (Some (JObj kvs)) key = map_of kvs key"
| "getProp _ key = None"

text \<open>JavaScript truthiness: what \<open>if (v)\<close>, \<open>v || w\<close> and \<open>!v\<close> test.\<close>

fun truthy :: "json option \<Rightarrow> bool" where
  "truthy None = False"
| "truthy (Some JNull) = False"
| "truthy (Some (JBool b)) = b"
| "truthy (Some (JNum n)) = (n \<noteq> ''0'')"
| "truthy (Some (JStr s)) = (s \<noteq> [])"
| "truthy (Some (JArr xs)) = True"
| "truthy (Some (JObj kvs)) = True"

text \<open>
  The string a value becomes in a template literal (\<open>ToString\<close>). An array joins its
  elements with commas, printing \<open>null\<close> as nothing. An object prints as
  \<open>[object Object]\<close> through the method \<open>toString\<close> it inherits; an object with a
  property \<open>toString\<close> of its own has no method to print it (no value of \<open>JSON.parse\<close>
  is a function, and the inherited \<open>valueOf\<close> gives the object back), and the conversion
  throws a TypeError.
\<close>

fun collect :: "(error + 'a) list \<Rightarrow> error + 'a list" where
  "collect [] = Inr []"
| "collect (Inl e # rs) = Inl e"
| "collect (Inr x # rs) = (case collect rs of Inl e \<Rightarrow> Inl e | Inr xs \<Rightarrow> Inr (x # xs))"

fun jsToString :: "json \<Rightarrow> error + string" where
  "jsToString JNull = Inr ''null''"
| "jsToString (JBool b) = Inr (if b then ''true'' else ''false'')"
| "jsToString (JNum n) = Inr n"
| "jsToString (JStr s) = Inr s"
| "jsToString (JArr xs) =
     (case collect (map (\<lambda>x. if x = JNull then Inr [] else jsToString x) xs) of
        Inl e \<Rightarrow> Inl e
      | Inr texts \<Rightarrow> Inr (joinWith '','' texts))"
| "jsToString (JObj kvs) =
     (if ''toString'' \<in> set (map fst kvs) then Inl TypeError else Inr ''[object Object]'')"

text \<open>
  \<open>Object.keys({...v})\<close>: the own enumerable property names that an object spread
  copies. An array and a string spread their indices (a string has one index for each
  16-bit code unit); other values spread nothing.
\<close>

definition codeUnits :: "char \<Rightarrow> nat" where
  "codeUnits c =
     (let n = (of_char c :: nat) in
      if n < 128 then 1 else if n < 192 then 0 else if n < 240 then 1 else 2)"

definition utf16Length :: "string \<Rightarrow> nat" where
  "utf16Length s = sum_list (map codeUnits s)"

fun ownKeys :: "json option \<Rightarrow> string list" where
  "ownKeys (Some (JObj kvs)) = map fst kvs"
| "ownKeys (Some (JArr xs)) = map showNat [0..<length xs]"
| "ownKeys (Some (JStr s)) = map showNat [0..<utf16Length s]"
| "ownKeys _ = []"

text \<open>
  \<open>encodeURIComponent\<close>: every byte of the UTF-8 form is written as \<open>%XX\<close> but the
  letters, the digits and \<open>- _ . ! ~ * ' ( )\<close>. A string with a surrogate that has no
  partner has no UTF-8 form: a URIError is thrown.
\<close>

fun hasLoneSurrogate :: "string \<Rightarrow> bool" where
  "hasLoneSurrogate (c # d # cs) =
     ((c = CHR 0xED \<and> (160::nat) \<le> of_char d) \<or> hasLoneSurrogate (d # cs))"
| "hasLoneSurrogate _ = False"

definition isUnreserved :: "char \<Rightarrow> bool" where
  "isUnreserved c =
     (let n = (of_char c :: nat) in
      (65 \<le> n \<and> n \<le> 90) \<or> (97 \<le> n \<and> n \<le> 122) \<or> (48 \<le> n \<and> n \<le> 57) \<or>
      c \<in> set [CHR ''-'', CHR ''_'', CHR ''.'', CHR ''!'', CHR ''~'', CHR ''*'', CHR 0x27,
                 CHR ''('', CHR '')''])"

definition hexDigit :: "nat \<Rightarrow> char" where
  "hexDigit d = (if d < 10 then char_of (48 + d) else char_of (55 + d))"

definition encodeURIComponent :: "string \<Rightarrow> error + string" where
  "encodeURIComponent s =
     (if hasLoneSurrogate s then Inl URIError
      else Inr (concat (map (\<lambda>c. if isUnreserved c then [c]
                              else [CHR ''%'', hexDigit (of_char c div 16), hexDigit (of_char c mod 16)]) s)))"

section \<open>Data model\<close>

record ProjectFile =
  path :: string
  relativePath :: string
  fileName :: string
  extension :: string
  isDirectory :: bool

text \<open>
  The field \<open>name\<close> of a \<open>ProjectInfo\<close> is declared a string, and \<open>scanWorkspace\<close> sets it
  to \<open>packageJson?.name || path.basename(rootPath)\<close>: it is the name the manifest gives,
  whatever value that is, when it is truthy.
\<close>

record ProjectInfo =
  projectName :: json
  rootPath :: string
  files :: "ProjectFile list"
  packageJson :: "json option"
  hasReadme :: bool
  existingReadmeContent :: "string option"
  configFiles :: "string list"
  sourceFiles :: "string list"
  totalFiles :: nat

text \<open>Percentages and file counts are integers, below \<open>2 ^ 53\<close>, which a double holds exactly.\<close>

record LanguageStat =
  langName :: string
  percentage :: nat
  fileCount :: nat

record FrameworkMatch =
  fwName :: string
  category :: string
  fwConfidence :: rat

record DetectionResult =
  languages :: "LanguageStat list"
  frameworks :: "FrameworkMatch list"
  packageManager :: "string option"
  buildTools :: "string list"
  testFrameworks :: "string list"

text \<open>A confidence is a double, given by the rational number it is.\<close>

record ProjectTypeResult =
  ptype :: string
  displayName :: string
  confidence :: rat
  reason :: string

section \<open>Project type classifier (projectTypeDetector)\<close>

text \<open>
  \<open>frameworks.some(f => names.includes(f.name))\<close> and the name that
  \<open>frameworks.find(...)?.name\<close> prints in the reason.
\<close>

definition hasFramework :: "FrameworkMatch list \<Rightarrow> string list \<Rightarrow> bool" where
  "hasFramework fws names = list_ex (\<lambda>f. fwName f \<in> set names) fws"

definition usingReason :: "FrameworkMatch list \<Rightarrow> string list \<Rightarrow> string" where
  "usingReason fws names =
     ''Using '' @ (case find (\<lambda>f. fwName f \<in> set names) fws of
                    Some f \<Rightarrow> fwName f | None \<Rightarrow> ''undefined'')"

text \<open>
  \<open>pkg?.keywords?.some((k) => k.toLowerCase().includes('cli') ||
  k.toLowerCase().includes('command'))\<close>. The optional chain stops at \<open>undefined\<close> and
  \<open>null\<close> only: any other value that is not an array has no method \<open>some\<close>, and an
  element that is not a string has no method \<open>toLowerCase\<close>; calling either throws a
  TypeError. \<open>some\<close> stops at the first element for which the test holds. The result is
  read in a condition only, so \<open>undefined\<close> is \<open>False\<close> here.
\<close>

fun someCliKeyword :: "json list \<Rightarrow> error + bool" where
  "someCliKeyword [] = Inr False"
| "someCliKeyword (JStr k # ks) =
     (if includesStr (toLowerCase k) ''cli'' \<or> includesStr (toLowerCase k) ''command''
      then Inr True else someCliKeyword ks)"
| "someCliKeyword (_ # ks) = Inl TypeError"

fun hasCliKeyword :: "json option \<Rightarrow> error + bool" where
  "hasCliKeyword None = Inr False"
| "hasCliKeyword (Some JNull) = Inr False"
| "hasCliKeyword (Some (JArr ks)) = someCliKeyword ks"
| "hasCliKeyword (Some _) = Inl TypeError"

definition mobileFrameworks :: "string list" where
  "mobileFrameworks = [''React Native'', ''Flutter'', ''Ionic'', ''Cordova'']"

definition desktopFrameworks :: "string list" where
  "desktopFrameworks = [''Electron'', ''Tauri'']"

definition fullstackFrameworks :: "string list" where
  "fullstackFrameworks = [''Next.js'', ''Nuxt.js'', ''SvelteKit'', ''Remix'']"

definition frontendFrameworks :: "string list" where
  "frontendFrameworks = [''React'', ''Vue.js'', ''Angular'', ''Svelte'']"

definition backendFrameworks :: "string list" where
  "backendFrameworks =
     [''Express.js'', ''Fastify'', ''NestJS'', ''Django'', ''Flask'', ''FastAPI'', ''Spring Boot'']"

definition hasWorkspaces :: "ProjectInfo \<Rightarrow> bool" where
  "hasWorkspaces projectInfo =
     (truthy (getProp (packageJson projectInfo) ''workspaces'') \<or>
      list_ex (\<lambda>f. fileName f = ''lerna.json'' \<or> fileName f = ''pnpm-workspace.yaml'')
        (files projectInfo))"

definition hasBinField :: "json option \<Rightarrow> bool" where
  "hasBinField pkg = (getProp pkg ''bin'' \<noteq> None)"

definition hasMain :: "json option \<Rightarrow> bool" where
  "hasMain pkg = (getProp pkg ''main'' \<noteq> None)"

definition hasTypes :: "json option \<Rightarrow> bool" where
  "hasTypes pkg = (getProp pkg ''types'' \<noteq> None \<or> getProp pkg ''typings'' \<noteq> None)"

definition hasExports :: "json option \<Rightarrow> bool" where
  "hasExports pkg = (getProp pkg ''exports'' \<noteq> None)"

definition isPrivate :: "json option \<Rightarrow> bool" where
  "isPrivate pkg = (getProp pkg ''private'' = Some (JBool True))"

definition libraryScore :: "json option \<Rightarrow> nat" where
  "libraryScore pkg =
     (if hasMain pkg then 1 else 0) + (if hasTypes pkg then 1 else 0) +
     (if hasExports pkg then 1 else 0) + (if \<not> isPrivate pkg then 1 else 0)"

definition hasPublicFolder :: "ProjectFile list \<Rightarrow> bool" where
  "hasPublicFolder fs = list_ex (\<lambda>f. fileName f = ''public'' \<and> isDirectory f) fs"

definition hasIndexHtml :: "ProjectFile list \<Rightarrow> bool" where
  "hasIndexHtml fs = list_ex (\<lambda>f. fileName f = ''index.html'') fs"

definition hasServerFile :: "ProjectFile list \<Rightarrow> bool" where
  "hasServerFile fs =
     list_ex (\<lambda>f. fileName f = ''server.js'' \<or> fileName f = ''server.ts'' \<or>
                  fileName f = ''app.js'' \<or> fileName f = ''app.ts'' \<or>
                  fileName f = ''index.js'' \<or> fileName f = ''main.py'' \<or>
                  fileName f = ''app.py'') fs"

definition mkResult :: "string \<Rightarrow> string \<Rightarrow> rat \<Rightarrow> string \<Rightarrow> ProjectTypeResult" where
  "mkResult t d c r = \<lparr>ptype = t, displayName = d, confidence = c, reason = r\<rparr>"

text \<open>
  The decision list of \<open>detectProjectType\<close>, in the order of the source. A confidence is
  the double a decimal literal of the source stands for; the confidence of a library is
  the sum and product of the source, in double arithmetic.
  \<open>Inl TypeError\<close> is the exception thrown by the keyword test.
\<close>

definition detectProjectType :: "ProjectInfo \<Rightarrow> DetectionResult \<Rightarrow> error + ProjectTypeResult" where
  "detectProjectType projectInfo detection =
     (let pkg = packageJson projectInfo;
          fws = frameworks detection;
          fs = files projectInfo
      in
      if hasWorkspaces projectInfo then
        Inr (mkResult ''monorepo'' ''Monorepo'' (double 0.9) ''Detected workspace configuration'')
      else if hasFramework fws mobileFrameworks then
        Inr (mkResult ''mobile'' ''Mobile App'' (double 0.95) (usingReason fws mobileFrameworks))
      else if hasFramework fws desktopFrameworks then
        Inr (mkResult ''desktop'' ''Desktop App'' (double 0.95) (usingReason fws desktopFrameworks))
      else
        (case hasCliKeyword (getProp pkg ''keywords'') of
           Inl e \<Rightarrow> Inl e
         | Inr cliKeyword \<Rightarrow>
            if hasBinField pkg \<or> cliKeyword then
              Inr (mkResult ''cli'' ''CLI Tool'' (double 0.85)
                    (if hasBinField pkg then ''Has bin field in package.json''
                     else ''CLI-related keywords''))
            else if libraryScore pkg \<ge> 2 \<and> \<not> isPrivate pkg then
              Inr (mkResult ''library'' ''Library/Package''
                    (doubleAdd (double 0.7) (doubleMul (of_nat (libraryScore pkg)) (double 0.05)))
                    ''Has library configuration (main, types, exports)'')
            else if hasFramework fws fullstackFrameworks then
              Inr (mkResult ''fullstack'' ''Full-Stack App'' (double 0.9)
                    (usingReason fws fullstackFrameworks))
            else if hasFramework fws frontendFrameworks \<and> hasFramework fws backendFrameworks then
              Inr (mkResult ''fullstack'' ''Full-Stack App'' (double 0.85)
                    ''Has both frontend and backend frameworks'')
            else if hasFramework fws frontendFrameworks then
              Inr (mkResult ''web-app'' ''Web Application'' (double 0.85)
                    (usingReason fws frontendFrameworks))
            else if hasFramework fws backendFrameworks then
              Inr (mkResult ''backend'' ''Backend/API'' (double 0.85)
                    (usingReason fws backendFrameworks))
            else if hasPublicFolder fs \<or> hasIndexHtml fs then
              Inr (mkResult ''web-app'' ''Web Application'' (double 0.6)
                    ''Has public folder or index.html'')
            else if hasServerFile fs \<and> \<not> hasPublicFolder fs \<and> \<not> hasIndexHtml fs then
              Inr (mkResult ''backend'' ''Backend/API'' (double 0.6) ''Has server entry file'')
            else
              Inr (mkResult ''unknown'' ''Project'' (double 0.3) ''Could not determine project type'')))"

section \<open>Language detector (languageDetector)\<close>

text \<open>
  Language mapping by extension. The scanner sets \<open>file.extension\<close> to
  \<open>path.extname(name).toLowerCase()\<close>, which is empty or starts with a dot, so
  \<open>LANGUAGE_MAP[file.extension]\<close> reads an own property of the table or \<open>undefined\<close>.
\<close>

definition LANGUAGE_MAP :: "(string \<times> string) list" where
  "LANGUAGE_MAP =
     [(''.js'', ''JavaScript''),
      (''.jsx'', ''JavaScript (React)''),
      (''.ts'', ''TypeScript''),
      (''.tsx'', ''TypeScript (React)''),
      (''.mjs'', ''JavaScript (ESM)''),
      (''.cjs'', ''JavaScript (CommonJS)''),
      (''.py'', ''Python''),
      (''.pyw'', ''Python''),
      (''.java'', ''Java''),
      (''.kt'', ''Kotlin''),
      (''.scala'', ''Scala''),
      (''.go'', ''Go''),
      (''.rs'', ''Rust''),
      (''.rb'', ''Ruby''),
      (''.php'', ''PHP''),
      (''.cs'', ''C#''),
      (''.fs'', ''F#''),
      (''.cpp'', ''C++''),
      (''.c'', ''C''),
      (''.h'', ''C/C++ Header''),
      (''.hpp'', ''C++ Header''),
      (''.swift'', ''Swift''),
      (''.dart'', ''Dart''),
      (''.vue'', ''Vue.js''),
      (''.svelte'', ''Svelte''),
      (''.html'', ''HTML''),
      (''.css'', ''CSS''),
      (''.scss'', ''SCSS''),
      (''.sass'', ''Sass''),
      (''.less'', ''Less'')]"

text \<open>The test \<open>!file.isDirectory && LANGUAGE_MAP[file.extension]\<close> of the counting loop.\<close>

definition recognized :: "ProjectFile \<Rightarrow> bool" where
  "recognized f = (\<not> isDirectory f \<and> map_of LANGUAGE_MAP (extension f) \<noteq> None)"

text \<open>
  \<open>extensionCounts[ext] = (extensionCounts[ext] || 0) + 1\<close>. The object keeps its keys
  in the order of their first insertion, which is the order \<open>Object.entries\<close> lists.
\<close>

fun bump :: "(string \<times> nat) list \<Rightarrow> string \<Rightarrow> (string \<times> nat) list" where
  "bump [] ext = [(ext, 1)]"
| "bump ((e, n) # rest) ext = (if e = ext then (e, n + 1) # rest else (e, n) # bump rest ext)"

definition extensionCounts :: "ProjectFile list \<Rightarrow> (string \<times> nat) list" where
  "extensionCounts fs = fold (\<lambda>f acc. if recognized f then bump acc (extension f) else acc) fs []"

definition totalFilesCount :: "ProjectFile list \<Rightarrow> nat" where
  "totalFilesCount fs = length (filter recognized fs)"

text \<open>
  \<open>Math.round((count / totalFiles) * 100)\<close>, in double arithmetic: the quotient is
  rounded to a double, then its product with 100, and \<open>Math.round\<close> gives the nearest
  integer, a half going up. (23 files of 40: the quotient is just below 0.575, the
  product is 57.49999999999999 and the percentage 57.)
\<close>

definition roundPercent :: "nat \<Rightarrow> nat \<Rightarrow> nat" where
  "roundPercent cnt tot = nat (mathRound (doubleMul (doubleDiv (of_nat cnt) (of_nat tot)) 100))"

definition languageEntry :: "nat \<Rightarrow> string \<times> nat \<Rightarrow> LanguageStat" where
  "languageEntry tot e =
     \<lparr>langName = (case map_of LANGUAGE_MAP (fst e) of Some n \<Rightarrow> n | None \<Rightarrow> ''undefined''),
      percentage = roundPercent (snd e) tot,
      fileCount = snd e\<rparr>"

text \<open>
  \<open>languages.sort((a, b) => b.fileCount - a.fileCount)\<close>: by file count, descending;
  the sort is stable, so entries with equal counts keep their order.
\<close>

definition sortByFileCount :: "LanguageStat list \<Rightarrow> LanguageStat list" where
  "sortByFileCount ls = sort_key (\<lambda>l. - int (fileCount l)) ls"

text \<open>\<open>lang.name.split(' ')[0]\<close>\<close>

definition baseName :: "LanguageStat \<Rightarrow> string" where
  "baseName l = takeWhile (\<lambda>c. c \<noteq> CHR '' '') (langName l)"

text \<open>
  \<open>existing = merged.find(l => l.name.startsWith(baseName))\<close>, then
  \<open>existing.fileCount += lang.fileCount; existing.percentage += lang.percentage\<close>:
  the first entry whose name starts with the base name absorbs the counts; when there is
  none the counts are dropped.
\<close>

fun addToExisting :: "string \<Rightarrow> LanguageStat \<Rightarrow> LanguageStat list \<Rightarrow> LanguageStat list" where
  "addToExisting b lang [] = []"
| "addToExisting b lang (m # ms) =
     (if startsWith (langName m) b
      then m\<lparr>fileCount := fileCount m + fileCount lang,
             percentage := percentage m + percentage lang\<rparr> # ms
      else m # addToExisting b lang ms)"

text \<open>One turn of the merge loop on the state \<open>(seen, merged)\<close>.\<close>

definition mergeStep :: "LanguageStat \<Rightarrow> string list \<times> LanguageStat list \<Rightarrow> string list \<times> LanguageStat list" where
  "mergeStep lang st =
     (if baseName lang \<notin> set (fst st)
      then (fst st @ [baseName lang], snd st @ [lang])
      else (fst st, addToExisting (baseName lang) lang (snd st)))"

definition mergeLanguages :: "LanguageStat list \<Rightarrow> LanguageStat list" where
  "mergeLanguages ls = snd (fold mergeStep ls ([], []))"

text \<open>The list \<open>merged\<close> at the end of \<open>detectLanguages\<close>, before \<open>merged.slice(0, 5)\<close>.\<close>

definition mergedLanguages :: "ProjectInfo \<Rightarrow> LanguageStat list" where
  "mergedLanguages projectInfo =
     (let fs = files projectInfo; tot = totalFilesCount fs
      in if tot = 0 then []
         else mergeLanguages (sortByFileCount (map (languageEntry tot) (extensionCounts fs))))"

definition detectLanguages :: "ProjectInfo \<Rightarrow> LanguageStat list" where
  "detectLanguages projectInfo = take 5 (mergedLanguages projectInfo)"

section \<open>Badge generator (badgeGenerator)\<close>

record BadgeConfig =
  cfgName :: string
  color :: string
  logo :: string
  logoColor :: string

record Badge =
  label :: string
  markdown :: string
  badgeCategory :: string

text \<open>
  The badge database and the detection mappings. A lookup \<open>TABLE[name]\<close> with a name
  that the table inherits from \<open>Object.prototype\<close> (\<open>constructor\<close>, \<open>toString\<close>, ...)
  gives a function or an object, and \<open>createBadge\<close> finds no entry of \<open>TECH_BADGES\<close>
  under it: no badge is added, as for a name the table does not have. The lookups are
  therefore \<open>map_of\<close> on the entries written in the source.
\<close>

definition mkConfig :: "string \<Rightarrow> string \<Rightarrow> string \<Rightarrow> string \<Rightarrow> BadgeConfig" where
  "mkConfig n c l lc = \<lparr>cfgName = n, color = c, logo = l, logoColor = lc\<rparr>"

definition TECH_BADGES :: "(string \<times> BadgeConfig) list" where
  "TECH_BADGES =
     [(''javascript'', mkConfig ''JavaScript'' ''F7DF1E'' ''javascript'' ''black''),
      (''typescript'', mkConfig ''TypeScript'' ''3178C6'' ''typescript'' ''white''),
      (''python'', mkConfig ''Python'' ''3776AB'' ''python'' ''white''),
      (''java'', mkConfig ''Java'' ''ED8B00'' ''openjdk'' ''white''),
      (''go'', mkConfig ''Go'' ''00ADD8'' ''go'' ''white''),
      (''rust'', mkConfig ''Rust'' ''000000'' ''rust'' ''white''),
      (''ruby'', mkConfig ''Ruby'' ''CC342D'' ''ruby'' ''white''),
      (''php'', mkConfig ''PHP'' ''777BB4'' ''php'' ''white''),
      (''csharp'', mkConfig ''C%23'' ''239120'' ''csharp'' ''white''),
      (''cpp'', mkConfig ''C%2B%2B'' ''00599C'' ''cplusplus'' ''white''),
      (''c'', mkConfig ''C'' ''A8B9CC'' ''c'' ''black''),
      (''swift'', mkConfig ''Swift'' ''FA7343'' ''swift'' ''white''),
      (''kotlin'', mkConfig ''Kotlin'' ''7F52FF'' ''kotlin'' ''white''),
      (''dart'', mkConfig ''Dart'' ''0175C2'' ''dart'' ''white''),
      (''html'', mkConfig ''HTML5'' ''E34F26'' ''html5'' ''white''),
      (''css'', mkConfig ''CSS3'' ''1572B6'' ''css3'' ''white''),
      (''sass'', mkConfig ''Sass'' ''CC6699'' ''sass'' ''white''),
      (''lua'', mkConfig ''Lua'' ''2C2D72'' ''lua'' ''white''),
      (''perl'', mkConfig ''Perl'' ''39457E'' ''perl'' ''white''),
      (''r'', mkConfig ''R'' ''276DC3'' ''r'' ''white''),
      (''scala'', mkConfig ''Scala'' ''DC322F'' ''scala'' ''white''),
      (''elixir'', mkConfig ''Elixir'' ''4B275F'' ''elixir'' ''white''),
      (''haskell'', mkConfig ''Haskell'' ''5D4F85'' ''haskell'' ''white''),
      (''clojure'', mkConfig ''Clojure'' ''5881D8'' ''clojure'' ''white''),
      (''react'', mkConfig ''React'' ''61DAFB'' ''react'' ''black''),
      (''vue'', mkConfig ''Vue.js'' ''4FC08D'' ''vuedotjs'' ''white''),
      (''angular'', mkConfig ''Angular'' ''DD0031'' ''angular'' ''white''),
      (''svelte'', mkConfig ''Svelte'' ''FF3E00'' ''svelte'' ''white''),
      (''next'', mkConfig ''Next.js'' ''000000'' ''nextdotjs'' ''white''),
      (''nuxt'', mkConfig ''Nuxt.js'' ''00DC82'' ''nuxtdotjs'' ''white''),
      (''gatsby'', mkConfig ''Gatsby'' ''663399'' ''gatsby'' ''white''),
      (''astro'', mkConfig ''Astro'' ''FF5D01'' ''astro'' ''white''),
      (''solid'', mkConfig ''Solid.js'' ''2C4F7C'' ''solid'' ''white''),
      (''remix'', mkConfig ''Remix'' ''000000'' ''remix'' ''white''),
      (''preact'', mkConfig ''Preact'' ''673AB8'' ''preact'' ''white''),
      (''alpine'', mkConfig ''Alpine.js'' ''8BC0D0'' ''alpinedotjs'' ''black''),
      (''htmx'', mkConfig ''HTMX'' ''3D72D7'' ''htmx'' ''white''),
      (''node'', mkConfig ''Node.js'' ''339933'' ''nodedotjs'' ''white''),
      (''express'', mkConfig ''Express'' ''000000'' ''express'' ''white''),
      (''nestjs'', mkConfig ''NestJS'' ''E0234E'' ''nestjs'' ''white''),
      (''fastify'', mkConfig ''Fastify'' ''000000'' ''fastify'' ''white''),
      (''koa'', mkConfig ''Koa'' ''33333D'' ''koa'' ''white''),
      (''django'', mkConfig ''Django'' ''092E20'' ''django'' ''white''),
      (''flask'', mkConfig ''Flask'' ''000000'' ''flask'' ''white''),
      (''fastapi'', mkConfig ''FastAPI'' ''009688'' ''fastapi'' ''white''),
      (''spring'', mkConfig ''Spring'' ''6DB33F'' ''spring'' ''white''),
      (''rails'', mkConfig ''Rails'' ''CC0000'' ''rubyonrails'' ''white''),
      (''laravel'', mkConfig ''Laravel'' ''FF2D20'' ''laravel'' ''white''),
      (''gin'', mkConfig ''Gin'' ''00ADD8'' ''gin'' ''white''),
      (''fiber'', mkConfig ''Fiber'' ''00ACD7'' ''go'' ''white''),
      (''actix'', mkConfig ''Actix'' ''000000'' ''rust'' ''white''),
      (''deno'', mkConfig ''Deno'' ''000000'' ''deno'' ''white''),
      (''bun'', mkConfig ''Bun'' ''000000'' ''bun'' ''white''),
      (''tailwind'', mkConfig ''Tailwind'' ''06B6D4'' ''tailwindcss'' ''white''),
      (''bootstrap'', mkConfig ''Bootstrap'' ''7952B3'' ''bootstrap'' ''white''),
      (''mui'', mkConfig ''MUI'' ''007FFF'' ''mui'' ''white''),
      (''chakra'', mkConfig ''Chakra%20UI'' ''319795'' ''chakraui'' ''white''),
      (''antdesign'', mkConfig ''Ant%20Design'' ''0170FE'' ''antdesign'' ''white''),
      (''shadcn'', mkConfig ''shadcn/ui'' ''000000'' ''shadcnui'' ''white''),
      (''radix'', mkConfig ''Radix%20UI'' ''161618'' ''radixui'' ''white''),
      (''bulma'', mkConfig ''Bulma'' ''00D1B2'' ''bulma'' ''white''),
      (''styled'', mkConfig ''Styled%20Components'' ''DB7093'' ''styledcomponents'' ''white''),
      (''mongodb'', mkConfig ''MongoDB'' ''47A248'' ''mongodb'' ''white''),
      (''postgresql'', mkConfig ''PostgreSQL'' ''4169E1'' ''postgresql'' ''white''),
      (''mysql'', mkConfig ''MySQL'' ''4479A1'' ''mysql'' ''white''),
      (''sqlite'', mkConfig ''SQLite'' ''003B57'' ''sqlite'' ''white''),
      (''redis'', mkConfig ''Redis'' ''DC382D'' ''redis'' ''white''),
      (''supabase'', mkConfig ''Supabase'' ''3FCF8E'' ''supabase'' ''white''),
      (''firebase'', mkConfig ''Firebase'' ''FFCA28'' ''firebase'' ''black''),
      (''prisma'', mkConfig ''Prisma'' ''2D3748'' ''prisma'' ''white''),
      (''dynamodb'', mkConfig ''DynamoDB'' ''4053D6'' ''amazondynamodb'' ''white''),
      (''elasticsearch'', mkConfig ''Elasticsearch'' ''005571'' ''elasticsearch'' ''white''),
      (''neo4j'', mkConfig ''Neo4j'' ''4581C3'' ''neo4j'' ''white''),
      (''cassandra'', mkConfig ''Cassandra'' ''1287B1'' ''apachecassandra'' ''white''),
      (''couchdb'', mkConfig ''CouchDB'' ''E42528'' ''apachecouchdb'' ''white''),
      (''mariadb'', mkConfig ''MariaDB'' ''003545'' ''mariadb'' ''white''),
      (''jest'', mkConfig ''Jest'' ''C21325'' ''jest'' ''white''),
      (''mocha'', mkConfig ''Mocha'' ''8D6748'' ''mocha'' ''white''),
      (''cypress'', mkConfig ''Cypress'' ''17202C'' ''cypress'' ''white''),
      (''playwright'', mkConfig ''Playwright'' ''2EAD33'' ''playwright'' ''white''),
      (''vitest'', mkConfig ''Vitest'' ''6E9F18'' ''vitest'' ''white''),
      (''pytest'', mkConfig ''Pytest'' ''0A9EDC'' ''pytest'' ''white''),
      (''junit'', mkConfig ''JUnit5'' ''25A162'' ''junit5'' ''white''),
      (''webpack'', mkConfig ''Webpack'' ''8DD6F9'' ''webpack'' ''black''),
      (''vite'', mkConfig ''Vite'' ''646CFF'' ''vite'' ''white''),
      (''rollup'', mkConfig ''Rollup'' ''EC4A3F'' ''rollupdotjs'' ''white''),
      (''esbuild'', mkConfig ''esbuild'' ''FFCF00'' ''esbuild'' ''black''),
      (''turbopack'', mkConfig ''Turbopack'' ''000000'' ''turbopack'' ''white''),
      (''parcel'', mkConfig ''Parcel'' ''21374B'' ''parcel'' ''white''),
      (''gulp'', mkConfig ''Gulp'' ''CF4647'' ''gulp'' ''white''),
      (''grunt'', mkConfig ''Grunt'' ''FAA918'' ''grunt'' ''white''),
      (''docker'', mkConfig ''Docker'' ''2496ED'' ''docker'' ''white''),
      (''kubernetes'', mkConfig ''Kubernetes'' ''326CE5'' ''kubernetes'' ''white''),
      (''git'', mkConfig ''Git'' ''F05032'' ''git'' ''white''),
      (''github'', mkConfig ''GitHub'' ''181717'' ''github'' ''white''),
      (''gitlab'', mkConfig ''GitLab'' ''FC6D26'' ''gitlab'' ''white''),
      (''actions'', mkConfig ''GitHub%20Actions'' ''2088FF'' ''githubactions'' ''white''),
      (''jenkins'', mkConfig ''Jenkins'' ''D24939'' ''jenkins'' ''white''),
      (''circleci'', mkConfig ''CircleCI'' ''343434'' ''circleci'' ''white''),
      (''nginx'', mkConfig ''Nginx'' ''009639'' ''nginx'' ''white''),
      (''apache'', mkConfig ''Apache'' ''D22128'' ''apache'' ''white''),
      (''aws'', mkConfig ''AWS'' ''232F3E'' ''amazonaws'' ''white''),
      (''azure'', mkConfig ''Azure'' ''0078D4'' ''microsoftazure'' ''white''),
      (''gcp'', mkConfig ''Google%20Cloud'' ''4285F4'' ''googlecloud'' ''white''),
      (''vercel'', mkConfig ''Vercel'' ''000000'' ''vercel'' ''white''),
      (''netlify'', mkConfig ''Netlify'' ''00C7B7'' ''netlify'' ''white''),
      (''heroku'', mkConfig ''Heroku'' ''430098'' ''heroku'' ''white''),
      (''digitalocean'', mkConfig ''DigitalOcean'' ''0080FF'' ''digitalocean'' ''white''),
      (''cloudflare'', mkConfig ''Cloudflare'' ''F38020'' ''cloudflare'' ''white''),
      (''railway'', mkConfig ''Railway'' ''0B0D0E'' ''railway'' ''white''),
      (''render'', mkConfig ''Render'' ''46E3B7'' ''render'' ''black''),
      (''eslint'', mkConfig ''ESLint'' ''4B32C3'' ''eslint'' ''white''),
      (''prettier'', mkConfig ''Prettier'' ''F7B93E'' ''prettier'' ''black''),
      (''biome'', mkConfig ''Biome'' ''60A5FA'' ''biome'' ''white''),
      (''reactnative'', mkConfig ''React%20Native'' ''61DAFB'' ''react'' ''black''),
      (''flutter'', mkConfig ''Flutter'' ''02569B'' ''flutter'' ''white''),
      (''expo'', mkConfig ''Expo'' ''000020'' ''expo'' ''white''),
      (''ionic'', mkConfig ''Ionic'' ''3880FF'' ''ionic'' ''white''),
      (''tensorflow'', mkConfig ''TensorFlow'' ''FF6F00'' ''tensorflow'' ''white''),
      (''pytorch'', mkConfig ''PyTorch'' ''EE4C2C'' ''pytorch'' ''white''),
      (''openai'', mkConfig ''OpenAI'' ''412991'' ''openai'' ''white''),
      (''langchain'', mkConfig ''LangChain'' ''1C3C3C'' ''langchain'' ''white''),
      (''npm'', mkConfig ''npm'' ''CB3837'' ''npm'' ''white''),
      (''yarn'', mkConfig ''Yarn'' ''2C8EBB'' ''yarn'' ''white''),
      (''pnpm'', mkConfig ''pnpm'' ''F69220'' ''pnpm'' ''white''),
      (''pip'', mkConfig ''pip'' ''3776AB'' ''pypi'' ''white''),
      (''cargo'', mkConfig ''Cargo'' ''000000'' ''rust'' ''white'')]"

text \<open>Maps detected language names to badge keys (\<open>LANGUAGE_MAP\<close> of the badge generator).\<close>

definition BADGE_LANGUAGE_MAP :: "(string \<times> string) list" where
  "BADGE_LANGUAGE_MAP =
     [(''JavaScript'', ''javascript''),
      (''TypeScript'', ''typescript''),
      (''Python'', ''python''),
      (''Java'', ''java''),
      (''Go'', ''go''),
      (''Rust'', ''rust''),
      (''Ruby'', ''ruby''),
      (''PHP'', ''php''),
      (''C#'', ''csharp''),
      (''C++'', ''cpp''),
      (''C'', ''c''),
      (''Swift'', ''swift''),
      (''Kotlin'', ''kotlin''),
      (''Dart'', ''dart''),
      (''HTML'', ''html''),
      (''CSS'', ''css''),
      (''Sass'', ''sass''),
      (''SCSS'', ''sass''),
      (''Lua'', ''lua''),
      (''Perl'', ''perl''),
      (''R'', ''r''),
      (''Scala'', ''scala''),
      (''Elixir'', ''elixir''),
      (''Haskell'', ''haskell''),
      (''Clojure'', ''clojure'')]"

text \<open>Maps detected framework names to badge keys.\<close>

definition FRAMEWORK_MAP :: "(string \<times> string) list" where
  "FRAMEWORK_MAP =
     [(''React'', ''react''),
      (''Vue.js'', ''vue''),
      (''Vue'', ''vue''),
      (''Angular'', ''angular''),
      (''Svelte'', ''svelte''),
      (''Next.js'', ''next''),
      (''Nuxt.js'', ''nuxt''),
      (''Gatsby'', ''gatsby''),
      (''Astro'', ''astro''),
      (''Remix'', ''remix''),
      (''Express'', ''express''),
      (''NestJS'', ''nestjs''),
      (''Fastify'', ''fastify''),
      (''Koa'', ''koa''),
      (''Django'', ''django''),
      (''Flask'', ''flask''),
      (''FastAPI'', ''fastapi''),
      (''Spring Boot'', ''spring''),
      (''Ruby on Rails'', ''rails''),
      (''Laravel'', ''laravel''),
      (''Gin'', ''gin''),
      (''TailwindCSS'', ''tailwind''),
      (''Tailwind CSS'', ''tailwind''),
      (''Bootstrap'', ''bootstrap''),
      (''Material-UI'', ''mui''),
      (''MUI'', ''mui''),
      (''Chakra UI'', ''chakra''),
      (''Ant Design'', ''antdesign''),
      (''Flutter'', ''flutter''),
      (''React Native'', ''reactnative''),
      (''Expo'', ''expo''),
      (''Ionic'', ''ionic'')]"

text \<open>Maps package.json dependencies to badge keys.\<close>

definition DEPENDENCY_MAP :: "(string \<times> string) list" where
  "DEPENDENCY_MAP =
     [(''react'', ''react''),
      (''react-dom'', ''react''),
      (''vue'', ''vue''),
      (''@angular/core'', ''angular''),
      (''svelte'', ''svelte''),
      (''next'', ''next''),
      (''nuxt'', ''nuxt''),
      (''gatsby'', ''gatsby''),
      (''astro'', ''astro''),
      (''@remix-run/react'', ''remix''),
      (''solid-js'', ''solid''),
      (''preact'', ''preact''),
      (''alpinejs'', ''alpine''),
      (''htmx.org'', ''htmx''),
      (''express'', ''express''),
      (''@nestjs/core'', ''nestjs''),
      (''fastify'', ''fastify''),
      (''koa'', ''koa''),
      (''tailwindcss'', ''tailwind''),
      (''bootstrap'', ''bootstrap''),
      (''@mui/material'', ''mui''),
      (''@chakra-ui/react'', ''chakra''),
      (''antd'', ''antdesign''),
      (''@radix-ui/react-dialog'', ''radix''),
      (''styled-components'', ''styled''),
      (''bulma'', ''bulma''),
      (''mongoose'', ''mongodb''),
      (''mongodb'', ''mongodb''),
      (''pg'', ''postgresql''),
      (''mysql2'', ''mysql''),
      (''better-sqlite3'', ''sqlite''),
      (''sqlite3'', ''sqlite''),
      (''redis'', ''redis''),
      (''ioredis'', ''redis''),
      (''@supabase/supabase-js'', ''supabase''),
      (''firebase'', ''firebase''),
      (''@prisma/client'', ''prisma''),
      (''prisma'', ''prisma''),
      (''jest'', ''jest''),
      (''mocha'', ''mocha''),
      (''cypress'', ''cypress''),
      (''@playwright/test'', ''playwright''),
      (''vitest'', ''vitest''),
      (''webpack'', ''webpack''),
      (''vite'', ''vite''),
      (''rollup'', ''rollup''),
      (''esbuild'', ''esbuild''),
      (''parcel'', ''parcel''),
      (''eslint'', ''eslint''),
      (''prettier'', ''prettier''),
      (''@biomejs/biome'', ''biome''),
      (''react-native'', ''reactnative''),
      (''expo'', ''expo''),
      (''@ionic/react'', ''ionic''),
      (''openai'', ''openai''),
      (''langchain'', ''langchain''),
      (''@tensorflow/tfjs'', ''tensorflow'')]"

text \<open>Maps build tools to badge keys.\<close>

definition BUILD_TOOL_MAP :: "(string \<times> string) list" where
  "BUILD_TOOL_MAP =
     [(''webpack'', ''webpack''),
      (''vite'', ''vite''),
      (''rollup'', ''rollup''),
      (''esbuild'', ''esbuild''),
      (''parcel'', ''parcel''),
      (''gulp'', ''gulp''),
      (''grunt'', ''grunt'')]"

text \<open>Maps package managers to badge keys.\<close>

definition PACKAGE_MANAGER_MAP :: "(string \<times> string) list" where
  "PACKAGE_MANAGER_MAP =
     [(''npm'', ''npm''),
      (''yarn'', ''yarn''),
      (''pnpm'', ''pnpm''),
      (''pip'', ''pip''),
      (''cargo'', ''cargo'')]"

definition getCategoryForKey :: "string \<Rightarrow> string" where
  "getCategoryForKey key =
     (if key \<in> set
          [''javascript'', ''typescript'', ''python'', ''java'', ''go'', ''rust'',
           ''ruby'', ''php'', ''csharp'', ''cpp'', ''c'', ''swift'', ''kotlin'', ''dart'',
           ''html'', ''css'', ''sass'', ''lua'', ''perl'', ''r'', ''scala'', ''elixir'',
           ''haskell'', ''clojure'']
      then ''language''
      else if key \<in> set
          [''mongodb'', ''postgresql'', ''mysql'', ''sqlite'', ''redis'', ''supabase'',
           ''firebase'', ''prisma'', ''dynamodb'', ''elasticsearch'', ''neo4j'',
           ''cassandra'', ''couchdb'', ''mariadb'']
      then ''database''
      else if key \<in> set
          [''aws'', ''azure'', ''gcp'', ''vercel'', ''netlify'', ''heroku'',
           ''digitalocean'', ''cloudflare'', ''railway'', ''render'']
      then ''cloud''
      else if key \<in> set
          [''docker'', ''kubernetes'', ''git'', ''github'', ''gitlab'', ''actions'',
           ''jenkins'', ''circleci'', ''nginx'', ''apache'', ''webpack'', ''vite'',
           ''rollup'', ''esbuild'', ''parcel'', ''gulp'', ''grunt'', ''eslint'',
           ''prettier'', ''biome'', ''npm'', ''yarn'', ''pnpm'', ''pip'', ''cargo'']
      then ''tool''
      else ''framework'')"

text \<open>Generate a single badge markdown. \<open>None\<close> is the \<open>null\<close> of an unknown key.\<close>

definition createBadge :: "string \<Rightarrow> string \<Rightarrow> Badge option" where
  "createBadge key style =
     (case map_of TECH_BADGES key of
        None \<Rightarrow> None
      | Some config \<Rightarrow>
          Some \<lparr>label = replaceStr ''%23'' ''#''
                          (replaceStr ''%2B'' ''+'' (replaceStr ''%20'' '' '' (cfgName config))),
                markdown =
                  ''!['' @ replaceStr ''%20'' '' '' (cfgName config) @
                  ''](https://img.shields.io/badge/'' @ cfgName config @ ''-'' @ color config @
                  ''?style='' @ style @ ''&logo='' @ logo config @ ''&logoColor='' @
                  (if logoColor config = [] then ''white'' else logoColor config) @ '')'',
                badgeCategory = getCategoryForKey key\<rparr>)"

text \<open>
  The helper \<open>addBadge\<close> of \<open>generateAllBadges\<close>, on the state \<open>(badges, addedKeys)\<close>:
  add the badge if the key is not already added. The set \<open>addedKeys\<close> is the list of
  its members in the order of their insertion.
\<close>

definition addBadge :: "string \<Rightarrow> string \<Rightarrow> Badge list \<times> string list \<Rightarrow> Badge list \<times> string list" where
  "addBadge style key st =
     (if key \<notin> set (snd st)
      then (case createBadge key style of
              Some badge \<Rightarrow> (fst st @ [badge], snd st @ [key])
            | None \<Rightarrow> st)
      else st)"

text \<open>
  The keys each step of \<open>generateAllBadges\<close> passes to \<open>addBadge\<close>, in the order of the
  calls.
  1. Language badges: \<open>LANGUAGE_MAP[lang.name] || LANGUAGE_MAP[lang.name.split(' ')[0]]\<close>.
\<close>

definition languageKey :: "LanguageStat \<Rightarrow> string option" where
  "languageKey lang =
     (case map_of BADGE_LANGUAGE_MAP (langName lang) of
        Some key \<Rightarrow> Some key
      | None \<Rightarrow> map_of BADGE_LANGUAGE_MAP (baseName lang))"

definition languageKeys :: "DetectionResult \<Rightarrow> string list" where
  "languageKeys detection = List.map_filter languageKey (languages detection)"

text \<open>2. Framework badges.\<close>

definition frameworkKeys :: "DetectionResult \<Rightarrow> string list" where
  "frameworkKeys detection =
     List.map_filter (\<lambda>fw. map_of FRAMEWORK_MAP (fwName fw)) (frameworks detection)"

text \<open>
  3. Badges from the dependencies:
  \<open>Object.keys({...packageJson?.dependencies, ...packageJson?.devDependencies})\<close>.
  A key of both objects stands once, where \<open>dependencies\<close> has it. (JavaScript lists
  keys that are array indices first; \<open>DEPENDENCY_MAP\<close> has no such key, so the badges
  and their order are the same.)
\<close>

fun firstOccurrences :: "string list \<Rightarrow> string list \<Rightarrow> string list" where
  "firstOccurrences seen [] = []"
| "firstOccurrences seen (k # ks) =
     (if k \<in> set seen then firstOccurrences seen ks else k # firstOccurrences (k # seen) ks)"

definition depNames :: "json option \<Rightarrow> string list" where
  "depNames pkg =
     firstOccurrences [] (ownKeys (getProp pkg ''dependencies'') @
                          ownKeys (getProp pkg ''devDependencies''))"

definition dependencyKeys :: "ProjectInfo \<Rightarrow> string list" where
  "dependencyKeys projectInfo =
     List.map_filter (map_of DEPENDENCY_MAP) (depNames (packageJson projectInfo))"

text \<open>4. Build tool badges.\<close>

definition buildToolKeys :: "DetectionResult \<Rightarrow> string list" where
  "buildToolKeys detection =
     List.map_filter (\<lambda>tool. map_of BUILD_TOOL_MAP (toLowerCase tool)) (buildTools detection)"

text \<open>5. Package manager badge (\<open>if (detection.packageManager)\<close>: not null, not empty).\<close>

definition packageManagerKeys :: "DetectionResult \<Rightarrow> string list" where
  "packageManagerKeys detection =
     (case packageManager detection of
        None \<Rightarrow> []
      | Some pm \<Rightarrow>
          if pm = [] then []
          else (case map_of PACKAGE_MANAGER_MAP (toLowerCase pm) of
                  Some key \<Rightarrow> [key] | None \<Rightarrow> []))"

text \<open>6. Node.js badge, 7. Docker badge, 8. GitHub Actions badge.\<close>

definition nodeKeys :: "ProjectInfo \<Rightarrow> string list" where
  "nodeKeys projectInfo =
     (if truthy (getProp (getProp (packageJson projectInfo) ''engines'') ''node'')
      then [''node''] else [])"

definition dockerKeys :: "ProjectInfo \<Rightarrow> string list" where
  "dockerKeys projectInfo =
     (if list_ex (\<lambda>f. includesStr (toLowerCase (path f)) ''dockerfile'') (files projectInfo)
      then [''docker''] else [])"

definition actionsKeys :: "ProjectInfo \<Rightarrow> string list" where
  "actionsKeys projectInfo =
     (if list_ex (\<lambda>f. includesStr (path f) ''.github/workflows'') (files projectInfo)
      then [''actions''] else [])"

definition candidateKeys :: "ProjectInfo \<Rightarrow> DetectionResult \<Rightarrow> string list" where
  "candidateKeys projectInfo detection =
     languageKeys detection @ frameworkKeys detection @ dependencyKeys projectInfo @
     buildToolKeys detection @ packageManagerKeys detection @ nodeKeys projectInfo @
     dockerKeys projectInfo @ actionsKeys projectInfo"

text \<open>
  9. Meta badges: they are pushed without a key. \<open>encodeURIComponent(license)\<close> and the
  template literal with \<open>version\<close> convert the value to a string first; the conversion
  and the encoding can throw, and nothing catches the exception.
\<close>

definition generateLicenseBadge :: "ProjectInfo \<Rightarrow> error + Badge option" where
  "generateLicenseBadge projectInfo =
     (case getProp (packageJson projectInfo) ''license'' of
        None \<Rightarrow> Inr None
      | Some license \<Rightarrow>
          if \<not> truthy (Some license) then Inr None
          else (case jsToString license of
                  Inl e \<Rightarrow> Inl e
                | Inr printed \<Rightarrow>
                    (case encodeURIComponent printed of
                       Inl e \<Rightarrow> Inl e
                     | Inr encoded \<Rightarrow>
                         Inr (Some \<lparr>label = ''License'',
                                    markdown = ''![License](https://img.shields.io/badge/License-'' @
                                      encoded @ ''-blue?style=flat-square)'',
                                    badgeCategory = ''meta''\<rparr>))))"

definition generateVersionBadge :: "ProjectInfo \<Rightarrow> error + Badge option" where
  "generateVersionBadge projectInfo =
     (case getProp (packageJson projectInfo) ''version'' of
        None \<Rightarrow> Inr None
      | Some version \<Rightarrow>
          if \<not> truthy (Some version) then Inr None
          else (case jsToString version of
                  Inl e \<Rightarrow> Inl e
                | Inr printed \<Rightarrow>
                    Inr (Some \<lparr>label = ''Version'',
                               markdown = ''![Version](https://img.shields.io/badge/Version-'' @
                                 printed @ ''-green?style=flat-square)'',
                               badgeCategory = ''meta''\<rparr>)))"

definition generatePRsWelcomeBadge :: Badge where
  "generatePRsWelcomeBadge =
     \<lparr>label = ''PRs Welcome'',
      markdown = ''![PRs Welcome](https://img.shields.io/badge/PRs-Welcome-brightgreen?style=flat-square)'',
      badgeCategory = ''meta''\<rparr>"

text \<open>The license badge is generated first; when it throws, the version is not read.\<close>

definition metaBadges :: "ProjectInfo \<Rightarrow> error + Badge list" where
  "metaBadges projectInfo =
     (case generateLicenseBadge projectInfo of
        Inl e \<Rightarrow> Inl e
      | Inr licenseBadge \<Rightarrow>
          (case generateVersionBadge projectInfo of
             Inl e \<Rightarrow> Inl e
           | Inr versionBadge \<Rightarrow>
               Inr ((case licenseBadge of Some b \<Rightarrow> [b] | None \<Rightarrow> []) @
                    (case versionBadge of Some b \<Rightarrow> [b] | None \<Rightarrow> []) @
                    [generatePRsWelcomeBadge])))"

text \<open>
  Auto-detect and generate all applicable badges: the state \<open>(badges, addedKeys)\<close> after
  the calls of \<open>addBadge\<close> (steps 1 to 8, which throw nothing), then the list returned,
  or the exception of a meta badge.
\<close>

definition techBadgeState :: "ProjectInfo \<Rightarrow> DetectionResult \<Rightarrow> string \<Rightarrow> Badge list \<times> string list" where
  "techBadgeState projectInfo detection style =
     fold (addBadge style) (candidateKeys projectInfo detection) ([], [])"

definition generateAllBadges :: "ProjectInfo \<Rightarrow> DetectionResult \<Rightarrow> string \<Rightarrow> error + Badge list" where
  "generateAllBadges projectInfo detection style =
     (case metaBadges projectInfo of
        Inl e \<Rightarrow> Inl e
      | Inr meta \<Rightarrow> Inr (fst (techBadgeState projectInfo detection style) @ meta))"

definition getBadgesMarkdown :: "ProjectInfo \<Rightarrow> DetectionResult \<Rightarrow> string \<Rightarrow> error + string" where
  "getBadgesMarkdown projectInfo detection style =
     (case generateAllBadges projectInfo detection style of
        Inl e \<Rightarrow> Inl e
      | Inr badges \<Rightarrow> Inr (joinWith '' '' (map markdown badges)))"
section \<open>Offline fallback (offlineFallback)\<close>

text \<open>\<open>v || fallback\<close>, for a value of the manifest and for a string.\<close>

definition orDefault :: "json option \<Rightarrow> string \<Rightarrow> json" where
  "orDefault v fallback =
     (case v of None \<Rightarrow> JStr fallback
      | Some x \<Rightarrow> if truthy (Some x) then x else JStr fallback)"

definition orText :: "string \<Rightarrow> string \<Rightarrow> string" where
  "orText s fallback = (if s = [] then fallback else s)"

text \<open>Install and run commands based on the package manager (the \<open>switch\<close>).\<close>

definition installCommand :: "string \<Rightarrow> string" where
  "installCommand pm =
     (if pm = ''npm'' then ''npm install''
      else if pm = ''yarn'' then ''yarn''
      else if pm = ''pnpm'' then ''pnpm install''
      else if pm = ''pip'' then ''pip install -r requirements.txt''
      else if pm = ''cargo'' then ''cargo build''
      else if pm = ''go mod'' then ''go mod download''
      else ''npm install'')"

definition runCommand :: "string \<Rightarrow> json option \<Rightarrow> string" where
  "runCommand pm pkg =
     (let dev = truthy (getProp (getProp pkg ''scripts'') ''dev'');
          start = truthy (getProp (getProp pkg ''scripts'') ''start'')
      in
      if pm = ''npm'' then (if dev then ''npm run dev'' else if start then ''npm start'' else ''npm run start'')
      else if pm = ''yarn'' then (if dev then ''yarn dev'' else if start then ''yarn start'' else ''yarn start'')
      else if pm = ''pnpm'' then (if dev then ''pnpm dev'' else if start then ''pnpm start'' else ''pnpm start'')
      else if pm = ''pip'' then ''python main.py''
      else if pm = ''cargo'' then ''cargo run''
      else if pm = ''go mod'' then ''go run .''
      else ''npm start'')"

text \<open>
  The template literal of \<open>generateOfflineReadme\<close>, line by line, with the texts it
  prints.
\<close>

definition offlineTemplate :: "string \<Rightarrow> string \<Rightarrow> string \<Rightarrow> ProjectTypeResult \<Rightarrow> string \<Rightarrow> string \<Rightarrow> string \<Rightarrow> string \<Rightarrow> string \<Rightarrow> string \<Rightarrow> string" where
  "offlineTemplate pname badges description projectType languageNames frameworkNames pm
       installCmd runCmd licenseLine =
     joinLines
        [''# '' @ pname,
         '''',
         badges,
         '''',
         description,
         '''',
         ''## '' @ [CHR 0xF0, CHR 0x9F, CHR 0x93, CHR 0x8B] @ '' Table of Contents'',
         '''',
         ''- [About](#about)'',
         ''- [Features](#features)'',
         ''- [Tech Stack](#tech-stack)'',
         ''- [Getting Started](#getting-started)'',
         ''- [Usage](#usage)'',
         ''- [Contributing](#contributing)'',
         ''- [License](#license)'',
         '''',
         ''## '' @ [CHR 0xF0, CHR 0x9F, CHR 0x93, CHR 0x96] @ '' About'',
         '''',
         description,
         '''',
         ''**Project Type:** '' @ displayName projectType,
         '''',
         ''## '' @ [CHR 0xE2, CHR 0x9C, CHR 0xA8] @ '' Features'',
         '''',
         ''<!-- Add your features here -->'',
         ''- Feature 1'',
         ''- Feature 2'',
         ''- Feature 3'',
         '''',
         ''## '' @ [CHR 0xF0, CHR 0x9F, CHR 0x9B, CHR 0xA0, CHR 0xEF, CHR 0xB8, CHR 0x8F] @ '' Tech Stack'',
         '''',
         ''- **Languages:** '' @ languageNames,
         ''- **Frameworks:** '' @ frameworkNames,
         ''- **Package Manager:** '' @ pm,
         '''',
         ''## '' @ [CHR 0xF0, CHR 0x9F, CHR 0x9A, CHR 0x80] @ '' Getting Started'',
         '''',
         ''### Prerequisites'',
         '''',
         ''Make sure you have the following installed:'',
         ''- '' @ (if pm = ''pip'' then ''Python 3.x'' else ''Node.js (v16 or higher)''),
         ''- '' @ (toUpperCase (take 1 pm) @ drop 1 pm),
         '''',
         ''### Installation'',
         '''',
         ''1. Clone the repository:'',
         ''```bash'',
         ''git clone https://github.com/username/'' @ replaceSpaces (toLowerCase pname) @ ''.git'',
         ''cd '' @ replaceSpaces (toLowerCase pname),
         ''```'',
         '''',
         ''2. Install dependencies:'',
         ''```bash'',
         installCmd,
         ''```'',
         '''',
         ''## '' @ [CHR 0xF0, CHR 0x9F, CHR 0x92, CHR 0xBB] @ '' Usage'',
         '''',
         ''Run the project:'',
         '''',
         ''```bash'',
         runCmd,
         ''```'',
         '''',
         ''## '' @ [CHR 0xF0, CHR 0x9F, CHR 0xA4, CHR 0x9D] @ '' Contributing'',
         '''',
         ''Contributions are welcome! Please feel free to submit a Pull Request.'',
         '''',
         ''1. Fork the repository'',
         ''2. Create your feature branch (`git checkout -b feature/AmazingFeature`)'',
         ''3. Commit your changes (`git commit -m '' @ [CHR 0x27] @ ''Add some AmazingFeature'' @ [CHR 0x27] @ ''`)'',
         ''4. Push to the branch (`git push origin feature/AmazingFeature`)'',
         ''5. Open a Pull Request'',
         '''',
         ''## '' @ [CHR 0xF0, CHR 0x9F, CHR 0x93, CHR 0x84] @ '' License'',
         '''',
         licenseLine,
         '''',
         ''---'',
         '''',
         [CHR 0xE2, CHR 0x9A, CHR 0xA0, CHR 0xEF, CHR 0xB8, CHR 0x8F] @ '' *This README was generated offline using a basic template. For a better README, please configure your OpenRouter API key and regenerate.*'',
         '''']"

text \<open>
  The last substitution of the template:
  \<open>packageJson?.license ? `This project is licensed under the ${packageJson.license} License.` : ...\<close>
\<close>

definition licenseText :: "json option \<Rightarrow> error + string" where
  "licenseText pkg =
     (case getProp pkg ''license'' of
        None \<Rightarrow> Inr ''This project is licensed under the MIT License.''
      | Some license \<Rightarrow>
          if truthy (Some license)
          then (case jsToString license of
                  Inl e \<Rightarrow> Inl e
                | Inr printed \<Rightarrow> Inr (''This project is licensed under the '' @ printed @ '' License.''))
          else Inr ''This project is licensed under the MIT License.'')"

text \<open>
  Generate a basic README template without AI. \<open>getBadgesMarkdown\<close> is called first
  and can throw. The template literal then converts the name and the description to
  strings, calls \<open>projectName.toLowerCase()\<close>, a method that only a string has, and
  converts the license: each of these can throw a TypeError. Nothing in
  \<open>generateOfflineReadme\<close> catches an exception.
\<close>

definition generateOfflineReadme :: "ProjectInfo \<Rightarrow> DetectionResult \<Rightarrow> ProjectTypeResult \<Rightarrow> error + string" where
  "generateOfflineReadme projectInfo detection projectType =
     (let name = orDefault (Some (projectName projectInfo)) ''Project'';
          description = orDefault (getProp (packageJson projectInfo) ''description'') ''A software project'';
          languageNames = orText (joinWith '', '' (map langName (languages detection))) ''Not detected'';
          frameworkNames = orText (joinWith '', '' (map fwName (frameworks detection))) ''None'';
          pm = (case packageManager detection of None \<Rightarrow> ''npm'' | Some m \<Rightarrow> orText m ''npm'');
          installCmd = installCommand pm;
          runCmd = runCommand pm (packageJson projectInfo)
      in
      case getBadgesMarkdown projectInfo detection ''flat-square'' of
        Inl e \<Rightarrow> Inl e
      | Inr badges \<Rightarrow>
     (case jsToString name of
        Inl e \<Rightarrow> Inl e
      | Inr nameText \<Rightarrow>
     (case jsToString description of
        Inl e \<Rightarrow> Inl e
      | Inr descriptionText \<Rightarrow>
     (case name of
        JStr pname \<Rightarrow>
          (case licenseText (packageJson projectInfo) of
             Inl e \<Rightarrow> Inl e
           | Inr licenseLine \<Rightarrow>
               Inr (offlineTemplate pname badges descriptionText projectType languageNames
                      frameworkNames pm installCmd runCmd licenseLine))
      | _ \<Rightarrow> Inl TypeError))))"
section \<open>Template registry (templates)\<close>

record ReadmeSection =
  sectionId :: string
  sectionName :: string
  sectionDescription :: string
  defaultEnabled :: bool

record ReadmeTemplate =
  tplId :: string
  tplName :: string
  tplDescription :: string
  icon :: string
  sections :: "ReadmeSection list"
  promptPrefix :: string

definition mkSection :: "string \<Rightarrow> string \<Rightarrow> string \<Rightarrow> bool \<Rightarrow> ReadmeSection" where
  "mkSection i n d e = \<lparr>sectionId = i, sectionName = n, sectionDescription = d, defaultEnabled = e\<rparr>"

definition ALL_SECTIONS :: "ReadmeSection list" where
  "ALL_SECTIONS =
     [mkSection ''title'' ''Title & Badges'' ''Project name, badges, and hero section'' True,
      mkSection ''toc'' ''Table of Contents'' ''Clickable navigation links'' True,
      mkSection ''description'' ''Description'' ''Project overview and purpose'' True,
      mkSection ''demo'' ''Demo/Screenshots'' ''Demo GIF or screenshots section'' True,
      mkSection ''features'' ''Features'' ''Key features and capabilities'' True,
      mkSection ''techstack'' ''Tech Stack'' ''Technologies and tools used'' True,
      mkSection ''structure'' ''Project Structure'' ''File tree and directory layout'' True,
      mkSection ''prerequisites'' ''Prerequisites'' ''System requirements and dependencies'' True,
      mkSection ''installation'' ''Installation'' ''How to install the project'' True,
      mkSection ''envvars'' ''Environment Variables'' ''Environment configuration table'' False,
      mkSection ''usage'' ''Usage'' ''How to use the project'' True,
      mkSection ''configuration'' ''Configuration'' ''Configuration options'' False,
      mkSection ''api'' ''API Reference'' ''API documentation'' False,
      mkSection ''examples'' ''Examples'' ''Code examples'' False,
      mkSection ''testing'' ''Testing'' ''How to run tests'' False,
      mkSection ''deployment'' ''Deployment'' ''Deployment instructions'' False,
      mkSection ''contributing'' ''Contributing'' ''Contribution guidelines'' True,
      mkSection ''roadmap'' ''Roadmap'' ''Future plans'' False,
      mkSection ''changelog'' ''Changelog'' ''Version history'' False,
      mkSection ''license'' ''License'' ''License information'' True,
      mkSection ''acknowledgements'' ''Acknowledgements'' ''Credits and thanks'' False,
      mkSection ''contact'' ''Contact'' ''Contact information'' False]"

text \<open>\<open>ALL_SECTIONS.map(s => ({...s, defaultEnabled: ids.includes(s.id)}))\<close>\<close>

definition withDefaults :: "string list \<Rightarrow> ReadmeSection list" where
  "withDefaults ids = map (\<lambda>s. s\<lparr>defaultEnabled := sectionId s \<in> set ids\<rparr>) ALL_SECTIONS"

definition openSourceTemplate :: ReadmeTemplate where
  \<open>openSourceTemplate =
     \<lparr>tplId = ''openSource'',
      tplName = ''Open Source'',
      tplDescription = ''Ideal for open source projects with community focus'',
      icon = ''<svg width="24" height="24" viewBox="0 0 24 24" fill="none" xmlns="http://www.w3.org/2000/svg"><circle cx="12" cy="12" r="10" stroke="currentColor" stroke-width="2"/><path d="M2 12h20" stroke="currentColor" stroke-width="2"/><path d="M12 2a15.3 15.3 0 0 1 4 10 15.3 15.3 0 0 1-4 10 15.3 15.3 0 0 1-4-10 15.3 15.3 0 0 1 4-10z" stroke="currentColor" stroke-width="2"/></svg>'',
      sections = withDefaults [''title'', ''description'', ''features'', ''installation'', ''usage'', ''contributing'', ''license''],
      promptPrefix = joinLines
        [''Generate a README for an OPEN SOURCE project. Focus on:'',
         ''- Community-friendly language'',
         ''- Clear contribution guidelines'',
         ''- Prominent badges (license, version, build status)'',
         ''- Easy-to-follow installation and usage'',
         ''- Welcoming tone to encourage contributions'']\<rparr>\<close>

definition libraryTemplate :: ReadmeTemplate where
  \<open>libraryTemplate =
     \<lparr>tplId = ''library'',
      tplName = ''Library/Package'',
      tplDescription = ''Best for npm packages, PyPI packages, or libraries'',
      icon = ''<svg width="24" height="24" viewBox="0 0 24 24" fill="none" xmlns="http://www.w3.org/2000/svg"><path d="M21 16V8a2 2 0 0 0-1-1.73l-7-4a2 2 0 0 0-2 0l-7 4A2 2 0 0 0 3 8v8a2 2 0 0 0 1 1.73l7 4a2 2 0 0 0 2 0l7-4A2 2 0 0 0 21 16z" stroke="currentColor" stroke-width="2" stroke-linecap="round" stroke-linejoin="round"/><polyline points="3.27 6.96 12 12.01 20.73 6.96" stroke="currentColor" stroke-width="2" stroke-linecap="round" stroke-linejoin="round"/><line x1="12" y1="22.08" x2="12" y2="12" stroke="currentColor" stroke-width="2" stroke-linecap="round" stroke-linejoin="round"/></svg>'',
      sections = withDefaults [''title'', ''description'', ''features'', ''installation'', ''usage'', ''api'', ''examples'', ''license''],
      promptPrefix = joinLines
        [''Generate a README for a LIBRARY/PACKAGE. Focus on:'',
         ''- Quick installation instructions (copy-paste ready)'',
         ''- API documentation with clear examples'',
         ''- TypeScript/type support information'',
         ''- Version compatibility notes'',
         ''- Minimal but comprehensive documentation'']\<rparr>\<close>

definition startupTemplate :: ReadmeTemplate where
  \<open>startupTemplate =
     \<lparr>tplId = ''startup'',
      tplName = ''Startup/SaaS'',
      tplDescription = ''Perfect for startups and commercial products'',
      icon = ''<svg width="24" height="24" viewBox="0 0 24 24" fill="none" xmlns="http://www.w3.org/2000/svg"><path d="M4.5 16.5c-1.5 1.26-2 5-2 5s3.74-.5 5-2c.48-.56.93-1.23 1.32-2h-4.32z" fill="currentColor"/><path d="M12 15l-3 3 5 5 3-3-5-5z" fill="currentColor"/><path d="M15 12l-5-5-1.5 3.5 3.5 1.5z" stroke="currentColor" stroke-width="2" stroke-linecap="round" stroke-linejoin="round"/><path d="M12 15a8 8 0 1 1 0-14 8 8 0 0 1 0 14z" stroke="currentColor" stroke-width="2" stroke-linecap="round" stroke-linejoin="round"/></svg>'',
      sections = withDefaults [''title'', ''description'', ''features'', ''demo'', ''installation'', ''usage'', ''deployment'', ''contact''],
      promptPrefix = joinLines
        [''Generate a README for a STARTUP/SaaS product. Focus on:'',
         ''- Compelling product description'',
         ''- Key selling points and features'',
         ''- Professional branding tone'',
         ''- Easy getting started guide'',
         ''- Support and contact information'']\<rparr>\<close>

definition academicTemplate :: ReadmeTemplate where
  \<open>academicTemplate =
     \<lparr>tplId = ''academic'',
      tplName = ''Academic/College'',
      tplDescription = ''Suited for research projects and academic work'',
      icon = ''<svg width="24" height="24" viewBox="0 0 24 24" fill="none" xmlns="http://www.w3.org/2000/svg"><path d="M22 10v6M2 10l10-5 10 5-10 5z" stroke="currentColor" stroke-width="2" stroke-linecap="round" stroke-linejoin="round"/><path d="M6 12v5c3 3 9 3 12 0v-5" stroke="currentColor" stroke-width="2" stroke-linecap="round" stroke-linejoin="round"/></svg>'',
      sections = withDefaults [''title'', ''description'', ''features'', ''installation'', ''usage'', ''acknowledgements'', ''license''],
      promptPrefix = joinLines
        [''Generate a README for an ACADEMIC/RESEARCH project. Focus on:'',
         ''- Clear problem statement and objectives'',
         ''- Methodology explanation'',
         ''- Results or expected outcomes'',
         ''- Academic references format'',
         ''- Proper attribution and acknowledgements'']\<rparr>\<close>

definition personalTemplate :: ReadmeTemplate where
  \<open>personalTemplate =
     \<lparr>tplId = ''personal'',
      tplName = ''Personal Project'',
      tplDescription = ''Simple and clean for portfolio projects'',
      icon = ''<svg width="24" height="24" viewBox="0 0 24 24" fill="none" xmlns="http://www.w3.org/2000/svg"><path d="M20 21v-2a4 4 0 0 0-4-4H8a4 4 0 0 0-4 4v2" stroke="currentColor" stroke-width="2" stroke-linecap="round" stroke-linejoin="round"/><circle cx="12" cy="7" r="4" stroke="currentColor" stroke-width="2" stroke-linecap="round" stroke-linejoin="round"/></svg>'',
      sections = withDefaults [''title'', ''description'', ''features'', ''installation'', ''usage'', ''license''],
      promptPrefix = joinLines
        [''Generate a README for a PERSONAL/PORTFOLIO project. Focus on:'',
         ''- Showcase your skills and learning'',
         ''- Clean and simple format'',
         ''- Highlight interesting technical challenges'',
         ''- Visual appeal for portfolio'',
         ''- Friendly, personal tone'']\<rparr>\<close>

definition TEMPLATES :: "(string \<times> ReadmeTemplate) list" where
  "TEMPLATES =
     [(''openSource'', openSourceTemplate),
      (''library'', libraryTemplate),
      (''startup'', startupTemplate),
      (''academic'', academicTemplate),
      (''personal'', personalTemplate)]"

text \<open>
  \<open>TEMPLATES\<close> is an object literal, so \<open>TEMPLATES[templateId]\<close> also finds the members
  it inherits from \<open>Object.prototype\<close>: functions, and for \<open>__proto__\<close> the prototype
  object itself. Each of them is truthy and none is a template.
\<close>

definition objectPrototypeMembers :: "string list" where
  "objectPrototypeMembers =
     [''constructor'', ''__proto__'', ''hasOwnProperty'', ''isPrototypeOf'',
      ''propertyIsEnumerable'', ''toLocaleString'', ''toString'', ''valueOf'',
      ''__defineGetter__'', ''__defineSetter__'', ''__lookupGetter__'', ''__lookupSetter__'']"

datatype templateValue = Template ReadmeTemplate | Inherited string

text \<open>Get template by ID: \<open>TEMPLATES[templateId] || openSourceTemplate\<close>.\<close>

definition getTemplate :: "string \<Rightarrow> templateValue" where
  "getTemplate templateId =
     (case map_of TEMPLATES templateId of
        Some t \<Rightarrow> Template t
      | None \<Rightarrow>
          if templateId \<in> set objectPrototypeMembers then Inherited templateId
          else Template openSourceTemplate)"

section \<open>Generation orchestrator (readmeGenerator)\<close>

subsection \<open>Secret storage\<close>

text \<open>
  The module variable \<open>secretStorage\<close>: \<open>None\<close> until \<open>initializeSecretStorage\<close> has
  run, then the stored secrets by name.
\<close>

type_synonym secretStore = "(string \<Rightarrow> string option) option"

definition OPENROUTER_API_KEY_SECRET :: string where
  "OPENROUTER_API_KEY_SECRET = ''ai-readme-generator.openrouter-api-key''"

definition HUGGINGFACE_API_KEY_SECRET :: string where
  "HUGGINGFACE_API_KEY_SECRET = ''ai-readme-generator.huggingface-api-key''"

definition API_PROVIDER_SECRET :: string where
  "API_PROVIDER_SECRET = ''ai-readme-generator.api-provider''"

definition getSecret :: "secretStore \<Rightarrow> string \<Rightarrow> error + string option" where
  "getSecret store key =
     (case store of
        None \<Rightarrow> Inl (Error ''Secret storage not initialized'')
      | Some secrets \<Rightarrow> Inr (secrets key))"

text \<open>\<open>!!key && key.length > 0\<close>\<close>

definition keyPresent :: "string option \<Rightarrow> bool" where
  "keyPresent key = (case key of None \<Rightarrow> False | Some k \<Rightarrow> k \<noteq> [])"

definition hasApiKey :: "secretStore \<Rightarrow> error + bool" where
  "hasApiKey store =
     (case getSecret store OPENROUTER_API_KEY_SECRET of
        Inl e \<Rightarrow> Inl e | Inr key \<Rightarrow> Inr (keyPresent key))"

definition hasHuggingFaceApiKey :: "secretStore \<Rightarrow> error + bool" where
  "hasHuggingFaceApiKey store =
     (case getSecret store HUGGINGFACE_API_KEY_SECRET of
        Inl e \<Rightarrow> Inl e | Inr key \<Rightarrow> Inr (keyPresent key))"

text \<open>Get the active API provider (defaults to \<open>huggingface\<close>): \<open>provider || 'huggingface'\<close>.\<close>

definition getApiProvider :: "secretStore \<Rightarrow> error + string" where
  "getApiProvider store =
     (case getSecret store API_PROVIDER_SECRET of
        Inl e \<Rightarrow> Inl e
      | Inr provider \<Rightarrow>
          Inr (case provider of None \<Rightarrow> ''huggingface''
               | Some p \<Rightarrow> if p = [] then ''huggingface'' else p))"

subsection \<open>Callbacks, backends and prompts\<close>

text \<open>
  A run of an asynchronous function that reports through \<open>onToken\<close>, \<open>onComplete\<close> and
  \<open>onError\<close>: the callbacks it called, in order, and the error its promise is rejected
  with, if it is.
\<close>

datatype event = OnToken string | OnComplete string | OnError string

type_synonym run = "event list \<times> error option"

record ChatMessage =
  role :: string
  msgContent :: string

record GenerationOptions =
  templateId :: string
  enabledSections :: "string list"
  language :: string
  tone :: string
  customInstructions :: "string option"
  includeBadges :: bool
  customBadges :: "string option"

text \<open>
  The two API clients (\<open>generateWithGroq\<close>, \<open>generateWithStreaming\<close>) talk to the network:
  a client is the function from the messages to its run. The prompt texts are string
  templates of \<open>promptBuilder\<close>; they are parameters too, but for the step of
  \<open>buildPrompt\<close> that reads the sections of the template
  (\<open>template.sections.filter(...)\<close> in \<open>buildSectionInstructions\<close>): a value that is not
  a template has no \<open>sections\<close>, and reading \<open>filter\<close> of \<open>undefined\<close> throws.
\<close>

type_synonym client = "ChatMessage list \<Rightarrow> run"

record promptTexts =
  systemText :: "templateValue \<Rightarrow> GenerationOptions \<Rightarrow> string"
  userText :: "ProjectInfo \<Rightarrow> DetectionResult \<Rightarrow> ProjectTypeResult \<Rightarrow> GenerationOptions \<Rightarrow> string \<Rightarrow> string"
  sectionTexts :: "ReadmeSection \<Rightarrow> ProjectInfo \<Rightarrow> DetectionResult \<Rightarrow> ProjectTypeResult \<Rightarrow> string \<Rightarrow> string option \<Rightarrow> string \<times> string"

definition buildSectionInstructions :: "string list \<Rightarrow> templateValue \<Rightarrow> error + string" where
  "buildSectionInstructions enabled template =
     (case template of
        Inherited m \<Rightarrow> Inl TypeError
      | Template t \<Rightarrow>
          Inr (''Generate ONLY these sections in this order:'' @ [CHR 0x0A] @
               joinLines (map (\<lambda>s. ''- **'' @ sectionName s @ ''**: '' @ sectionDescription s)
                            (filter (\<lambda>s. sectionId s \<in> set enabled) (sections t)))))"

definition buildPrompt :: "promptTexts \<Rightarrow> ProjectInfo \<Rightarrow> DetectionResult \<Rightarrow> ProjectTypeResult \<Rightarrow> templateValue \<Rightarrow> GenerationOptions \<Rightarrow> error + string \<times> string" where
  "buildPrompt texts projectInfo detection projectType template options =
     (case buildSectionInstructions (enabledSections options) template of
        Inl e \<Rightarrow> Inl e
      | Inr sectionInstructions \<Rightarrow>
          Inr (systemText texts template options,
               userText texts projectInfo detection projectType options sectionInstructions))"

definition chatMessages :: "string \<times> string \<Rightarrow> ChatMessage list" where
  "chatMessages prompts =
     [\<lparr>role = ''system'', msgContent = fst prompts\<rparr>,
      \<lparr>role = ''user'', msgContent = snd prompts\<rparr>]"

subsection \<open>generateReadme and regenerateSection\<close>

text \<open>\<open>hasGroqKey && (provider === 'huggingface' || !hasOrKey)\<close>\<close>

definition useGroq :: "bool \<Rightarrow> bool \<Rightarrow> string \<Rightarrow> bool" where
  "useGroq hasGroqKey hasOrKey provider =
     (hasGroqKey \<and> (provider = ''huggingface'' \<or> \<not> hasOrKey))"

text \<open>
  The \<open>try\<close> around the client call: when the client throws, fall back to the offline
  template, reporting \<open>onError\<close> and then \<open>onComplete\<close>. The offline document is
  generated first, inside the \<open>catch\<close>: when that throws, the promise is rejected with
  its exception and no callback is called.
\<close>

definition withOfflineFallback :: "error + string \<Rightarrow> run \<Rightarrow> run" where
  "withOfflineFallback offline r =
     (case snd r of
        None \<Rightarrow> r
      | Some e \<Rightarrow>
          (case offline of
             Inl e' \<Rightarrow> (fst r, Some e')
           | Inr offlineContent \<Rightarrow>
               (fst r @ [OnError ''API request failed. Using offline template.'',
                         OnComplete offlineContent], None)))"

definition generateReadme :: "secretStore \<Rightarrow> promptTexts \<Rightarrow> client \<Rightarrow> client \<Rightarrow> ProjectInfo \<Rightarrow> DetectionResult \<Rightarrow> ProjectTypeResult \<Rightarrow> GenerationOptions \<Rightarrow> run" where
  "generateReadme store texts generateWithGroq generateWithStreaming
       projectInfo detection projectType options =
     (case hasHuggingFaceApiKey store of
        Inl e \<Rightarrow> ([], Some e)
      | Inr hasGroqKey \<Rightarrow>
     (case hasApiKey store of
        Inl e \<Rightarrow> ([], Some e)
      | Inr hasOrKey \<Rightarrow>
     (case getApiProvider store of
        Inl e \<Rightarrow> ([], Some e)
      | Inr provider \<Rightarrow>
          if \<not> hasGroqKey \<and> \<not> hasOrKey then
            (case generateOfflineReadme projectInfo detection projectType of
               Inl e \<Rightarrow> ([], Some e)
             | Inr offlineContent \<Rightarrow> ([OnComplete offlineContent], None))
          else
            (case buildPrompt texts projectInfo detection projectType
                    (getTemplate (templateId options)) options of
               Inl e \<Rightarrow> ([], Some e)
             | Inr prompts \<Rightarrow>
                 withOfflineFallback (generateOfflineReadme projectInfo detection projectType)
                   (if useGroq hasGroqKey hasOrKey provider
                    then generateWithGroq (chatMessages prompts)
                    else generateWithStreaming (chatMessages prompts))))))"

definition regenerateSection :: "secretStore \<Rightarrow> promptTexts \<Rightarrow> client \<Rightarrow> client \<Rightarrow> ReadmeSection \<Rightarrow> ProjectInfo \<Rightarrow> DetectionResult \<Rightarrow> ProjectTypeResult \<Rightarrow> string \<Rightarrow> string option \<Rightarrow> run" where
  "regenerateSection store texts generateWithGroq generateWithStreaming
       section projectInfo detection projectType currentContent customInstr =
     (case hasApiKey store of
        Inl e \<Rightarrow> ([], Some e)
      | Inr hasKey \<Rightarrow>
          if \<not> hasKey then
            ([OnError ''API key not configured. Cannot regenerate section.''], None)
          else
            (let prompts = sectionTexts texts section projectInfo detection projectType
                             currentContent customInstr
             in
             (case hasHuggingFaceApiKey store of
                Inl e \<Rightarrow> ([], Some e)
              | Inr hasGroqKey \<Rightarrow>
             (case hasApiKey store of
                Inl e \<Rightarrow> ([], Some e)
              | Inr hasOrKey \<Rightarrow>
             (case getApiProvider store of
                Inl e \<Rightarrow> ([], Some e)
              | Inr provider \<Rightarrow>
                  if useGroq hasGroqKey hasOrKey provider
                  then generateWithGroq (chatMessages prompts)
                  else generateWithStreaming (chatMessages prompts))))))"

section \<open>Version store (historyManager)\<close>

subsection \<open>The file system\<close>

text \<open>
  The part of the file system the store works on. A path is kept as its directory and
  its base name (\<open>path.join(dir, name)\<close>); \<open>fsFiles\<close> lists the files with their
  contents, each path once, in the order a directory listing gives them (the order is
  the file system's own; here a new file is listed last). Every operation of
  \<open>fs.promises\<close> can fail: \<open>failing\<close> says which operation fails on which path, so that
  each \<open>catch\<close> of the source has its branch.
\<close>

datatype fsOp = Mkdir | WriteFile | ReadFile | Unlink | Readdir

record fileSystem =
  fsDirs :: "string list"
  fsFiles :: "((string \<times> string) \<times> string) list"
  failing :: "fsOp \<Rightarrow> string \<Rightarrow> string \<Rightarrow> bool"

text \<open>\<open>mkdir(dir, {recursive: true})\<close>; \<open>dirs\<close> are the directory and its ancestors.\<close>

definition mkdirRecursive :: "fileSystem \<Rightarrow> string list \<Rightarrow> error + fileSystem" where
  "mkdirRecursive fs dirs =
     (if failing fs Mkdir (last dirs) [] then Inl IOError
      else Inr (fs\<lparr>fsDirs := fsDirs fs @ filter (\<lambda>d. d \<notin> set (fsDirs fs)) dirs\<rparr>))"

definition readdir :: "fileSystem \<Rightarrow> string \<Rightarrow> error + string list" where
  "readdir fs dir =
     (if failing fs Readdir dir [] \<or> dir \<notin> set (fsDirs fs) then Inl IOError
      else Inr (map (\<lambda>e. snd (fst e)) (filter (\<lambda>e. fst (fst e) = dir) (fsFiles fs))))"

definition readFile :: "fileSystem \<Rightarrow> string \<Rightarrow> string \<Rightarrow> error + string" where
  "readFile fs dir name =
     (if failing fs ReadFile dir name then Inl IOError
      else (case map_of (fsFiles fs) (dir, name) of
              None \<Rightarrow> Inl IOError
            | Some content \<Rightarrow> Inr content))"

fun putFile :: "((string \<times> string) \<times> string) list \<Rightarrow> string \<times> string \<Rightarrow> string \<Rightarrow> ((string \<times> string) \<times> string) list" where
  "putFile [] k content = [(k, content)]"
| "putFile (e # es) k content =
     (if fst e = k then (k, content) # es else e # putFile es k content)"

definition writeFile :: "fileSystem \<Rightarrow> string \<Rightarrow> string \<Rightarrow> string \<Rightarrow> error + fileSystem" where
  "writeFile fs dir name content =
     (if failing fs WriteFile dir name \<or> dir \<notin> set (fsDirs fs) then Inl IOError
      else Inr (fs\<lparr>fsFiles := putFile (fsFiles fs) (dir, name) content\<rparr>))"

text \<open>\<open>writeFile(path, content, {flag: 'wx'})\<close> fails when the file exists.\<close>

definition writeFileExclusive :: "fileSystem \<Rightarrow> string \<Rightarrow> string \<Rightarrow> string \<Rightarrow> error + fileSystem" where
  "writeFileExclusive fs dir name content =
     (if map_of (fsFiles fs) (dir, name) \<noteq> None then Inl IOError
      else writeFile fs dir name content)"

definition unlink :: "fileSystem \<Rightarrow> string \<Rightarrow> string \<Rightarrow> error + fileSystem" where
  "unlink fs dir name =
     (if failing fs Unlink dir name \<or> map_of (fsFiles fs) (dir, name) = None then Inl IOError
      else Inr (fs\<lparr>fsFiles := filter (\<lambda>e. fst e \<noteq> (dir, name)) (fsFiles fs)\<rparr>))"

subsection \<open>Versions\<close>

definition MAX_VERSIONS :: nat where
  "MAX_VERSIONS = 20"

text \<open>
  A stored version. The field \<open>date\<close> of the source (\<open>toLocaleString\<close> of the time stamp,
  which depends on the locale of the host) is left out; no operation reads it.
\<close>

record ReadmeVersion =
  versionId :: string
  timestamp :: nat
  hash :: string
  preview :: string
  filePath :: "string \<times> string"

definition historyFolder :: "string \<Rightarrow> string" where
  "historyFolder workspacePath = workspacePath @ ''/.readme-generator''"

definition getHistoryDir :: "string \<Rightarrow> string" where
  "getHistoryDir workspacePath = workspacePath @ ''/.readme-generator/history''"

text \<open>Ensure the history directory exists; both failures are swallowed.\<close>

definition ensureHistoryDir :: "fileSystem \<Rightarrow> string \<Rightarrow> fileSystem" where
  "ensureHistoryDir fs workspacePath =
     (let fs1 = (case mkdirRecursive fs [workspacePath, historyFolder workspacePath,
                                        getHistoryDir workspacePath] of
                   Inl e \<Rightarrow> fs | Inr fs' \<Rightarrow> fs')
      in (case writeFileExclusive fs1 (historyFolder workspacePath) ''.gitignore''
                 (''*'' @ [CHR 0x0A]) of
            Inl e \<Rightarrow> fs1 | Inr fs' \<Rightarrow> fs'))"

text \<open>
  Generate a short hash of content: the first 8 characters of the MD5 digest in
  hexadecimal. The digest is the library's, a parameter here.
\<close>

definition generateHash :: "(string \<Rightarrow> string) \<Rightarrow> string \<Rightarrow> string" where
  "generateHash md5hex content = take 8 (md5hex content)"

text \<open>Get preview text from content (\<open>maxLength\<close> is 100 at every call).\<close>

fun splitLines :: "string \<Rightarrow> string \<Rightarrow> string list" where
  "splitLines cur [] = [rev cur]"
| "splitLines cur (c # cs) =
     (if c = CHR 0x0A then rev cur # splitLines [] cs else splitLines (c # cur) cs)"

definition trim :: "string \<Rightarrow> string" where
  "trim s = rev (dropWhile isSpace (rev (dropWhile isSpace s)))"

definition previewLine :: "string \<Rightarrow> bool" where
  "previewLine trimmed =
     (trimmed \<noteq> [] \<and> \<not> startsWith trimmed ''#'' \<and> \<not> startsWith trimmed ''!['' \<and>
      \<not> startsWith trimmed ''[!['' \<and> length trimmed > 10)"

definition getPreview :: "string \<Rightarrow> string" where
  "getPreview content =
     (case find previewLine (map trim (splitLines [] content)) of
        Some trimmed \<Rightarrow> take 100 trimmed @ (if length trimmed > 100 then ''...'' else [])
      | None \<Rightarrow> take 100 content @ ''...'')"

text \<open>
  The file name pattern \<open>/^(\d+)-([a-f0-9]+)\.md$/\<close>. A run of digits is followed by
  the hyphen and a run of hexadecimal digits by the dot, so each group is the longest
  run. \<open>parseInt(digits, 10)\<close> is exact below \<open>2^53\<close>, where time stamps are.
\<close>

definition isDigit :: "char \<Rightarrow> bool" where
  "isDigit c = ((48::nat) \<le> of_char c \<and> of_char c \<le> (57::nat))"

definition isHexChar :: "char \<Rightarrow> bool" where
  "isHexChar c = (isDigit c \<or> ((97::nat) \<le> of_char c \<and> of_char c \<le> (102::nat)))"

definition parseFileName :: "string \<Rightarrow> (string \<times> string) option" where
  "parseFileName file =
     (let ds = takeWhile isDigit file; r1 = dropWhile isDigit file
      in if ds = [] then None
         else (case r1 of
                 [] \<Rightarrow> None
               | c # r2 \<Rightarrow>
                   if c \<noteq> CHR ''-'' then None
                   else (let hs = takeWhile isHexChar r2; r3 = dropWhile isHexChar r2
                         in if hs = [] \<or> r3 \<noteq> ''.md'' then None else Some (ds, hs))))"

definition digitValue :: "char \<Rightarrow> nat" where
  "digitValue c = (of_char c :: nat) - 48"

definition parseInt :: "string \<Rightarrow> nat" where
  "parseInt ds = foldl (\<lambda>a c. 10 * a + digitValue c) 0 ds"

definition endsWith :: "string \<Rightarrow> string \<Rightarrow> bool" where
  "endsWith s p = (length p \<le> length s \<and> drop (length s - length p) s = p)"

text \<open>One turn of the loop of \<open>getVersions\<close>: \<open>None\<close> where the source skips the file.\<close>

definition versionOfFile :: "fileSystem \<Rightarrow> string \<Rightarrow> string \<Rightarrow> ReadmeVersion option" where
  "versionOfFile fs historyDir file =
     (if \<not> endsWith file ''.md'' then None
      else (case parseFileName file of
              None \<Rightarrow> None
            | Some m \<Rightarrow>
                (case readFile fs historyDir file of
                   Inl e \<Rightarrow> None
                 | Inr content \<Rightarrow>
                     Some \<lparr>versionId = showNat (parseInt (fst m)) @ ''-'' @ snd m,
                           timestamp = parseInt (fst m),
                           hash = snd m,
                           preview = getPreview content,
                           filePath = (historyDir, file)\<rparr>)))"

text \<open>
  \<open>versions.sort((a, b) => b.timestamp - a.timestamp)\<close>: newest first; the sort is
  stable.
\<close>

definition sortNewestFirst :: "ReadmeVersion list \<Rightarrow> ReadmeVersion list" where
  "sortNewestFirst vs = sort_key (\<lambda>v. - int (timestamp v)) vs"

text \<open>Get all saved versions; a directory that cannot be read has none.\<close>

definition getVersions :: "fileSystem \<Rightarrow> string \<Rightarrow> ReadmeVersion list" where
  "getVersions fs workspacePath =
     (case readdir fs (getHistoryDir workspacePath) of
        Inl e \<Rightarrow> []
      | Inr names \<Rightarrow>
          sortNewestFirst (List.map_filter (versionOfFile fs (getHistoryDir workspacePath)) names))"

text \<open>Get a specific version's content; \<open>None\<close> is \<open>null\<close>.\<close>

definition getVersionContent :: "fileSystem \<Rightarrow> string \<Rightarrow> string \<Rightarrow> string option" where
  "getVersionContent fs workspacePath vid =
     (case find (\<lambda>v. versionId v = vid) (getVersions fs workspacePath) of
        None \<Rightarrow> None
      | Some version \<Rightarrow>
          (case readFile fs (fst (filePath version)) (snd (filePath version)) of
             Inl e \<Rightarrow> None
           | Inr content \<Rightarrow> Some content))"

text \<open>Cleanup old versions (keep only \<open>MAX_VERSIONS\<close>); deletion errors are ignored.\<close>

definition unlinkIgnoringErrors :: "ReadmeVersion \<Rightarrow> fileSystem \<Rightarrow> fileSystem" where
  "unlinkIgnoringErrors version fs =
     (case unlink fs (fst (filePath version)) (snd (filePath version)) of
        Inl e \<Rightarrow> fs | Inr fs' \<Rightarrow> fs')"

definition cleanupOldVersions :: "fileSystem \<Rightarrow> string \<Rightarrow> fileSystem" where
  "cleanupOldVersions fs workspacePath =
     (let versions = getVersions fs workspacePath
      in if length versions \<le> MAX_VERSIONS then fs
         else fold unlinkIgnoringErrors (drop MAX_VERSIONS versions) fs)"

text \<open>
  Save a new README version. \<open>now\<close> is \<open>Date.now()\<close>. The result is the file system
  after the call and the version returned, or the error of the write, which the source
  lets through. \<open>writtenVersion\<close> is the file system after the write, before the cleanup.
\<close>

definition versionFileName :: "(string \<Rightarrow> string) \<Rightarrow> nat \<Rightarrow> string \<Rightarrow> string" where
  "versionFileName md5hex now content = showNat now @ ''-'' @ generateHash md5hex content @ ''.md''"

definition writtenVersion :: "(string \<Rightarrow> string) \<Rightarrow> nat \<Rightarrow> fileSystem \<Rightarrow> string \<Rightarrow> string \<Rightarrow> error + fileSystem" where
  "writtenVersion md5hex now fs workspacePath content =
     writeFile (ensureHistoryDir fs workspacePath) (getHistoryDir workspacePath)
       (versionFileName md5hex now content) content"

definition saveVersion :: "(string \<Rightarrow> string) \<Rightarrow> nat \<Rightarrow> fileSystem \<Rightarrow> string \<Rightarrow> string \<Rightarrow> fileSystem \<times> (error + ReadmeVersion)" where
  "saveVersion md5hex now fs workspacePath content =
     (case writtenVersion md5hex now fs workspacePath content of
        Inl e \<Rightarrow> (ensureHistoryDir fs workspacePath, Inl e)
      | Inr fs2 \<Rightarrow>
          (cleanupOldVersions fs2 workspacePath,
           Inr \<lparr>versionId = showNat now @ ''-'' @ generateHash md5hex content,
                 timestamp = now,
                 hash = generateHash md5hex content,
                 preview = getPreview content,
                 filePath = (getHistoryDir workspacePath, versionFileName md5hex now content)\<rparr>))"

text \<open>
  Rollback to a specific version (writes to README.md). \<open>if (!content) return false\<close>
  leaves for \<open>null\<close> and for the empty string.
\<close>

definition rollbackToVersion :: "fileSystem \<Rightarrow> string \<Rightarrow> string \<Rightarrow> fileSystem \<times> bool" where
  "rollbackToVersion fs workspacePath vid =
     (case getVersionContent fs workspacePath vid of
        None \<Rightarrow> (fs, False)
      | Some content \<Rightarrow>
          if content = [] then (fs, False)
          else (case writeFile fs workspacePath ''README.md'' content of
                  Inl e \<Rightarrow> (fs, False)
                | Inr fs' \<Rightarrow> (fs', True)))"

section \<open>Example inputs\<close>

text \<open>Concrete projects, detection results and stores, used to instantiate the theorems.\<close>

definition demoProject :: "json option \<Rightarrow> ProjectFile list \<Rightarrow> ProjectInfo" where
  "demoProject pkg fs =
     \<lparr>projectName = JStr ''demo'', rootPath = ''/work/demo'', files = fs, packageJson = pkg,
      hasReadme = False, existingReadmeContent = None, configFiles = [], sourceFiles = [],
      totalFiles = length (filter (\<lambda>f. \<not> isDirectory f) fs)\<rparr>"

definition demoFile :: "string \<Rightarrow> string \<Rightarrow> ProjectFile" where
  "demoFile n ext =
     \<lparr>path = ''/work/demo/'' @ n, relativePath = n, fileName = n, extension = ext,
      isDirectory = False\<rparr>"

definition demoFramework :: "string \<Rightarrow> string \<Rightarrow> FrameworkMatch" where
  "demoFramework n c = \<lparr>fwName = n, category = c, fwConfidence = 1\<rparr>"

definition demoDetection :: "LanguageStat list \<Rightarrow> FrameworkMatch list \<Rightarrow> DetectionResult" where
  "demoDetection ls fws =
     \<lparr>languages = ls, frameworks = fws, packageManager = None, buildTools = [],
      testFrameworks = []\<rparr>"

text \<open>A manifest with a workspaces array, and one whose workspaces field is \<open>false\<close>.\<close>

definition workspacesManifest :: json where
  "workspacesManifest = JObj [(''name'', JStr ''demo''), (''workspaces'', JArr [JStr ''packages/*''])]"

definition falseWorkspacesManifest :: json where
  "falseWorkspacesManifest = JObj [(''name'', JStr ''demo''), (''workspaces'', JBool False)]"

text \<open>A manifest with the field \<open>main\<close> alone, and one whose keywords are a string.\<close>

definition mainOnlyManifest :: json where
  "mainOnlyManifest = JObj [(''name'', JStr ''demo''), (''main'', JStr ''index.js'')]"

definition stringKeywordsManifest :: json where
  "stringKeywordsManifest = JObj [(''name'', JStr ''demo''), (''keywords'', JStr ''cli'')]"

text \<open>Prompt texts and clients that stand for the prompt builder and the two API clients.\<close>

definition demoTexts :: promptTexts where
  "demoTexts =
     \<lparr>systemText = (\<lambda>template options. ''system prompt''),
      userText = (\<lambda>projectInfo detection projectType options sectionInstructions.
                    sectionInstructions),
      sectionTexts = (\<lambda>sec projectInfo detection projectType currentContent customInstr.
                        (''system prompt'', ''user prompt''))\<rparr>"

definition demoClient :: client where
  "demoClient messages = ([OnToken ''# demo'', OnComplete ''# demo''], None)"

definition demoOptions :: "string \<Rightarrow> GenerationOptions" where
  "demoOptions tid =
     \<lparr>templateId = tid, enabledSections = [''title'', ''description''], language = ''english'',
      tone = ''professional'', customInstructions = None, includeBadges = True,
      customBadges = None\<rparr>"

definition demoType :: ProjectTypeResult where
  "demoType = mkResult ''unknown'' ''Project'' (double 0.3) ''Could not determine project type''"

text \<open>
  Secret stores: an initialized store with no secret, one with the Groq key alone (kept
  under the HuggingFace name), and one with the OpenRouter key alone.
\<close>

definition emptyStore :: secretStore where
  "emptyStore = Some (\<lambda>k. None)"

definition groqOnlyStore :: secretStore where
  "groqOnlyStore = Some (\<lambda>k. if k = HUGGINGFACE_API_KEY_SECRET then Some ''gsk-demo'' else None)"

definition openRouterStore :: secretStore where
  "openRouterStore = Some (\<lambda>k. if k = OPENROUTER_API_KEY_SECRET then Some ''sk-or-demo'' else None)"

text \<open>
  Six files in six languages, and eight JavaScript files of four extensions (five
  \<open>.js\<close> and one each of \<open>.jsx\<close>, \<open>.mjs\<close>, \<open>.cjs\<close>; the shares 5/8 and 1/8 are exact
  in binary floating point, and so are their products with 100).
\<close>

definition sixLanguagesProject :: ProjectInfo where
  "sixLanguagesProject =
     demoProject None
       [demoFile ''a.py'' ''.py'', demoFile ''B.java'' ''.java'', demoFile ''c.go'' ''.go'',
        demoFile ''d.rs'' ''.rs'', demoFile ''e.rb'' ''.rb'', demoFile ''f.php'' ''.php'']"

definition javaScriptProject :: ProjectInfo where
  "javaScriptProject =
     demoProject None
       [demoFile ''a.js'' ''.js'', demoFile ''b.js'' ''.js'', demoFile ''c.js'' ''.js'',
        demoFile ''d.js'' ''.js'', demoFile ''e.js'' ''.js'', demoFile ''f.jsx'' ''.jsx'',
        demoFile ''g.mjs'' ''.mjs'', demoFile ''h.cjs'' ''.cjs'']"

definition smallProject :: ProjectInfo where
  "smallProject =
     demoProject None
       [demoFile ''a.ts'' ''.ts'', demoFile ''b.tsx'' ''.tsx'', demoFile ''c.py'' ''.py'',
        demoFile ''README.md'' ''.md'']"

text \<open>A React project: \<open>react\<close> is a dependency and the React framework is detected.\<close>

definition reactManifest :: json where
  "reactManifest =
     JObj [(''name'', JStr ''demo''),
           (''dependencies'', JObj [(''react'', JStr ''^18.2.0''), (''react-dom'', JStr ''^18.2.0'')]),
           (''devDependencies'', JObj [(''vite'', JStr ''^5.0.0'')])]"

definition reactProject :: ProjectInfo where
  "reactProject = demoProject (Some reactManifest) [demoFile ''App.jsx'' ''.jsx'']"

definition reactDetection :: DetectionResult where
  "reactDetection =
     demoDetection [\<lparr>langName = ''JavaScript (React)'', percentage = 100, fileCount = 1\<rparr>]
       [demoFramework ''React'' ''Frontend Framework'', demoFramework ''Vite'' ''Build Tool'']"

text \<open>
  A project whose manifest gives a number for a name (\<open>"name": 123\<close>), and the React
  project with a license that is one lone surrogate (the code unit D800, which
  \<open>JSON.parse\<close> reads from its escape).
\<close>

definition numberNameProject :: ProjectInfo where
  "numberNameProject =
     (demoProject (Some (JObj [(''name'', JNum ''123'')])) [])\<lparr>projectName := JNum ''123''\<rparr>"

definition surrogateLicenseManifest :: json where
  "surrogateLicenseManifest =
     JObj [(''name'', JStr ''demo''),
           (''license'', JStr [CHR 0xED, CHR 0xA0, CHR 0x80]),
           (''dependencies'', JObj [(''react'', JStr ''^18.2.0''), (''react-dom'', JStr ''^18.2.0'')]),
           (''devDependencies'', JObj [(''vite'', JStr ''^5.0.0'')])]"

definition surrogateLicenseProject :: ProjectInfo where
  "surrogateLicenseProject = demoProject (Some surrogateLicenseManifest) [demoFile ''App.jsx'' ''.jsx'']"

text \<open>
  A workspace whose history holds 20 versions, with the time stamps 11 to 30 (of a
  clock that has just started: evaluation counts a natural number up from zero); the MD5
  digests of the two contents the examples save (\<open>hello world!\<close> and the empty
  document); and file systems in which one operation fails.
\<close>

definition demoMd5 :: "string \<Rightarrow> string" where
  "demoMd5 s =
     (if s = [] then ''d41d8cd98f00b204e9800998ecf8427e''
      else ''fc3ff98e8c6a0d3087d515c0473f8677'')"

definition noFailure :: "fsOp \<Rightarrow> string \<Rightarrow> string \<Rightarrow> bool" where
  "noFailure op d n = False"

definition twentyVersions :: "((string \<times> string) \<times> string) list" where
  "twentyVersions =
     [((''/work/demo/.readme-generator/history'', ''11-a4c123b1.md''), ''# Version 1''),
      ((''/work/demo/.readme-generator/history'', ''12-612dd272.md''), ''# Version 2''),
      ((''/work/demo/.readme-generator/history'', ''13-d1371c17.md''), ''# Version 3''),
      ((''/work/demo/.readme-generator/history'', ''14-149d4395.md''), ''# Version 4''),
      ((''/work/demo/.readme-generator/history'', ''15-36b3216f.md''), ''# Version 5''),
      ((''/work/demo/.readme-generator/history'', ''16-daeeb975.md''), ''# Version 6''),
      ((''/work/demo/.readme-generator/history'', ''17-729fae92.md''), ''# Version 7''),
      ((''/work/demo/.readme-generator/history'', ''18-3d5a4fd1.md''), ''# Version 8''),
      ((''/work/demo/.readme-generator/history'', ''19-2aabfe22.md''), ''# Version 9''),
      ((''/work/demo/.readme-generator/history'', ''20-8f219e9c.md''), ''# Version 10''),
      ((''/work/demo/.readme-generator/history'', ''21-b0eb53f1.md''), ''# Version 11''),
      ((''/work/demo/.readme-generator/history'', ''22-6947ccf2.md''), ''# Version 12''),
      ((''/work/demo/.readme-generator/history'', ''23-5ec84d8d.md''), ''# Version 13''),
      ((''/work/demo/.readme-generator/history'', ''24-bc742547.md''), ''# Version 14''),
      ((''/work/demo/.readme-generator/history'', ''25-70f58904.md''), ''# Version 15''),
      ((''/work/demo/.readme-generator/history'', ''26-dba41ecc.md''), ''# Version 16''),
      ((''/work/demo/.readme-generator/history'', ''27-cc3fc162.md''), ''# Version 17''),
      ((''/work/demo/.readme-generator/history'', ''28-6e53a130.md''), ''# Version 18''),
      ((''/work/demo/.readme-generator/history'', ''29-43b026c4.md''), ''# Version 19''),
      ((''/work/demo/.readme-generator/history'', ''30-8bbf33fe.md''), ''# Version 20'')]"

definition fullStore :: fileSystem where
  "fullStore =
     \<lparr>fsDirs = [''/work/demo'', ''/work/demo/.readme-generator'',
                ''/work/demo/.readme-generator/history''],
      fsFiles = twentyVersions @
        [((''/work/demo/.readme-generator'', ''.gitignore''), ''*'' @ [CHR 0x0A]),
         ((''/work/demo'', ''README.md''), ''# Demo'')],
      failing = noFailure\<rparr>"

definition lockedStore :: fileSystem where
  "lockedStore = fullStore\<lparr>failing := (\<lambda>op d n. op = Unlink)\<rparr>"

definition emptyWorkspace :: fileSystem where
  "emptyWorkspace =
     \<lparr>fsDirs = [''/work/demo''],
      fsFiles = [((''/work/demo'', ''README.md''), ''# Demo'')],
      failing = noFailure\<rparr>"

definition readOnlyReadme :: fileSystem where
  "readOnlyReadme =
     emptyWorkspace\<lparr>failing := (\<lambda>op d n. op = WriteFile \<and> n = ''README.md'')\<rparr>"

section \<open>Notions of the specification\<close>

text \<open>
  The nine archetypes of the specification, the number of library-style fields
  (main, types, exports) a manifest has, and a keywords field as the classifier
  expects it: absent, \<open>null\<close>, or an array of strings.
\<close>

definition archetypes :: "string list" where
  "archetypes =
     [''monorepo'', ''mobile'', ''desktop'', ''cli'', ''library'', ''fullstack'', ''web-app'',
      ''backend'', ''unknown'']"

definition libraryFieldsPresent :: "json option \<Rightarrow> nat" where
  "libraryFieldsPresent pkg =
     (if hasMain pkg then 1 else 0) + (if hasTypes pkg then 1 else 0) +
     (if hasExports pkg then 1 else 0)"

fun isJStr :: "json \<Rightarrow> bool" where
  "isJStr (JStr s) = True"
| "isJStr _ = False"

fun stringKeywords :: "json option \<Rightarrow> bool" where
  "stringKeywords None = True"
| "stringKeywords (Some JNull) = True"
| "stringKeywords (Some (JArr ks)) = list_all isJStr ks"
| "stringKeywords (Some _) = False"

text \<open>
  Values that print. \<open>printable\<close> says that the conversion to a string does not throw;
  \<open>encodable\<close>, that the text printed has no lone surrogate as well, so that
  \<open>encodeURIComponent\<close> takes it. A manifest has printable meta fields when its license
  is falsy or encodable and its version is falsy or printable; a project is printable
  when, in addition, its name is falsy or a string and its description is falsy or
  printable.
\<close>

fun printable :: "json \<Rightarrow> bool" where
  "printable (JArr xs) = list_all printable xs"
| "printable (JObj kvs) = (''toString'' \<notin> set (map fst kvs))"
| "printable v = True"

definition encodable :: "json \<Rightarrow> bool" where
  "encodable v = (case jsToString v of Inl e \<Rightarrow> False | Inr printed \<Rightarrow> \<not> hasLoneSurrogate printed)"

definition falsyOr :: "(json \<Rightarrow> bool) \<Rightarrow> json option \<Rightarrow> bool" where
  "falsyOr ok v = (case v of None \<Rightarrow> True | Some x \<Rightarrow> truthy (Some x) \<longrightarrow> ok x)"

definition printableMeta :: "json option \<Rightarrow> bool" where
  "printableMeta pkg =
     (falsyOr encodable (getProp pkg ''license'') \<and> falsyOr printable (getProp pkg ''version''))"

definition printableProject :: "ProjectInfo \<Rightarrow> bool" where
  "printableProject p =
     (printableMeta (packageJson p) \<and> falsyOr isJStr (Some (projectName p)) \<and>
      falsyOr printable (getProp (packageJson p) ''description''))"

text \<open>
  The invariant of the merge loop of \<open>detectLanguages\<close>: every base name in \<open>seen\<close> is
  the start of the name of an entry of \<open>merged\<close>, so \<open>merged.find\<close> finds an entry.
\<close>

definition seenCovered :: "string list \<times> LanguageStat list \<Rightarrow> bool" where
  "seenCovered st = (\<forall>b \<in> set (fst st). \<exists>m \<in> set (snd st). startsWith (langName m) b)"

text \<open>
  The label \<open>createBadge\<close> gives the badge of a configuration, and the invariant of the
  calls of \<open>addBadge\<close>: the added keys are distinct, each has a badge, and the badges are
  the badges of the added keys, in order.
\<close>

definition labelOf :: "BadgeConfig \<Rightarrow> string" where
  "labelOf config =
     replaceStr ''%23'' ''#'' (replaceStr ''%2B'' ''+'' (replaceStr ''%20'' '' '' (cfgName config)))"

definition addedInv :: "string \<Rightarrow> Badge list \<times> string list \<Rightarrow> bool" where
  "addedInv style st =
     (distinct (snd st) \<and> list_all (\<lambda>k. createBadge k style \<noteq> None) (snd st) \<and>
      fst st = map (\<lambda>k. the (createBadge k style)) (snd st))"

text \<open>
  A well-formed file system has one file under each path, and every file lies in a
  directory that exists. \<open>removeFiles\<close> is the file system without the files of the
  given paths. A hash is a non-empty string of lower-case hexadecimal digits.
\<close>

definition wfFs :: "fileSystem \<Rightarrow> bool" where
  "wfFs fs =
     (distinct (map fst (fsFiles fs)) \<and>
      list_all (\<lambda>e. fst (fst e) \<in> set (fsDirs fs)) (fsFiles fs))"

definition removeFiles :: "(string \<times> string) list \<Rightarrow> fileSystem \<Rightarrow> fileSystem" where
  "removeFiles ks fs = fs\<lparr>fsFiles := filter (\<lambda>e. fst e \<notin> set ks) (fsFiles fs)\<rparr>"

definition isHexString :: "string \<Rightarrow> bool" where
  "isHexString h = (h \<noteq> [] \<and> list_all isHexChar h)"

definition noFault :: "fileSystem \<Rightarrow> bool" where
  "noFault fs = (\<forall>op d n. \<not> failing fs op d n)"

definition noUnlinkFault :: "fileSystem \<Rightarrow> string \<Rightarrow> bool" where
  "noUnlinkFault fs dir = (\<forall>n. \<not> failing fs Unlink dir n)"

text \<open>
  The names \<open>readdir\<close> lists in a directory, the versions \<open>getVersions\<close> reads from them
  before it sorts, and the file system after the \<open>mkdir\<close> of \<open>ensureHistoryDir\<close>.
\<close>

definition dirNames :: "fileSystem \<Rightarrow> string \<Rightarrow> string list" where
  "dirNames fs dir = map (\<lambda>e. snd (fst e)) (filter (\<lambda>e. fst (fst e) = dir) (fsFiles fs))"

definition listedVersions :: "fileSystem \<Rightarrow> string \<Rightarrow> ReadmeVersion list" where
  "listedVersions fs dir = List.map_filter (versionOfFile fs dir) (dirNames fs dir)"

definition afterMkdir :: "fileSystem \<Rightarrow> string \<Rightarrow> fileSystem" where
  "afterMkdir fs ws =
     (case mkdirRecursive fs [ws, historyFolder ws, getHistoryDir ws] of
        Inl e \<Rightarrow> fs | Inr fs' \<Rightarrow> fs')"

text \<open>The version \<open>saveVersion\<close> returns.\<close>

definition newVersion :: "(string \<Rightarrow> string) \<Rightarrow> nat \<Rightarrow> string \<Rightarrow> string \<Rightarrow> ReadmeVersion" where
  "newVersion md5hex now ws content =
     \<lparr>versionId = showNat now @ ''-'' @ generateHash md5hex content,
      timestamp = now,
      hash = generateHash md5hex content,
      preview = getPreview content,
      filePath = (getHistoryDir ws, versionFileName md5hex now content)\<rparr>"

section \<open>Properties of the project type classifier\<close>

text \<open>The definitions that evaluate the classifier on a concrete input.\<close>

lemmas classifier_defs =
  detectProjectType_def hasWorkspaces_def hasFramework_def usingReason_def hasBinField_def
  libraryScore_def isPrivate_def hasMain_def hasTypes_def hasExports_def
  mobileFrameworks_def desktopFrameworks_def fullstackFrameworks_def frontendFrameworks_def
  backendFrameworks_def hasPublicFolder_def hasIndexHtml_def hasServerFile_def

lemmas demo_defs = demoProject_def demoFile_def demoFramework_def demoDetection_def

lemma libraryScore_le: "libraryScore pkg \<le> 4"
  by (simp add: libraryScore_def)

lemma mkResult_sel [simp]:
  "ptype (mkResult t n c r) = t" "confidence (mkResult t n c r) = c"
  by (simp_all add: mkResult_def)

text \<open>
  The doubles of the classifier, by evaluation: their values, the order of the
  literals, and the confidence of a library for the scores 2, 3 and 4. The sums for 2 and 4 are not the
  doubles of 0.8 and 0.9 but their neighbours below, which JavaScript prints as
  0.7999999999999999 and 0.8999999999999999.
\<close>

lemma double_values:
  "double 0.7 = 3152519739159347 / 2 ^ 52"
  "double 0.05 = 3602879701896397 / 2 ^ 56"
  "double 0.3 = 5404319552844595 / 2 ^ 54"
  "double 0.95 = 4278419646001971 / 2 ^ 52"
  "double 0.75 = 3 / 4"
  "double 0.7999999999999999 = 7205759403792793 / 2 ^ 53"
  "double 0.8999999999999999 = 2026619832316723 / 2 ^ 51"
  by code_simp+

lemma double_order:
  "double 0.3 \<le> double 0.6" "double 0.3 \<le> double 0.85" "double 0.3 \<le> double 0.9"
  "double 0.3 \<le> double 0.95" "double 0.6 \<le> double 0.95" "double 0.85 \<le> double 0.95"
  "double 0.9 \<le> double 0.95"
  by code_simp+

lemma library_doubles:
  "doubleAdd (double 0.7) (doubleMul 2 (double 0.05)) = double 0.7999999999999999"
  "doubleAdd (double 0.7) (doubleMul 3 (double 0.05)) = double 0.85"
  "doubleAdd (double 0.7) (doubleMul 4 (double 0.05)) = double 0.8999999999999999"
  by code_simp+

lemma library_doubles_order:
  "double 0.3 \<le> double 0.7999999999999999" "double 0.7999999999999999 \<le> double 0.95"
  "double 0.3 \<le> double 0.8999999999999999" "double 0.8999999999999999 \<le> double 0.95"
  "double 0.7999999999999999 < double 0.8" "double 0.8999999999999999 < double 0.9"
  "double 0.75 < double 0.7999999999999999"
  by code_simp+

lemma library_confidence_bounds:
  assumes "2 \<le> n" "n \<le> 4"
  shows "double 0.3 \<le> doubleAdd (double 0.7) (doubleMul (of_nat n) (double 0.05)) \<and>
         doubleAdd (double 0.7) (doubleMul (of_nat n) (double 0.05)) \<le> double 0.95"
proof -
  from assms have "n = 2 \<or> n = 3 \<or> n = 4" by arith
  moreover have "n = 2 \<Longrightarrow> ?thesis"
    using library_doubles(1) library_doubles_order(1,2) by simp
  moreover have "n = 3 \<Longrightarrow> ?thesis"
    using library_doubles(2) double_order(2,6) by simp
  moreover have "n = 4 \<Longrightarrow> ?thesis"
    using library_doubles(3) library_doubles_order(3,4) by simp
  ultimately show ?thesis by blast
qed

lemma detectProjectType_early:
  "hasWorkspaces p \<Longrightarrow> detectProjectType p d =
     Inr (mkResult ''monorepo'' ''Monorepo'' (double 0.9) ''Detected workspace configuration'')"
  "\<not> hasWorkspaces p \<Longrightarrow> hasFramework (frameworks d) mobileFrameworks \<Longrightarrow>
   detectProjectType p d =
     Inr (mkResult ''mobile'' ''Mobile App'' (double 0.95) (usingReason (frameworks d) mobileFrameworks))"
  "\<not> hasWorkspaces p \<Longrightarrow> \<not> hasFramework (frameworks d) mobileFrameworks \<Longrightarrow>
   hasFramework (frameworks d) desktopFrameworks \<Longrightarrow>
   detectProjectType p d =
     Inr (mkResult ''desktop'' ''Desktop App'' (double 0.95) (usingReason (frameworks d) desktopFrameworks))"
  by (simp_all add: detectProjectType_def Let_def)

lemma detectProjectType_throws:
  "\<not> hasWorkspaces p \<Longrightarrow> \<not> hasFramework (frameworks d) mobileFrameworks \<Longrightarrow>
   \<not> hasFramework (frameworks d) desktopFrameworks \<Longrightarrow>
   hasCliKeyword (getProp (packageJson p) ''keywords'') = Inl e \<Longrightarrow>
   detectProjectType p d = Inl e"
  by (simp add: detectProjectType_def Let_def)

lemma detectProjectType_cli:
  "\<not> hasWorkspaces p \<Longrightarrow> \<not> hasFramework (frameworks d) mobileFrameworks \<Longrightarrow>
   \<not> hasFramework (frameworks d) desktopFrameworks \<Longrightarrow>
   hasCliKeyword (getProp (packageJson p) ''keywords'') = Inr b \<Longrightarrow>
   hasBinField (packageJson p) \<or> b \<Longrightarrow>
   detectProjectType p d =
     Inr (mkResult ''cli'' ''CLI Tool'' (double 0.85)
            (if hasBinField (packageJson p) then ''Has bin field in package.json''
             else ''CLI-related keywords''))"
  by (simp add: detectProjectType_def Let_def)

lemma detectProjectType_library:
  "\<not> hasWorkspaces p \<Longrightarrow> \<not> hasFramework (frameworks d) mobileFrameworks \<Longrightarrow>
   \<not> hasFramework (frameworks d) desktopFrameworks \<Longrightarrow>
   hasCliKeyword (getProp (packageJson p) ''keywords'') = Inr b \<Longrightarrow>
   \<not> (hasBinField (packageJson p) \<or> b) \<Longrightarrow>
   2 \<le> libraryScore (packageJson p) \<and> \<not> isPrivate (packageJson p) \<Longrightarrow>
   detectProjectType p d =
     Inr (mkResult ''library'' ''Library/Package''
            (doubleAdd (double 0.7) (doubleMul (of_nat (libraryScore (packageJson p))) (double 0.05)))
            ''Has library configuration (main, types, exports)'')"
  by (simp add: detectProjectType_def Let_def)

lemma detectProjectType_late:
  "\<not> hasWorkspaces p \<Longrightarrow> \<not> hasFramework (frameworks d) mobileFrameworks \<Longrightarrow>
   \<not> hasFramework (frameworks d) desktopFrameworks \<Longrightarrow>
   hasCliKeyword (getProp (packageJson p) ''keywords'') = Inr b \<Longrightarrow>
   \<not> (hasBinField (packageJson p) \<or> b) \<Longrightarrow>
   \<not> (2 \<le> libraryScore (packageJson p) \<and> \<not> isPrivate (packageJson p)) \<Longrightarrow>
   detectProjectType p d \<in> Inr `
     {mkResult ''fullstack'' ''Full-Stack App'' (double 0.9) (usingReason (frameworks d) fullstackFrameworks),
      mkResult ''fullstack'' ''Full-Stack App'' (double 0.85) ''Has both frontend and backend frameworks'',
      mkResult ''web-app'' ''Web Application'' (double 0.85) (usingReason (frameworks d) frontendFrameworks),
      mkResult ''backend'' ''Backend/API'' (double 0.85) (usingReason (frameworks d) backendFrameworks),
      mkResult ''web-app'' ''Web Application'' (double 0.6) ''Has public folder or index.html'',
      mkResult ''backend'' ''Backend/API'' (double 0.6) ''Has server entry file'',
      mkResult ''unknown'' ''Project'' (double 0.3) ''Could not determine project type''}"
  unfolding detectProjectType_def Let_def
  by (simp only: if_False if_True sum.case) (simp only: image_insert image_empty insert_iff simp_thms split: if_split)

lemma late_result_bounds:
  assumes "r \<in>
     {mkResult ''fullstack'' ''Full-Stack App'' (double 0.9) a,
      mkResult ''fullstack'' ''Full-Stack App'' (double 0.85) b,
      mkResult ''web-app'' ''Web Application'' (double 0.85) c,
      mkResult ''backend'' ''Backend/API'' (double 0.85) e,
      mkResult ''web-app'' ''Web Application'' (double 0.6) f,
      mkResult ''backend'' ''Backend/API'' (double 0.6) g,
      mkResult ''unknown'' ''Project'' (double 0.3) h}"
  shows "ptype r \<in> set archetypes \<and> double 0.3 \<le> confidence r \<and> confidence r \<le> double 0.95"
proof -
  note o = double_order [simplified]
  from assms show ?thesis by (elim insertE emptyE) (simp_all add: archetypes_def o)
qed

lemma detectProjectType_result:
  assumes "detectProjectType p d = Inr r"
  shows "ptype r \<in> set archetypes \<and> double 0.3 \<le> confidence r \<and> confidence r \<le> double 0.95"
proof -
  consider (ws) "hasWorkspaces p"
    | (mobile) "\<not> hasWorkspaces p" "hasFramework (frameworks d) mobileFrameworks"
    | (desktop) "\<not> hasWorkspaces p" "\<not> hasFramework (frameworks d) mobileFrameworks"
        "hasFramework (frameworks d) desktopFrameworks"
    | (rest) "\<not> hasWorkspaces p" "\<not> hasFramework (frameworks d) mobileFrameworks"
        "\<not> hasFramework (frameworks d) desktopFrameworks"
    by blast
  then show ?thesis
  proof cases
    case ws
    from detectProjectType_early(1) [OF ws, of d] assms double_order show ?thesis
      by (auto simp: archetypes_def)
  next
    case mobile
    from detectProjectType_early(2) [OF mobile] assms double_order show ?thesis
      by (auto simp: archetypes_def)
  next
    case desktop
    from detectProjectType_early(3) [OF desktop] assms double_order show ?thesis
      by (auto simp: archetypes_def)
  next
    case rest
    show ?thesis
    proof (cases "hasCliKeyword (getProp (packageJson p) ''keywords'')")
      case (Inl e)
      from detectProjectType_throws [OF rest Inl] assms show ?thesis by simp
    next
      case (Inr b)
      show ?thesis
      proof (cases "hasBinField (packageJson p) \<or> b")
        case True
        from detectProjectType_cli [OF rest Inr True] assms double_order show ?thesis
          by (auto simp: archetypes_def)
      next
        case nocli: False
        show ?thesis
        proof (cases "2 \<le> libraryScore (packageJson p) \<and> \<not> isPrivate (packageJson p)")
          case True
          from detectProjectType_library [OF rest Inr nocli True] assms
          have r: "r = mkResult ''library'' ''Library/Package''
                     (doubleAdd (double 0.7) (doubleMul (of_nat (libraryScore (packageJson p))) (double 0.05)))
                     ''Has library configuration (main, types, exports)''"
            by simp
          from True library_confidence_bounds [OF _ libraryScore_le, of "packageJson p"]
          show ?thesis unfolding r by (simp add: archetypes_def)
        next
          case False
          from detectProjectType_late [OF rest Inr nocli False]
          show ?thesis unfolding assms inj_image_mem_iff [OF inj_Inr]
            by (rule late_result_bounds)
        qed
      qed
    qed
  qed
qed

lemma someCliKeyword_strings: "list_all isJStr ks \<Longrightarrow> \<exists>b. someCliKeyword ks = Inr b"
proof (induction ks)
  case Nil
  show ?case by (simp, rule exI [of _ False], simp)
next
  case (Cons k ks)
  then show ?case by (cases k) auto
qed

lemma hasCliKeyword_strings: "stringKeywords kw \<Longrightarrow> \<exists>b. hasCliKeyword kw = Inr b"
proof (cases kw)
  case None
  then show ?thesis by (simp, intro exI [of _ False], simp)
next
  case (Some v)
  assume "stringKeywords kw"
  with Some show ?thesis
  proof (cases v)
    case JNull
    with Some show ?thesis by (simp, intro exI [of _ False], simp)
  next
    case (JArr ks)
    with Some \<open>stringKeywords kw\<close> show ?thesis by (simp add: someCliKeyword_strings)
  qed simp_all
qed

lemma detectProjectType_returns:
  assumes "hasWorkspaces p \<or> hasFramework (frameworks d) mobileFrameworks \<or>
           hasFramework (frameworks d) desktopFrameworks \<or>
           stringKeywords (getProp (packageJson p) ''keywords'')"
  shows "\<exists>r. detectProjectType p d = Inr r"
proof -
  consider (ws) "hasWorkspaces p"
    | (mobile) "\<not> hasWorkspaces p" "hasFramework (frameworks d) mobileFrameworks"
    | (desktop) "\<not> hasWorkspaces p" "\<not> hasFramework (frameworks d) mobileFrameworks"
        "hasFramework (frameworks d) desktopFrameworks"
    | (rest) "\<not> hasWorkspaces p" "\<not> hasFramework (frameworks d) mobileFrameworks"
        "\<not> hasFramework (frameworks d) desktopFrameworks"
    by blast
  then show ?thesis
  proof cases
    case ws
    from detectProjectType_early(1) [OF ws, of d] show ?thesis by blast
  next
    case mobile
    from detectProjectType_early(2) [OF mobile] show ?thesis by blast
  next
    case desktop
    from detectProjectType_early(3) [OF desktop] show ?thesis by blast
  next
    case rest
    with assms have "stringKeywords (getProp (packageJson p) ''keywords'')" by blast
    then obtain b where b: "hasCliKeyword (getProp (packageJson p) ''keywords'') = Inr b"
      using hasCliKeyword_strings by blast
    show ?thesis
    proof (cases "hasBinField (packageJson p) \<or> b")
      case True
      from detectProjectType_cli [OF rest b True] show ?thesis by blast
    next
      case nocli: False
      show ?thesis
      proof (cases "2 \<le> libraryScore (packageJson p) \<and> \<not> isPrivate (packageJson p)")
        case True
        from detectProjectType_library [OF rest b nocli True] show ?thesis by blast
      next
        case False
        from detectProjectType_late [OF rest b nocli False] show ?thesis by blast
      qed
    qed
  qed
qed

text \<open>
  The keyword test lower-cases as JavaScript does: the keyword \<open>CL\<close> followed by U+0130
  (capital I with a dot) becomes \<open>cli\<close> followed by U+0307 and is a CLI keyword.
\<close>

lemma dotted_capital_keyword:
  "toLowerCase (''CL'' @ [CHR 0xC4, CHR 0xB0]) = ''cli'' @ [CHR 0xCC, CHR 0x87] \<and>
   hasCliKeyword (Some (JArr [JStr (''CL'' @ [CHR 0xC4, CHR 0xB0])])) = Inr True"
  by code_simp

lemma libraryScore_fields: "libraryScore pkg = libraryFieldsPresent pkg + (if isPrivate pkg then 0 else 1)"
  by (simp add: libraryScore_def libraryFieldsPresent_def)

text \<open>
  Claim C5, as amended. When the manifest has a truthy \<open>workspaces\<close> field (any value but
  \<open>null\<close>, \<open>false\<close>, \<open>0\<close> and the empty string), or a file \<open>lerna.json\<close> or
  \<open>pnpm-workspace.yaml\<close> exists, and a mobile framework is detected as well, the
  classifier returns the monorepo archetype with confidence 0.9, not mobile.
\<close>

theorem monorepo_precedes_mobile:
  assumes "truthy (getProp (packageJson p) ''workspaces'') \<or>
           list_ex (\<lambda>f. fileName f = ''lerna.json'' \<or> fileName f = ''pnpm-workspace.yaml'') (files p)"
      and "hasFramework (frameworks d) mobileFrameworks"
  shows "detectProjectType p d =
           Inr (mkResult ''monorepo'' ''Monorepo'' (double 0.9) ''Detected workspace configuration'')"
  using assms(1) by (simp add: detectProjectType_def hasWorkspaces_def)

theorem monorepo_precedes_mobile_witness:
  "hasFramework (frameworks (demoDetection [] [demoFramework ''React Native'' ''Mobile Framework''])) mobileFrameworks \<and>
   truthy (getProp (packageJson (demoProject (Some workspacesManifest) [])) ''workspaces'') \<and>
   detectProjectType (demoProject (Some workspacesManifest) [])
       (demoDetection [] [demoFramework ''React Native'' ''Mobile Framework'']) =
     Inr (mkResult ''monorepo'' ''Monorepo'' (double 0.9) ''Detected workspace configuration'')"
proof -
  have a: "truthy (getProp (packageJson (demoProject (Some workspacesManifest) [])) ''workspaces'')"
    by (simp add: demo_defs workspacesManifest_def)
  have b: "hasFramework (frameworks (demoDetection [] [demoFramework ''React Native'' ''Mobile Framework''])) mobileFrameworks"
    by (simp add: demo_defs hasFramework_def mobileFrameworks_def)
  from a b monorepo_precedes_mobile [OF disjI1 [OF a] b] show ?thesis by simp
qed

text \<open>
  The claim as stated fails: a manifest with the field \<open>"workspaces": false\<close> has a
  workspaces field, and with Flutter detected the project classifies as mobile.
\<close>

theorem falsy_workspaces_counterexample:
  "getProp (packageJson (demoProject (Some falseWorkspacesManifest) [])) ''workspaces'' = Some (JBool False) \<and>
   hasFramework (frameworks (demoDetection [] [demoFramework ''Flutter'' ''Mobile Framework''])) mobileFrameworks \<and>
   detectProjectType (demoProject (Some falseWorkspacesManifest) [])
       (demoDetection [] [demoFramework ''Flutter'' ''Mobile Framework'']) =
     Inr (mkResult ''mobile'' ''Mobile App'' (double 0.95) ''Using Flutter'')"
  by (simp add: classifier_defs demo_defs falseWorkspacesManifest_def)

text \<open>
  Claim C6, as amended. When no earlier rule (monorepo, mobile, desktop, cli) matched
  and the manifest has one of the fields main, types (or typings) and exports and is not
  marked private, the classifier returns the library archetype, and its confidence is
  the double that \<open>0.7 + score * 0.05\<close> gives in floating point, where the score is the
  number of the three fields present plus one for not being private: for one, two and
  three fields the doubles that print as 0.7999999999999999, 0.85 and
  0.8999999999999999.
\<close>

theorem library_confidence:
  assumes "\<not> hasWorkspaces p"
      and "\<not> hasFramework (frameworks d) mobileFrameworks"
      and "\<not> hasFramework (frameworks d) desktopFrameworks"
      and "hasCliKeyword (getProp (packageJson p) ''keywords'') = Inr False"
      and "\<not> hasBinField (packageJson p)"
      and "hasMain (packageJson p) \<or> hasTypes (packageJson p) \<or> hasExports (packageJson p)"
      and "\<not> isPrivate (packageJson p)"
  shows "detectProjectType p d =
           Inr (mkResult ''library'' ''Library/Package''
                  (doubleAdd (double 0.7)
                     (doubleMul (of_nat (libraryFieldsPresent (packageJson p) + 1)) (double 0.05)))
                  ''Has library configuration (main, types, exports)'') \<and>
         doubleAdd (double 0.7)
             (doubleMul (of_nat (libraryFieldsPresent (packageJson p) + 1)) (double 0.05)) =
           (if libraryFieldsPresent (packageJson p) = 1 then double 0.7999999999999999
            else if libraryFieldsPresent (packageJson p) = 2 then double 0.85
            else double 0.8999999999999999)"
proof -
  have k: "1 \<le> libraryFieldsPresent (packageJson p)" "libraryFieldsPresent (packageJson p) \<le> 3"
    using assms(6) by (auto simp: libraryFieldsPresent_def)
  have s: "libraryScore (packageJson p) = libraryFieldsPresent (packageJson p) + 1"
    using assms(7) by (simp add: libraryScore_fields)
  have "detectProjectType p d =
           Inr (mkResult ''library'' ''Library/Package''
                  (doubleAdd (double 0.7)
                     (doubleMul (of_nat (libraryFieldsPresent (packageJson p) + 1)) (double 0.05)))
                  ''Has library configuration (main, types, exports)'')"
    using assms(1-5,7) k(1) by (simp add: detectProjectType_def s)
  moreover from k have "libraryFieldsPresent (packageJson p) = 1 \<or>
      libraryFieldsPresent (packageJson p) = 2 \<or> libraryFieldsPresent (packageJson p) = 3"
    by arith
  then have "doubleAdd (double 0.7)
             (doubleMul (of_nat (libraryFieldsPresent (packageJson p) + 1)) (double 0.05)) =
           (if libraryFieldsPresent (packageJson p) = 1 then double 0.7999999999999999
            else if libraryFieldsPresent (packageJson p) = 2 then double 0.85
            else double 0.8999999999999999)"
  proof (elim disjE)
    assume "libraryFieldsPresent (packageJson p) = 1"
    with library_doubles(1) show ?thesis by simp
  next
    assume "libraryFieldsPresent (packageJson p) = 2"
    with library_doubles(2) show ?thesis by simp
  next
    assume "libraryFieldsPresent (packageJson p) = 3"
    with library_doubles(3) show ?thesis by simp
  qed
  ultimately show ?thesis by simp
qed

theorem library_confidence_witness:
  "libraryFieldsPresent (packageJson (demoProject (Some mainOnlyManifest) [])) = 1 \<and>
   detectProjectType (demoProject (Some mainOnlyManifest) []) (demoDetection [] []) =
     Inr (mkResult ''library'' ''Library/Package'' (double 0.7999999999999999)
            ''Has library configuration (main, types, exports)'')"
proof -
  let ?p = "demoProject (Some mainOnlyManifest) []" and ?d = "demoDetection [] []"
  have 1: "\<not> hasWorkspaces ?p" by (simp add: classifier_defs demo_defs mainOnlyManifest_def)
  have 2: "\<not> hasFramework (frameworks ?d) mobileFrameworks" by (simp add: classifier_defs demo_defs)
  have 3: "\<not> hasFramework (frameworks ?d) desktopFrameworks" by (simp add: classifier_defs demo_defs)
  have 4: "hasCliKeyword (getProp (packageJson ?p) ''keywords'') = Inr False"
    by (simp add: demo_defs mainOnlyManifest_def)
  have 5: "\<not> hasBinField (packageJson ?p)" by (simp add: classifier_defs demo_defs mainOnlyManifest_def)
  have 6: "hasMain (packageJson ?p) \<or> hasTypes (packageJson ?p) \<or> hasExports (packageJson ?p)"
    by (simp add: classifier_defs demo_defs mainOnlyManifest_def)
  have 7: "\<not> isPrivate (packageJson ?p)" by (simp add: classifier_defs demo_defs mainOnlyManifest_def)
  have n: "libraryFieldsPresent (packageJson ?p) = 1"
    by (simp add: classifier_defs demo_defs mainOnlyManifest_def libraryFieldsPresent_def)
  from library_confidence [OF 1 2 3 4 5 6 7] n show ?thesis by simp
qed

text \<open>
  The claim as stated fails: with the one field \<open>main\<close> the confidence is not
  0.7 + 0.05, the double 0.75, but the greater double that prints as
  0.7999999999999999.
\<close>

theorem library_confidence_counterexample:
  "libraryFieldsPresent (packageJson (demoProject (Some mainOnlyManifest) [])) = 1 \<and>
   detectProjectType (demoProject (Some mainOnlyManifest) []) (demoDetection [] []) =
     Inr (mkResult ''library'' ''Library/Package'' (double 0.7999999999999999)
            ''Has library configuration (main, types, exports)'') \<and>
   doubleAdd (double 0.7) (doubleMul 1 (double 0.05)) = double 0.75 \<and>
   double 0.75 < double 0.7999999999999999"
proof -
  have a: "doubleAdd (double 0.7) (doubleMul 1 (double 0.05)) = double 0.75" by code_simp
  from a library_doubles(1) library_doubles_order(7) show ?thesis
    by (simp add: classifier_defs demo_defs mainOnlyManifest_def libraryFieldsPresent_def)
qed

text \<open>
  Claim C9, as amended. \<open>detectProjectType\<close> returns a result whenever an earlier rule
  (monorepo, mobile, desktop) applies or the \<open>keywords\<close> field of the manifest is absent,
  \<open>null\<close> or an array of strings; and every result it returns has one of the nine
  archetypes as its type and a confidence in the interval from 0.3 to 0.95.
\<close>

theorem detectProjectType_total_and_bounded:
  "(hasWorkspaces p \<or> hasFramework (frameworks d) mobileFrameworks \<or>
    hasFramework (frameworks d) desktopFrameworks \<or>
    stringKeywords (getProp (packageJson p) ''keywords'')
      \<longrightarrow> (\<exists>r. detectProjectType p d = Inr r)) \<and>
   (\<forall>r. detectProjectType p d = Inr r \<longrightarrow>
      ptype r \<in> set archetypes \<and> double 0.3 \<le> confidence r \<and> confidence r \<le> double 0.95)"
  using detectProjectType_returns [of p d] detectProjectType_result [of p d] by blast

theorem detectProjectType_total_and_bounded_witness:
  "stringKeywords (getProp (packageJson (demoProject (Some mainOnlyManifest) [])) ''keywords'') \<and>
   detectProjectType (demoProject (Some mainOnlyManifest) []) (demoDetection [] []) =
     Inr (mkResult ''library'' ''Library/Package'' (double 0.7999999999999999)
            ''Has library configuration (main, types, exports)'') \<and>
   ptype (mkResult ''library'' ''Library/Package'' (double 0.7999999999999999)
            ''Has library configuration (main, types, exports)'') \<in> set archetypes \<and>
   double 0.3 \<le> double 0.7999999999999999 \<and> double 0.7999999999999999 \<le> double 0.95"
proof -
  let ?p = "demoProject (Some mainOnlyManifest) []" and ?d = "demoDetection [] []"
  have k: "stringKeywords (getProp (packageJson ?p) ''keywords'')"
    by (simp add: demo_defs mainOnlyManifest_def)
  have e: "detectProjectType ?p ?d =
     Inr (mkResult ''library'' ''Library/Package'' (double 0.7999999999999999)
            ''Has library configuration (main, types, exports)'')"
    using library_doubles(1) by (simp add: classifier_defs demo_defs mainOnlyManifest_def)
  from detectProjectType_total_and_bounded [of ?p ?d] k e show ?thesis by simp
qed

text \<open>
  The claim as stated fails: the function is not total. With \<open>"keywords": "cli"\<close> (a
  string, not an array) the call of \<open>some\<close> throws a TypeError.
\<close>

theorem string_keywords_counterexample:
  "detectProjectType (demoProject (Some stringKeywordsManifest) []) (demoDetection [] []) =
     Inl TypeError"
  by (simp add: classifier_defs demo_defs stringKeywordsManifest_def)


section \<open>Properties of the generation orchestrator and the template registry\<close>

lemmas store_defs =
  getSecret_def keyPresent_def hasApiKey_def hasHuggingFaceApiKey_def getApiProvider_def
  OPENROUTER_API_KEY_SECRET_def HUGGINGFACE_API_KEY_SECRET_def API_PROVIDER_SECRET_def

lemma joinWith_nonempty: "x \<noteq> [] \<Longrightarrow> joinWith sep (x # xs) \<noteq> []"
  by (cases xs) simp_all

lemma offlineTemplate_nonempty:
  "offlineTemplate pname badges description t languageNames frameworkNames pm installCmd runCmd
     licenseLine \<noteq> []"
  unfolding offlineTemplate_def joinLines_def
  by (rule joinWith_nonempty) simp

lemma generateOfflineReadme_nonempty: "generateOfflineReadme p d t = Inr doc \<Longrightarrow> doc \<noteq> []"
  by (auto simp: generateOfflineReadme_def Let_def offlineTemplate_nonempty
      split: sum.splits json.splits)

text \<open>A value that prints has a text; so has the license line of a manifest that prints.\<close>

lemma collect_all_Inr:
  "(\<forall>r \<in> set rs. \<exists>x. r = Inr x) \<Longrightarrow> \<exists>xs. collect rs = Inr xs"
proof (induction rs)
  case Nil
  show ?case by simp
next
  case (Cons r rs)
  then obtain x xs where "r = Inr x" "collect rs = Inr xs" by auto
  then show ?case by simp
qed

lemma printable_text: "printable v \<Longrightarrow> \<exists>s. jsToString v = Inr s"
proof (induction v)
  case (JArr xs)
  then have "\<forall>r \<in> set (map (\<lambda>x. if x = JNull then Inr [] else jsToString x) xs). \<exists>s. r = Inr s"
    by (auto simp: list_all_iff)
  from collect_all_Inr [OF this] show ?case by auto
qed auto

lemma encodable_text: "encodable v \<Longrightarrow> \<exists>s. jsToString v = Inr s"
  by (auto simp: encodable_def split: sum.splits)

lemma orDefault_text:
  "falsyOr printable v \<Longrightarrow> \<exists>s. jsToString (orDefault v fallback) = Inr s"
  by (cases v) (auto simp: falsyOr_def orDefault_def printable_text)

lemma orDefault_name:
  assumes "falsyOr isJStr (Some name)"
  shows "\<exists>s. orDefault (Some name) fallback = JStr s"
proof (cases "truthy (Some name)")
  case True
  with assms have "isJStr name" by (simp add: falsyOr_def)
  then obtain s where "name = JStr s" by (cases name) simp_all
  with True show ?thesis by (simp add: orDefault_def)
next
  case False
  then show ?thesis by (simp add: orDefault_def)
qed

lemma licenseText_returns:
  "falsyOr encodable (getProp pkg ''license'') \<Longrightarrow> \<exists>s. licenseText pkg = Inr s"
  by (auto simp: falsyOr_def licenseText_def dest: encodable_text split: option.splits)

lemma metaBadges_returns:
  assumes "printableMeta (packageJson p)"
  shows "\<exists>ms. metaBadges p = Inr ms"
proof -
  from assms have "\<exists>b. generateLicenseBadge p = Inr b"
    by (auto simp: printableMeta_def falsyOr_def generateLicenseBadge_def encodable_def
        encodeURIComponent_def split: option.splits sum.splits)
  moreover from assms have "\<exists>b. generateVersionBadge p = Inr b"
    by (auto simp: printableMeta_def falsyOr_def generateVersionBadge_def
        dest: printable_text split: option.splits)
  ultimately show ?thesis by (auto simp: metaBadges_def)
qed

lemma getBadgesMarkdown_returns:
  assumes "printableMeta (packageJson p)"
  shows "\<exists>s. getBadgesMarkdown p d style = Inr s"
  using metaBadges_returns [OF assms]
  by (auto simp: getBadgesMarkdown_def generateAllBadges_def)

lemma generateOfflineReadme_returns:
  assumes "printableProject p"
  shows "\<exists>doc. generateOfflineReadme p d t = Inr doc"
proof -
  from assms have m: "printableMeta (packageJson p)" by (simp add: printableProject_def)
  from getBadgesMarkdown_returns [OF m]
  obtain badges where b: "getBadgesMarkdown p d ''flat-square'' = Inr badges" by blast
  from assms orDefault_name obtain pname where n: "orDefault (Some (projectName p)) ''Project'' = JStr pname"
    unfolding printableProject_def by blast
  from assms orDefault_text obtain descr where
    ds: "jsToString (orDefault (getProp (packageJson p) ''description'') ''A software project'') = Inr descr"
    unfolding printableProject_def by blast
  from m licenseText_returns obtain line where l: "licenseText (packageJson p) = Inr line"
    unfolding printableMeta_def by blast
  show ?thesis by (simp add: generateOfflineReadme_def Let_def b n ds l)
qed

lemma initialized_store:
  assumes "hasApiKey store = Inr b"
  shows "\<exists>secrets. store = Some secrets"
  using assms by (cases store) (simp_all add: hasApiKey_def getSecret_def)

text \<open>
  Claim C4, as amended. Whenever no generation credential is configured (the checks for
  the two provider keys both answer no), \<open>generateReadme\<close> generates the offline document
  and nothing else: when \<open>generateOfflineReadme\<close> returns, it calls \<open>onComplete\<close> exactly
  once, with the offline document, which is not empty, it calls neither \<open>onToken\<close> nor
  \<open>onError\<close>, and its promise is not rejected; when \<open>generateOfflineReadme\<close> throws, the
  promise is rejected with the exception and no callback is called. And
  \<open>generateOfflineReadme\<close> returns whenever the name of the project is a string, the
  description and the version of the manifest are falsy or print, and the license is
  falsy or prints to a text without a lone surrogate.
\<close>

theorem generateReadme_offline_without_credential:
  assumes "hasHuggingFaceApiKey store = Inr False"
      and "hasApiKey store = Inr False"
  shows "generateReadme store texts generateWithGroq generateWithStreaming p d t options =
           (case generateOfflineReadme p d t of
              Inl e \<Rightarrow> ([], Some e)
            | Inr doc \<Rightarrow> ([OnComplete doc], None)) \<and>
         (\<forall>doc. generateOfflineReadme p d t = Inr doc \<longrightarrow> doc \<noteq> []) \<and>
         (printableProject p \<longrightarrow>
            (\<exists>doc. doc \<noteq> [] \<and>
               generateReadme store texts generateWithGroq generateWithStreaming p d t options =
                 ([OnComplete doc], None)))"
proof -
  from initialized_store [OF assms(2)] obtain secrets where s: "store = Some secrets" by blast
  then obtain provider where "getApiProvider store = Inr provider"
    by (simp add: getApiProvider_def getSecret_def)
  with assms have g: "generateReadme store texts generateWithGroq generateWithStreaming p d t options =
           (case generateOfflineReadme p d t of
              Inl e \<Rightarrow> ([], Some e)
            | Inr doc \<Rightarrow> ([OnComplete doc], None))"
    by (simp add: generateReadme_def)
  have "\<exists>doc. doc \<noteq> [] \<and>
               generateReadme store texts generateWithGroq generateWithStreaming p d t options =
                 ([OnComplete doc], None)" if "printableProject p"
  proof -
    from generateOfflineReadme_returns [OF that]
    obtain doc where doc: "generateOfflineReadme p d t = Inr doc" by blast
    from generateOfflineReadme_nonempty [OF doc] g doc show ?thesis by simp
  qed
  with g generateOfflineReadme_nonempty show ?thesis by blast
qed

theorem generateReadme_offline_without_credential_witness:
  "hasHuggingFaceApiKey emptyStore = Inr False \<and> hasApiKey emptyStore = Inr False \<and>
   printableProject (demoProject None []) \<and>
   (\<exists>doc. doc \<noteq> [] \<and>
      generateReadme emptyStore demoTexts demoClient demoClient
          (demoProject None []) (demoDetection [] []) demoType (demoOptions ''openSource'') =
        ([OnComplete doc], None))"
proof -
  have a: "hasHuggingFaceApiKey emptyStore = Inr False"
    by (simp add: emptyStore_def store_defs)
  have b: "hasApiKey emptyStore = Inr False"
    by (simp add: emptyStore_def store_defs)
  have c: "printableProject (demoProject None [])"
    by code_simp
  note t = generateReadme_offline_without_credential [OF a b, of demoTexts demoClient demoClient
      "demoProject None []" "demoDetection [] []" demoType "demoOptions ''openSource''"]
  from conjunct2 [OF conjunct2 [OF t]]
  have "printableProject (demoProject None []) \<longrightarrow>
     (\<exists>doc. doc \<noteq> [] \<and>
        generateReadme emptyStore demoTexts demoClient demoClient
            (demoProject None []) (demoDetection [] []) demoType (demoOptions ''openSource'') =
          ([OnComplete doc], None))" .
  from mp [OF this c] a b c show ?thesis by (intro conjI)
qed

text \<open>
  The claim as stated fails: with no credential configured and a manifest whose name is
  the number 123, \<open>projectName.toLowerCase\<close> is not a function; \<open>generateOfflineReadme\<close>
  throws a TypeError, the promise of \<open>generateReadme\<close> is rejected and \<open>onComplete\<close> is
  not called.
\<close>

theorem number_name_counterexample:
  "hasHuggingFaceApiKey emptyStore = Inr False \<and> hasApiKey emptyStore = Inr False \<and>
   generateOfflineReadme numberNameProject (demoDetection [] []) demoType = Inl TypeError \<and>
   generateReadme emptyStore demoTexts demoClient demoClient
       numberNameProject (demoDetection [] []) demoType (demoOptions ''openSource'') =
     ([], Some TypeError)"
proof -
  have o: "generateOfflineReadme numberNameProject (demoDetection [] []) demoType = Inl TypeError"
    by code_simp
  show ?thesis
    by (simp add: o generateReadme_def emptyStore_def store_defs)
qed

text \<open>
  An id that is neither one of the five catalog ids nor a member of \<open>Object.prototype\<close>
  falls back to the Open Source template.
\<close>

lemma getTemplate_fallback:
  "tid \<notin> set (map fst TEMPLATES) \<Longrightarrow> tid \<notin> set objectPrototypeMembers \<Longrightarrow>
   getTemplate tid = Template openSourceTemplate"
  by (simp add: getTemplate_def map_of_eq_None_iff [THEN iffD2])

text \<open>
  Claim C10 does not hold of the code. The id \<open>constructor\<close> is not a catalog id, yet
  \<open>getTemplate\<close> does not fall back to the Open Source template: it returns the member
  that \<open>TEMPLATES\<close> inherits under this name, which is not a template. With a credential
  configured, the generation request then fails: reading the sections of that value
  throws, outside the \<open>try\<close> of \<open>generateReadme\<close>, so the promise is rejected and no
  callback is called.
\<close>

theorem getTemplate_inherited_member:
  "getTemplate ''constructor'' = Inherited ''constructor'' \<and>
   generateReadme openRouterStore texts generateWithGroq generateWithStreaming p d t
       (demoOptions ''constructor'') = ([], Some TypeError)"
  by (simp add: getTemplate_def TEMPLATES_def objectPrototypeMembers_def generateReadme_def
      openRouterStore_def store_defs buildPrompt_def buildSectionInstructions_def demoOptions_def)

text \<open>
  Claim C8 does not hold of the code. With the Groq key configured and no OpenRouter
  key, a generation credential is configured, yet \<open>regenerateSection\<close> refuses with
  \<open>onError\<close> and generates nothing: its guard asks \<open>hasApiKey\<close> (the OpenRouter key)
  alone. \<open>generateReadme\<close>, on the same store, goes on to the Groq client.
\<close>

theorem regenerateSection_refuses_groq_key:
  "hasHuggingFaceApiKey groqOnlyStore = Inr True \<and>
   regenerateSection groqOnlyStore texts generateWithGroq generateWithStreaming
       sec p d t currentContent customInstr =
     ([OnError ''API key not configured. Cannot regenerate section.''], None) \<and>
   generateReadme groqOnlyStore texts generateWithGroq generateWithStreaming p d t
       (demoOptions ''openSource'') =
     (case buildPrompt texts p d t (getTemplate ''openSource'') (demoOptions ''openSource'') of
        Inl e \<Rightarrow> ([], Some e)
      | Inr prompts \<Rightarrow>
          withOfflineFallback (generateOfflineReadme p d t) (generateWithGroq (chatMessages prompts)))"
  by (simp add: regenerateSection_def generateReadme_def groqOnlyStore_def store_defs useGroq_def
      demoOptions_def split: sum.split)


section \<open>Properties of the language detector\<close>

lemma sum_bump: "sum_list (map snd (bump acc ext)) = sum_list (map snd acc) + 1"
  by (induction acc) auto

lemma sum_count_fold:
  "sum_list (map snd (fold (\<lambda>f acc. if recognized f then bump acc (extension f) else acc) fs acc)) =
   sum_list (map snd acc) + length (filter recognized fs)"
  by (induction fs arbitrary: acc) (simp_all add: sum_bump)

lemma sum_extensionCounts: "sum_list (map snd (extensionCounts fs)) = totalFilesCount fs"
  by (simp add: extensionCounts_def totalFilesCount_def sum_count_fold)

lemma sum_insort_key:
  "sum_list (map g (insort_key k x xs)) = (g x :: nat) + sum_list (map g xs)"
  by (induction xs) auto

lemma sum_sort_key: "sum_list (map g (sort_key k xs)) = (sum_list (map g xs) :: nat)"
  by (induction xs) (simp_all add: sum_insort_key)

lemma startsWith_baseName: "startsWith (langName l) (baseName l)"
  unfolding startsWith_def baseName_def by (rule takeWhile_eq_take [symmetric])

lemma names_addToExisting: "map langName (addToExisting b l ms) = map langName ms"
  by (induction ms) auto

lemma fileCount_addToExisting:
  "\<exists>m \<in> set ms. startsWith (langName m) b \<Longrightarrow>
   sum_list (map fileCount (addToExisting b l ms)) = sum_list (map fileCount ms) + fileCount l"
  by (induction ms) auto

lemma percentage_addToExisting:
  "\<exists>m \<in> set ms. startsWith (langName m) b \<Longrightarrow>
   sum_list (map percentage (addToExisting b l ms)) = sum_list (map percentage ms) + percentage l"
  by (induction ms) auto

lemma covered_addToExisting:
  "(\<exists>m \<in> set (addToExisting b l ms). startsWith (langName m) c) =
   (\<exists>m \<in> set ms. startsWith (langName m) c)"
  by (induction ms) auto

lemma seenCovered_step: "seenCovered st \<Longrightarrow> seenCovered (mergeStep l st)"
  unfolding seenCovered_def mergeStep_def
  using startsWith_baseName [of l] by (auto simp: covered_addToExisting)

lemma fileCount_step:
  "seenCovered st \<Longrightarrow>
   sum_list (map fileCount (snd (mergeStep l st))) = sum_list (map fileCount (snd st)) + fileCount l"
  unfolding seenCovered_def mergeStep_def
  by (auto intro!: fileCount_addToExisting)

lemma percentage_step:
  "seenCovered st \<Longrightarrow>
   sum_list (map percentage (snd (mergeStep l st))) = sum_list (map percentage (snd st)) + percentage l"
  unfolding seenCovered_def mergeStep_def
  by (auto intro!: percentage_addToExisting)

lemma merge_fold:
  "seenCovered st \<Longrightarrow>
   sum_list (map fileCount (snd (fold mergeStep ls st))) =
     sum_list (map fileCount (snd st)) + sum_list (map fileCount ls) \<and>
   sum_list (map percentage (snd (fold mergeStep ls st))) =
     sum_list (map percentage (snd st)) + sum_list (map percentage ls)"
proof (induction ls arbitrary: st)
  case Nil
  then show ?case by simp
next
  case (Cons l ls)
  from Cons.IH [OF seenCovered_step [OF Cons.prems]] fileCount_step [OF Cons.prems]
    percentage_step [OF Cons.prems]
  show ?case by simp
qed

lemma mergeLanguages_sums:
  "sum_list (map fileCount (mergeLanguages ls)) = sum_list (map fileCount ls)"
  "sum_list (map percentage (mergeLanguages ls)) = sum_list (map percentage ls)"
  using merge_fold [of "([], [])" ls] by (simp_all add: mergeLanguages_def seenCovered_def)

lemma fileCount_entries: "fileCount \<circ> languageEntry tot = snd"
  by (rule ext) (simp add: languageEntry_def)

lemma mergedLanguages_fileCount:
  "sum_list (map fileCount (mergedLanguages p)) = totalFilesCount (files p)"
  by (simp add: mergedLanguages_def Let_def mergeLanguages_sums sortByFileCount_def sum_sort_key
      fileCount_entries sum_extensionCounts)

lemma sum_take_le: "sum_list (map f (take n xs)) \<le> (sum_list (map f xs) :: nat)"
proof -
  have "sum_list (map f xs) = sum_list (map f (take n xs)) + sum_list (map f (drop n xs))"
    by (metis append_take_drop_id map_append sum_list_append)
  then show ?thesis by simp
qed

lemma fold_unrecognized:
  "\<forall>f \<in> set fs. \<not> recognized f \<Longrightarrow>
   fold (\<lambda>f acc. if recognized f then bump acc (extension f) else acc) fs acc = acc"
  by (induction fs arbitrary: acc) simp_all

lemma extensionCounts_empty: "totalFilesCount fs = 0 \<Longrightarrow> extensionCounts fs = []"
  by (simp add: totalFilesCount_def extensionCounts_def fold_unrecognized filter_empty_conv)

lemma percentage_entries:
  "percentage \<circ> languageEntry tot = (\<lambda>e. roundPercent (snd e) tot)"
  by (rule ext) (simp add: languageEntry_def)

lemma mergedLanguages_percentage:
  "sum_list (map percentage (mergedLanguages p)) =
   sum_list (map (\<lambda>e. roundPercent (snd e) (totalFilesCount (files p))) (extensionCounts (files p)))"
  by (simp add: mergedLanguages_def Let_def mergeLanguages_sums sortByFileCount_def sum_sort_key
      percentage_entries extensionCounts_empty)

lemma percentage_le_sum:
  assumes "l \<in> set (detectLanguages p)"
  shows "percentage l \<le> sum_list (map percentage (mergedLanguages p))"
proof -
  from assms have "l \<in> set (mergedLanguages p)"
    by (auto simp: detectLanguages_def dest: in_set_takeD)
  then show ?thesis by (simp add: member_le_sum_list)
qed

text \<open>
  The rounding is that of the doubles: 23 files of 40 are 57 percent, where the exact
  quotient 57.5 would round to 58.
\<close>

lemma roundPercent_double: "roundPercent 23 40 = 57 \<and> roundPercent 5 8 = 63 \<and> roundPercent 1 3 = 33"
  by code_simp

text \<open>
  Claim C1, as amended. For every ProjectInfo with N files that are not directories and
  have a recognized extension, the list \<open>merged\<close> that \<open>detectLanguages\<close> builds has file
  counts that sum to N, and percentages that sum to the sum of the rounded percentages
  \<open>Math.round((count / N) * 100)\<close> of the extensions. \<open>detectLanguages\<close> returns the first
  five entries of that list: the file counts it returns sum to at most N, and to N when
  the list has at most five entries; and a percentage it returns is at most the sum of
  the rounded percentages of the extensions (not at most 100).
\<close>

theorem detectLanguages_fileCount_sum:
  "sum_list (map fileCount (mergedLanguages p)) = totalFilesCount (files p) \<and>
   sum_list (map percentage (mergedLanguages p)) =
     sum_list (map (\<lambda>e. roundPercent (snd e) (totalFilesCount (files p)))
                (extensionCounts (files p))) \<and>
   detectLanguages p = take 5 (mergedLanguages p) \<and>
   sum_list (map fileCount (detectLanguages p)) \<le> totalFilesCount (files p) \<and>
   (length (mergedLanguages p) \<le> 5 \<longrightarrow>
      sum_list (map fileCount (detectLanguages p)) = totalFilesCount (files p)) \<and>
   (\<forall>l \<in> set (detectLanguages p).
      percentage l \<le> sum_list (map (\<lambda>e. roundPercent (snd e) (totalFilesCount (files p)))
                             (extensionCounts (files p))))"
proof -
  have "\<forall>l \<in> set (detectLanguages p).
      percentage l \<le> sum_list (map (\<lambda>e. roundPercent (snd e) (totalFilesCount (files p)))
                             (extensionCounts (files p)))"
    using percentage_le_sum [of _ p] by (simp add: mergedLanguages_percentage)
  then show ?thesis
    using sum_take_le [of fileCount 5 "mergedLanguages p"]
    by (simp add: detectLanguages_def mergedLanguages_fileCount mergedLanguages_percentage)
qed

theorem detectLanguages_fileCount_sum_witness:
  "totalFilesCount (files smallProject) = 3 \<and>
   length (mergedLanguages smallProject) \<le> 5 \<and>
   detectLanguages smallProject =
     [\<lparr>langName = ''TypeScript'', percentage = 66, fileCount = 2\<rparr>,
      \<lparr>langName = ''Python'', percentage = 33, fileCount = 1\<rparr>] \<and>
   sum_list (map fileCount (detectLanguages smallProject)) = totalFilesCount (files smallProject)"
proof -
  have d: "detectLanguages smallProject =
     [\<lparr>langName = ''TypeScript'', percentage = 66, fileCount = 2\<rparr>,
      \<lparr>langName = ''Python'', percentage = 33, fileCount = 1\<rparr>]"
    by code_simp
  have n: "totalFilesCount (files smallProject) = 3"
    by code_simp
  have l: "length (mergedLanguages smallProject) \<le> 5"
    by code_simp
  from detectLanguages_fileCount_sum [of smallProject] d n l show ?thesis by simp
qed

text \<open>
  The claim as stated fails twice. With six files in six languages the five entries
  returned have file counts that sum to 5, not 6. With five \<open>.js\<close> files and one each of
  \<open>.jsx\<close>, \<open>.mjs\<close> and \<open>.cjs\<close> the one entry returned has the percentage
  63 + 13 + 13 + 13 = 102.
\<close>

theorem detectLanguages_counterexample:
  "totalFilesCount (files sixLanguagesProject) = 6 \<and>
   sum_list (map fileCount (detectLanguages sixLanguagesProject)) = 5 \<and>
   totalFilesCount (files javaScriptProject) = 8 \<and>
   detectLanguages javaScriptProject =
     [\<lparr>langName = ''JavaScript'', percentage = 102, fileCount = 8\<rparr>]"
  by code_simp


section \<open>Properties of the badge generator\<close>

text \<open>
  Facts of the badge table, by evaluation: no two entries have the same label, no entry
  has the label of a meta badge, and the entry of React.
\<close>

lemma techLabels_distinct: "distinct (map (\<lambda>e. labelOf (snd e)) TECH_BADGES)"
  by code_simp

lemma techLabels_not_meta:
  "list_all (\<lambda>e. labelOf (snd e) \<notin> set [''License'', ''Version'', ''PRs Welcome'']) TECH_BADGES"
  by code_simp

lemma react_config:
  "map_of TECH_BADGES ''react'' =
     Some (mkConfig ''React'' ''61DAFB'' ''react'' ''black'') \<and>
   labelOf (mkConfig ''React'' ''61DAFB'' ''react'' ''black'') = ''React'' \<and>
   map_of FRAMEWORK_MAP ''React'' = Some ''react''"
  by code_simp

lemma createBadge_Some:
  "createBadge k style = Some b \<Longrightarrow>
   \<exists>c. map_of TECH_BADGES k = Some c \<and> (k, c) \<in> set TECH_BADGES \<and> label b = labelOf c"
  by (auto simp: createBadge_def labelOf_def split: option.splits dest: map_of_SomeD)

lemma same_label_same_key:
  assumes "createBadge k1 style = Some b1" "createBadge k2 style = Some b2" "label b1 = label b2"
  shows "k1 = k2"
proof -
  from createBadge_Some [OF assms(1)] obtain c1 where
    c1: "(k1, c1) \<in> set TECH_BADGES" "label b1 = labelOf c1" by blast
  from createBadge_Some [OF assms(2)] obtain c2 where
    c2: "(k2, c2) \<in> set TECH_BADGES" "label b2 = labelOf c2" by blast
  from techLabels_distinct have "inj_on (\<lambda>e. labelOf (snd e)) (set TECH_BADGES)"
    by (simp add: distinct_map)
  from inj_onD [OF this _ c1(1) c2(1)] c1(2) c2(2) assms(3) show ?thesis by simp
qed

lemma tech_label_not_meta:
  assumes "createBadge k style = Some b"
  shows "label b \<notin> set [''License'', ''Version'', ''PRs Welcome'']"
proof -
  from createBadge_Some [OF assms] obtain c where
    c: "(k, c) \<in> set TECH_BADGES" "label b = labelOf c" by blast
  from techLabels_not_meta c(1) have "labelOf c \<notin> set [''License'', ''Version'', ''PRs Welcome'']"
    unfolding list_all_iff by fastforce
  with c(2) show ?thesis by simp
qed

lemma license_label: "generateLicenseBadge p = Inr (Some b) \<Longrightarrow> label b = ''License''"
  by (auto simp: generateLicenseBadge_def split: option.splits if_splits sum.splits)

lemma version_label: "generateVersionBadge p = Inr (Some b) \<Longrightarrow> label b = ''Version''"
  by (auto simp: generateVersionBadge_def split: option.splits if_splits sum.splits)

lemma meta_labels:
  assumes "metaBadges p = Inr ms" "b \<in> set ms"
  shows "label b \<in> set [''License'', ''Version'', ''PRs Welcome'']"
proof -
  from assms(1) obtain lb vb where m: "generateLicenseBadge p = Inr lb" "generateVersionBadge p = Inr vb"
      "ms = (case lb of Some b \<Rightarrow> [b] | None \<Rightarrow> []) @ (case vb of Some b \<Rightarrow> [b] | None \<Rightarrow> []) @
            [generatePRsWelcomeBadge]"
    by (auto simp: metaBadges_def split: sum.splits)
  from assms(2) m(3) consider "lb = Some b" | "vb = Some b" | "b = generatePRsWelcomeBadge"
    by (auto split: option.splits)
  then show ?thesis
  proof cases
    case 1
    with m(1) license_label [of p b] show ?thesis by simp
  next
    case 2
    with m(2) version_label [of p b] show ?thesis by simp
  next
    case 3
    then show ?thesis by (simp add: generatePRsWelcomeBadge_def)
  qed
qed

lemma generateAllBadges_Inr:
  "generateAllBadges p d style = Inr bs \<longleftrightarrow>
     (\<exists>ms. metaBadges p = Inr ms \<and> bs = fst (techBadgeState p d style) @ ms)"
  by (auto simp: generateAllBadges_def split: sum.splits)

lemma addedInv_addBadge: "addedInv style st \<Longrightarrow> addedInv style (addBadge style k st)"
  by (auto simp: addedInv_def addBadge_def split: option.splits)

lemma addedInv_fold: "addedInv style st \<Longrightarrow> addedInv style (fold (addBadge style) ks st)"
  by (induction ks arbitrary: st) (simp_all add: addedInv_addBadge)

lemma added_mono: "set (snd st) \<subseteq> set (snd (addBadge style k st))"
  by (auto simp: addBadge_def split: option.splits)

lemma added_fold_mono: "set (snd st) \<subseteq> set (snd (fold (addBadge style) ks st))"
proof (induction ks arbitrary: st)
  case Nil
  show ?case by simp
next
  case (Cons k ks)
  from added_mono [of st style k] Cons.IH [of "addBadge style k st"] show ?case by auto
qed

lemma added_member:
  "k \<in> set ks \<Longrightarrow> createBadge k style \<noteq> None \<Longrightarrow> k \<in> set (snd (fold (addBadge style) ks st))"
proof (induction ks arbitrary: st)
  case Nil
  then show ?case by simp
next
  case (Cons a ks)
  show ?case
  proof (cases "k = a")
    case True
    with Cons.prems(2) have "k \<in> set (snd (addBadge style a st))"
      by (auto simp: addBadge_def split: option.splits)
    with added_fold_mono [of "addBadge style a st" style ks] show ?thesis by auto
  next
    case False
    with Cons show ?thesis by simp
  qed
qed

lemma techBadgeState_inv: "addedInv style (techBadgeState p d style)"
  unfolding techBadgeState_def by (rule addedInv_fold) (simp add: addedInv_def)

lemma filter_eq_distinct: "distinct xs \<Longrightarrow> length (filter (\<lambda>x. x = a) xs) \<le> 1"
  by (induction xs) (auto simp: filter_empty_conv)

lemma filter_eq_member: "distinct xs \<Longrightarrow> a \<in> set xs \<Longrightarrow> length (filter (\<lambda>x. x = a) xs) = 1"
  by (induction xs) (auto simp: filter_empty_conv)

lemma tech_filter_key:
  assumes "addedInv style st"
  shows "filter (\<lambda>b. createBadge k style = Some b) (fst st) =
         map (\<lambda>k. the (createBadge k style)) (filter (\<lambda>a. a = k) (snd st))"
proof -
  have "\<And>a. a \<in> set (snd st) \<Longrightarrow>
          (createBadge k style = Some (the (createBadge a style))) = (a = k)"
  proof -
    fix a assume "a \<in> set (snd st)"
    with assms obtain b where b: "createBadge a style = Some b"
      by (auto simp: addedInv_def list_all_iff)
    show "(createBadge k style = Some (the (createBadge a style))) = (a = k)"
      using b same_label_same_key [of a style b k b] by auto
  qed
  then have "filter ((\<lambda>b. createBadge k style = Some b) \<circ> (\<lambda>k. the (createBadge k style))) (snd st) =
             filter (\<lambda>a. a = k) (snd st)"
    by (intro filter_cong) simp_all
  with assms show ?thesis by (simp add: addedInv_def filter_map)
qed

lemma tech_filter_label:
  assumes "addedInv style st" "createBadge k style = Some b"
  shows "filter (\<lambda>x. label x = label b) (fst st) =
         map (\<lambda>k. the (createBadge k style)) (filter (\<lambda>a. a = k) (snd st))"
proof -
  have "\<And>a. a \<in> set (snd st) \<Longrightarrow> (label (the (createBadge a style)) = label b) = (a = k)"
  proof -
    fix a assume "a \<in> set (snd st)"
    with assms(1) obtain c where c: "createBadge a style = Some c"
      by (auto simp: addedInv_def list_all_iff)
    show "(label (the (createBadge a style)) = label b) = (a = k)"
      using c assms(2) same_label_same_key [of a style c k b] by auto
  qed
  then have "filter ((\<lambda>x. label x = label b) \<circ> (\<lambda>k. the (createBadge k style))) (snd st) =
             filter (\<lambda>a. a = k) (snd st)"
    by (intro filter_cong) simp_all
  with assms(1) show ?thesis by (simp add: addedInv_def filter_map)
qed

lemma meta_filter_key:
  "metaBadges p = Inr ms \<Longrightarrow> filter (\<lambda>b. createBadge k style = Some b) ms = []"
  using meta_labels tech_label_not_meta by (fastforce simp: filter_empty_conv)

lemma key_contributes_once:
  assumes "generateAllBadges p d style = Inr bs"
  shows "length (filter (\<lambda>b. createBadge k style = Some b) bs) \<le> 1"
proof -
  from assms obtain ms where ms: "metaBadges p = Inr ms" "bs = fst (techBadgeState p d style) @ ms"
    by (auto simp: generateAllBadges_Inr)
  from techBadgeState_inv [of style p d]
  have d: "distinct (snd (techBadgeState p d style))" by (simp add: addedInv_def)
  show ?thesis
    unfolding ms(2)
    using filter_eq_distinct [OF d, of k]
    by (simp add: tech_filter_key [OF techBadgeState_inv] meta_filter_key [OF ms(1)])
qed

lemma react_label: "\<exists>b. createBadge ''react'' style = Some b \<and> label b = ''React''"
  using react_config by (simp add: createBadge_def labelOf_def)

lemma react_once:
  assumes "list_ex (\<lambda>fw. fwName fw = ''React'') (frameworks d)"
    and "generateAllBadges p d style = Inr bs"
  shows "length (filter (\<lambda>b. label b = ''React'') bs) = 1"
proof -
  from assms(2) obtain ms where ms: "metaBadges p = Inr ms" "bs = fst (techBadgeState p d style) @ ms"
    by (auto simp: generateAllBadges_Inr)
  from react_label obtain b where b: "createBadge ''react'' style = Some b" "label b = ''React''"
    by blast
  from assms(1) obtain fw where fw: "fw \<in> set (frameworks d)" "fwName fw = ''React''"
    by (auto simp: list_ex_iff)
  from fw(2) react_config have "map_of FRAMEWORK_MAP (fwName fw) = Some ''react''" by simp
  with fw(1) have "''react'' \<in> set (frameworkKeys d)"
    unfolding frameworkKeys_def List.map_filter_def by (auto simp: image_iff intro!: bexI [of _ fw])
  then have "''react'' \<in> set (candidateKeys p d)" by (simp add: candidateKeys_def)
  with b(1) have m: "''react'' \<in> set (snd (techBadgeState p d style))"
    unfolding techBadgeState_def by (intro added_member) simp_all
  from techBadgeState_inv [of style p d]
  have d: "distinct (snd (techBadgeState p d style))" by (simp add: addedInv_def)
  have meta: "filter (\<lambda>x. label x = ''React'') ms = []"
    using meta_labels [OF ms(1)] by (fastforce simp: filter_empty_conv)
  from tech_filter_label [OF techBadgeState_inv b(1), of p d] b(2)
  have "filter (\<lambda>x. label x = ''React'') (fst (techBadgeState p d style)) =
        map (\<lambda>k. the (createBadge k style)) (filter (\<lambda>a. a = ''react'') (snd (techBadgeState p d style)))"
    by simp
  with filter_eq_member [OF d m] meta show ?thesis
    by (simp add: ms(2))
qed

text \<open>When the meta fields of the manifest print, the badges are returned.\<close>

lemma generateAllBadges_returns:
  assumes "printableMeta (packageJson p)"
  shows "\<exists>bs. generateAllBadges p d style = Inr bs"
  using metaBadges_returns [OF assms] by (auto simp: generateAllBadges_def)

text \<open>
  Claim C7, as amended. Whenever \<open>generateAllBadges\<close> returns a list: for every project
  in which React is detected both as a dependency of the manifest and as a framework
  match the list has exactly one React badge; and in every project each badge key gives
  at most one badge of the list, however many detection signals map to it. It returns
  a list whenever the license of the manifest is falsy or prints to a text without a
  lone surrogate and the version is falsy or prints.
\<close>

theorem badges_deduplicated:
  "(\<forall>bs. generateAllBadges p d style = Inr bs \<longrightarrow>
      (list_ex (\<lambda>fw. fwName fw = ''React'') (frameworks d) \<and>
       ''react'' \<in> set (depNames (packageJson p)) \<longrightarrow>
         length (filter (\<lambda>b. label b = ''React'') bs) = 1) \<and>
      (\<forall>key. length (filter (\<lambda>b. createBadge key style = Some b) bs) \<le> 1)) \<and>
   (printableMeta (packageJson p) \<longrightarrow> (\<exists>bs. generateAllBadges p d style = Inr bs))"
  using react_once [of d p style] key_contributes_once [of p d style]
    generateAllBadges_returns [of p d style]
  by blast

theorem badges_deduplicated_witness:
  "list_ex (\<lambda>fw. fwName fw = ''React'') (frameworks reactDetection) \<and>
   ''react'' \<in> set (depNames (packageJson reactProject)) \<and>
   printableMeta (packageJson reactProject) \<and>
   (\<exists>bs. generateAllBadges reactProject reactDetection ''flat-square'' = Inr bs \<and>
      map label bs = [''JavaScript'', ''React'', ''Vite'', ''PRs Welcome''] \<and>
      length (filter (\<lambda>b. label b = ''React'') bs) = 1)"
proof -
  have a: "list_ex (\<lambda>fw. fwName fw = ''React'') (frameworks reactDetection)" by code_simp
  have b: "''react'' \<in> set (depNames (packageJson reactProject))" by code_simp
  have m: "printableMeta (packageJson reactProject)" by code_simp
  have c: "map_sum id (map label) (generateAllBadges reactProject reactDetection ''flat-square'') =
     Inr [''JavaScript'', ''React'', ''Vite'', ''PRs Welcome'']" by code_simp
  note t = badges_deduplicated [of reactProject reactDetection "''flat-square''"]
  from t have "printableMeta (packageJson reactProject) \<longrightarrow>
      (\<exists>bs. generateAllBadges reactProject reactDetection ''flat-square'' = Inr bs)"
    by (rule conjunct2)
  from mp [OF this m]
  obtain bs where bs: "generateAllBadges reactProject reactDetection ''flat-square'' = Inr bs" ..
  from c have l: "map label bs = [''JavaScript'', ''React'', ''Vite'', ''PRs Welcome'']"
    unfolding bs by simp
  from t have "\<forall>bs. generateAllBadges reactProject reactDetection ''flat-square'' = Inr bs \<longrightarrow>
      (list_ex (\<lambda>fw. fwName fw = ''React'') (frameworks reactDetection) \<and>
       ''react'' \<in> set (depNames (packageJson reactProject)) \<longrightarrow>
         length (filter (\<lambda>b. label b = ''React'') bs) = 1) \<and>
      (\<forall>key. length (filter (\<lambda>b. createBadge key ''flat-square'' = Some b) bs) \<le> 1)"
    by (rule conjunct1)
  from conjunct1 [OF mp [OF spec [OF this] bs]]
  have "length (filter (\<lambda>b. label b = ''React'') bs) = 1"
    by (rule mp) (rule conjI [OF a b])
  with bs l have "\<exists>bs. generateAllBadges reactProject reactDetection ''flat-square'' = Inr bs \<and>
      map label bs = [''JavaScript'', ''React'', ''Vite'', ''PRs Welcome''] \<and>
      length (filter (\<lambda>b. label b = ''React'') bs) = 1"
    by (intro exI [of _ bs] conjI)
  with a b m show ?thesis by (intro conjI)
qed

text \<open>
  The claim as stated fails: React is a dependency and a detected framework, but the
  license of the manifest is a lone surrogate; \<open>encodeURIComponent\<close> throws a URIError
  and no list of badges is returned.
\<close>

theorem surrogate_license_counterexample:
  "list_ex (\<lambda>fw. fwName fw = ''React'') (frameworks reactDetection) \<and>
   ''react'' \<in> set (depNames (packageJson surrogateLicenseProject)) \<and>
   generateAllBadges surrogateLicenseProject reactDetection ''flat-square'' = Inl URIError"
  by code_simp
section \<open>The version store: retention\<close>

subsection \<open>The versions a file system lists\<close>

lemma getVersions_unfold:
  "getVersions fs ws =
     (if failing fs Readdir (getHistoryDir ws) [] \<or> getHistoryDir ws \<notin> set (fsDirs fs) then []
      else sortNewestFirst (listedVersions fs (getHistoryDir ws)))"
  by (simp add: getVersions_def readdir_def listedVersions_def dirNames_def)

lemma versionOfFile_filePath: "versionOfFile fs dir n = Some v \<Longrightarrow> filePath v = (dir, n)"
  by (auto simp: versionOfFile_def split: if_splits option.splits sum.splits)

lemma filePath_map_filter:
  "map filePath (List.map_filter (versionOfFile fs dir) ns) =
   map (Pair dir) (filter (\<lambda>n. versionOfFile fs dir n \<noteq> None) ns)"
proof (induction ns)
  case Nil
  show ?case by (simp add: List.map_filter_simps)
next
  case (Cons n ns)
  show ?case
  proof (cases "versionOfFile fs dir n")
    case None
    with Cons show ?thesis by (simp add: List.map_filter_simps)
  next
    case (Some v)
    with Cons versionOfFile_filePath [OF Some] show ?thesis by (simp add: List.map_filter_simps)
  qed
qed

lemma distinct_dirNames:
  assumes "distinct (map fst (fsFiles fs))"
  shows "distinct (dirNames fs dir)"
proof -
  have "distinct (map fst es) \<Longrightarrow>
        distinct (map (\<lambda>e. snd (fst e)) (filter (\<lambda>e. fst (fst e) = dir) es))" for es
  proof (induction es)
    case Nil
    show ?case by simp
  next
    case (Cons e es)
    then have "fst e \<notin> fst ` set es" by simp
    then have "fst (fst e) = dir \<Longrightarrow>
               snd (fst e) \<notin> (\<lambda>e. snd (fst e)) ` {x \<in> set es. fst (fst x) = dir}"
      by (auto simp: image_iff)
    with Cons show ?case by simp
  qed
  with assms show ?thesis by (simp add: dirNames_def)
qed

lemma listed_distinct:
  assumes "wfFs fs"
  shows "distinct (map filePath (listedVersions fs dir))"
proof -
  from assms have "distinct (dirNames fs dir)" by (simp add: wfFs_def distinct_dirNames)
  then show ?thesis
    by (simp add: listedVersions_def filePath_map_filter distinct_map inj_on_def)
qed

lemma listed_dir: "v \<in> set (listedVersions fs dir) \<Longrightarrow> fst (filePath v) = dir"
proof -
  assume "v \<in> set (listedVersions fs dir)"
  then have "filePath v \<in> set (map filePath (listedVersions fs dir))" by simp
  then show ?thesis unfolding listedVersions_def filePath_map_filter by auto
qed

lemma set_sortNewestFirst [simp]: "set (sortNewestFirst vs) = set vs"
  by (simp add: sortNewestFirst_def)

lemma getVersions_dir: "v \<in> set (getVersions fs ws) \<Longrightarrow> fst (filePath v) = getHistoryDir ws"
  by (auto simp: getVersions_unfold dest: listed_dir split: if_splits)

lemma getVersions_distinct:
  assumes "wfFs fs"
  shows "distinct (map filePath (getVersions fs ws))"
  using listed_distinct [OF assms, of "getHistoryDir ws"]
  by (simp add: getVersions_unfold sortNewestFirst_def distinct_map)

lemma getVersions_sorted:
  "sorted (map (\<lambda>v. - int (timestamp v)) (getVersions fs ws))"
  by (simp add: getVersions_unfold sortNewestFirst_def)

subsection \<open>Removing files\<close>

lemma removeFiles_fields [simp]:
  "failing (removeFiles ks fs) = failing fs"
  "fsDirs (removeFiles ks fs) = fsDirs fs"
  "fsFiles (removeFiles ks fs) = filter (\<lambda>e. fst e \<notin> set ks) (fsFiles fs)"
  by (simp_all add: removeFiles_def)

lemma map_of_filter_keys:
  "k \<notin> set ks \<Longrightarrow> map_of (filter (\<lambda>e. fst e \<notin> set ks) es) k = map_of es k"
  by (induction es) auto

lemma readFile_removeFiles:
  "(dir, n) \<notin> set ks \<Longrightarrow> readFile (removeFiles ks fs) dir n = readFile fs dir n"
  by (simp add: readFile_def map_of_filter_keys)

lemma versionOfFile_removeFiles:
  assumes "(dir, n) \<notin> set ks"
  shows "versionOfFile (removeFiles ks fs) dir n = versionOfFile fs dir n"
  unfolding versionOfFile_def readFile_removeFiles [OF assms] by (rule refl)

lemma dirNames_removeFiles:
  "dirNames (removeFiles ks fs) dir = filter (\<lambda>n. (dir, n) \<notin> set ks) (dirNames fs dir)"
proof -
  have "map (\<lambda>e. snd (fst e)) (filter (\<lambda>e. fst (fst e) = dir) (filter (\<lambda>e. fst e \<notin> set ks) es)) =
        filter (\<lambda>n. (dir, n) \<notin> set ks) (map (\<lambda>e. snd (fst e)) (filter (\<lambda>e. fst (fst e) = dir) es))"
    for es :: "((string \<times> string) \<times> string) list"
    by (induction es) auto
  then show ?thesis by (simp add: dirNames_def)
qed

lemma map_filter_removeFiles:
  "List.map_filter (versionOfFile (removeFiles ks fs) dir) (filter (\<lambda>n. (dir, n) \<notin> set ks) ns) =
   filter (\<lambda>v. filePath v \<notin> set ks) (List.map_filter (versionOfFile fs dir) ns)"
proof (induction ns)
  case Nil
  show ?case by (simp add: List.map_filter_simps)
next
  case (Cons n ns)
  show ?case
  proof (cases "versionOfFile fs dir n")
    case None
    with Cons show ?thesis
      by (simp add: List.map_filter_simps versionOfFile_removeFiles)
  next
    case (Some v)
    with Cons versionOfFile_filePath [OF Some] show ?thesis
      by (simp add: List.map_filter_simps versionOfFile_removeFiles)
  qed
qed

lemma listed_removeFiles:
  "listedVersions (removeFiles ks fs) dir = filter (\<lambda>v. filePath v \<notin> set ks) (listedVersions fs dir)"
  by (simp add: listedVersions_def dirNames_removeFiles map_filter_removeFiles)

lemma getVersions_removeFiles:
  "getVersions (removeFiles ks fs) ws = filter (\<lambda>v. filePath v \<notin> set ks) (getVersions fs ws)"
  by (simp add: getVersions_unfold listed_removeFiles sortNewestFirst_def filter_sort)

lemma removeFiles_absent:
  assumes "map_of (fsFiles fs) k = None"
  shows "removeFiles [k] fs = fs"
proof -
  from assms have "k \<notin> fst ` set (fsFiles fs)" by (simp add: map_of_eq_None_iff)
  then have "filter (\<lambda>e. fst e \<notin> set [k]) (fsFiles fs) = fsFiles fs"
    by (auto simp: filter_id_conv)
  then show ?thesis by (simp add: removeFiles_def)
qed

lemma unlinkIgnoringErrors_removeFiles:
  assumes "\<not> failing fs Unlink (fst (filePath v)) (snd (filePath v))"
  shows "unlinkIgnoringErrors v fs = removeFiles [filePath v] fs"
proof (cases "map_of (fsFiles fs) (filePath v)")
  case None
  then show ?thesis
    by (simp add: unlinkIgnoringErrors_def unlink_def removeFiles_absent)
next
  case (Some c)
  with assms show ?thesis
    by (simp add: unlinkIgnoringErrors_def unlink_def removeFiles_def)
qed

lemma removeFiles_removeFiles: "removeFiles ks (removeFiles [k] fs) = removeFiles (k # ks) fs"
  by (simp add: removeFiles_def conj_commute)

lemma fold_unlink_removeFiles:
  "\<forall>v \<in> set vs. \<not> failing fs Unlink (fst (filePath v)) (snd (filePath v)) \<Longrightarrow>
   fold unlinkIgnoringErrors vs fs = removeFiles (map filePath vs) fs"
proof (induction vs arbitrary: fs)
  case Nil
  show ?case by (simp add: removeFiles_def)
next
  case (Cons v vs)
  then have v: "unlinkIgnoringErrors v fs = removeFiles [filePath v] fs"
    by (simp add: unlinkIgnoringErrors_removeFiles)
  from Cons.prems have "\<forall>w \<in> set vs. \<not> failing (removeFiles [filePath v] fs) Unlink
                           (fst (filePath w)) (snd (filePath w))"
    by simp
  from Cons.IH [OF this] v show ?case by (simp add: removeFiles_removeFiles)
qed

lemma filter_drop_take:
  assumes "distinct (map f xs)"
  shows "filter (\<lambda>x. f x \<notin> set (map f (drop n xs))) xs = take n xs"
proof -
  have xs: "xs = take n xs @ drop n xs" by simp
  from assms have "distinct (map f (take n xs) @ map f (drop n xs))"
    by (metis append_take_drop_id map_append)
  then have disj: "f ` set (take n xs) \<inter> f ` set (drop n xs) = {}" by simp
  have "filter (\<lambda>x. f x \<notin> set (map f (drop n xs))) (take n xs) = take n xs"
    using disj by (auto simp: filter_id_conv)
  moreover have "filter (\<lambda>x. f x \<notin> set (map f (drop n xs))) (drop n xs) = []"
    by (auto simp: filter_empty_conv)
  ultimately have "filter (\<lambda>x. f x \<notin> set (map f (drop n xs))) (take n xs @ drop n xs) = take n xs"
    by (simp only: filter_append) simp
  then show ?thesis by simp
qed

lemma cleanup_versions:
  assumes "wfFs fs" "noUnlinkFault fs (getHistoryDir ws)"
  shows "getVersions (cleanupOldVersions fs ws) ws = take MAX_VERSIONS (getVersions fs ws)"
proof (cases "length (getVersions fs ws) \<le> MAX_VERSIONS")
  case True
  then show ?thesis by (simp add: cleanupOldVersions_def)
next
  case False
  have "\<forall>v \<in> set (drop MAX_VERSIONS (getVersions fs ws)).
          \<not> failing fs Unlink (fst (filePath v)) (snd (filePath v))"
  proof
    fix v assume "v \<in> set (drop MAX_VERSIONS (getVersions fs ws))"
    then have "v \<in> set (getVersions fs ws)" by (rule in_set_dropD)
    from getVersions_dir [OF this] assms(2)
    show "\<not> failing fs Unlink (fst (filePath v)) (snd (filePath v))"
      by (simp add: noUnlinkFault_def)
  qed
  from fold_unlink_removeFiles [OF this] False
  have "cleanupOldVersions fs ws =
          removeFiles (map filePath (drop MAX_VERSIONS (getVersions fs ws))) fs"
    by (simp add: cleanupOldVersions_def)
  then show ?thesis
    by (simp only: getVersions_removeFiles filter_drop_take [OF getVersions_distinct [OF assms(1)]])
qed


subsection \<open>Writing files\<close>

lemma putFile_map_of:
  "map_of (putFile es k c) k' = (if k' = k then Some c else map_of es k')"
  by (induction es) auto

lemma putFile_keys:
  "map fst (putFile es k c) = (if k \<in> fst ` set es then map fst es else map fst es @ [k])"
  by (induction es) auto

lemma putFile_set: "set (putFile es k c) \<subseteq> insert (k, c) (set es)"
  by (induction es) auto

lemma writeFile_fields:
  assumes "writeFile fs d n c = Inr fs'"
  shows "failing fs' = failing fs" "fsDirs fs' = fsDirs fs"
    "fsFiles fs' = putFile (fsFiles fs) (d, n) c" "d \<in> set (fsDirs fs)"
    "\<not> failing fs WriteFile d n"
  using assms by (auto simp: writeFile_def split: if_splits)

lemma wfFs_putFile:
  assumes "wfFs fs" "d \<in> set (fsDirs fs)"
  shows "wfFs (fs\<lparr>fsFiles := putFile (fsFiles fs) (d, n) c\<rparr>)"
proof -
  from assms(1) have "distinct (map fst (putFile (fsFiles fs) (d, n) c))"
    by (simp add: wfFs_def putFile_keys)
  moreover have "\<forall>e \<in> set (putFile (fsFiles fs) (d, n) c). fst (fst e) \<in> set (fsDirs fs)"
    using assms putFile_set [of "fsFiles fs" "(d, n)" c]
    by (auto simp: wfFs_def list_all_iff)
  ultimately show ?thesis by (simp add: wfFs_def list_all_iff)
qed

lemma wfFs_writeFile:
  assumes "wfFs fs" "writeFile fs d n c = Inr fs'"
  shows "wfFs fs'"
proof -
  from assms(2) have "fs' = fs\<lparr>fsFiles := putFile (fsFiles fs) (d, n) c\<rparr>" "d \<in> set (fsDirs fs)"
    by (auto simp: writeFile_def split: if_splits)
  with assms(1) show ?thesis by (simp add: wfFs_putFile)
qed

lemma wfFs_more_dirs:
  assumes "wfFs fs"
  shows "wfFs (fs\<lparr>fsDirs := fsDirs fs @ ds\<rparr>)"
  using assms by (auto simp: wfFs_def list_all_iff)

lemma mkdirRecursive_fields:
  assumes "mkdirRecursive fs ds = Inr fs'"
  shows "failing fs' = failing fs" "fsFiles fs' = fsFiles fs"
    "set (fsDirs fs') = set (fsDirs fs) \<union> set ds" "wfFs fs \<Longrightarrow> wfFs fs'"
  using assms by (auto simp: mkdirRecursive_def wfFs_more_dirs split: if_splits)

lemma writeFileExclusive_fields:
  assumes "writeFileExclusive fs d n c = Inr fs'"
  shows "failing fs' = failing fs" "fsDirs fs' = fsDirs fs"
    "fsFiles fs' = putFile (fsFiles fs) (d, n) c" "wfFs fs \<Longrightarrow> wfFs fs'"
  using assms writeFile_fields [of fs d n c fs'] wfFs_writeFile [of fs d n c fs']
  by (auto simp: writeFileExclusive_def split: if_splits)

lemma afterMkdir_fields:
  "failing (afterMkdir fs ws) = failing fs" "fsFiles (afterMkdir fs ws) = fsFiles fs"
  "set (fsDirs fs) \<subseteq> set (fsDirs (afterMkdir fs ws))"
  "wfFs fs \<Longrightarrow> wfFs (afterMkdir fs ws)"
  "\<not> failing fs Mkdir (getHistoryDir ws) [] \<Longrightarrow>
     ws \<in> set (fsDirs (afterMkdir fs ws)) \<and> getHistoryDir ws \<in> set (fsDirs (afterMkdir fs ws))"
  by (auto simp: afterMkdir_def mkdirRecursive_def wfFs_more_dirs split: sum.splits if_splits)

lemma ensureHistoryDir_unfold:
  "ensureHistoryDir fs ws =
     (case writeFileExclusive (afterMkdir fs ws) (historyFolder ws) ''.gitignore'' (''*'' @ [CHR 0x0A]) of
        Inl e \<Rightarrow> afterMkdir fs ws | Inr fs' \<Rightarrow> fs')"
  unfolding ensureHistoryDir_def afterMkdir_def Let_def by (rule refl)

lemma ensureHistoryDir_failing [simp]: "failing (ensureHistoryDir fs ws) = failing fs"
  by (auto simp: ensureHistoryDir_unfold afterMkdir_fields dest: writeFileExclusive_fields(1)
      split: sum.splits)

lemma ensureHistoryDir_wfFs: "wfFs fs \<Longrightarrow> wfFs (ensureHistoryDir fs ws)"
  by (auto simp: ensureHistoryDir_unfold afterMkdir_fields dest: writeFileExclusive_fields(4)
      split: sum.splits)

lemma writtenVersion_wfFs:
  assumes "wfFs fs" "writtenVersion md5hex now fs ws content = Inr fs2"
  shows "wfFs fs2"
  using assms wfFs_writeFile [OF ensureHistoryDir_wfFs [OF assms(1)]]
  by (simp add: writtenVersion_def)

lemma writtenVersion_failing:
  assumes "writtenVersion md5hex now fs ws content = Inr fs2"
  shows "failing fs2 = failing fs"
  using assms writeFile_fields(1) [of "ensureHistoryDir fs ws" _ _ _ fs2]
  by (simp add: writtenVersion_def)

lemma sorted_take_drop:
  assumes "sorted (map f xs)" "v \<in> set (take n xs)" "w \<in> set (drop n xs)"
  shows "f v \<le> (f w :: int)"
proof -
  have "sorted (map f (take n xs) @ map f (drop n xs))"
    using assms(1) by (metis append_take_drop_id map_append)
  with assms(2,3) show ?thesis by (auto simp: sorted_append)
qed

text \<open>
  Claim C2, as the code has it. When the write of the new version succeeds and no
  deletion in the history directory fails, the versions listed after \<open>saveVersion\<close> are
  the first \<open>MAX_VERSIONS\<close> of the versions listed after the write, newest first: at most
  20 remain, exactly 20 when the write made 21, and every version dropped is at most as
  recent as every version kept.
\<close>

theorem saveVersion_retention:
  assumes "wfFs fs" and "noUnlinkFault fs (getHistoryDir ws)"
    and "writtenVersion md5hex now fs ws content = Inr fs2"
  shows "getVersions (fst (saveVersion md5hex now fs ws content)) ws =
           take MAX_VERSIONS (getVersions fs2 ws) \<and>
         length (getVersions (fst (saveVersion md5hex now fs ws content)) ws) \<le> 20 \<and>
         (length (getVersions fs2 ws) = 21 \<longrightarrow>
            length (getVersions (fst (saveVersion md5hex now fs ws content)) ws) = 20) \<and>
         (\<forall>v \<in> set (getVersions (fst (saveVersion md5hex now fs ws content)) ws).
            \<forall>w \<in> set (drop MAX_VERSIONS (getVersions fs2 ws)). timestamp w \<le> timestamp v)"
proof -
  have wf: "wfFs fs2" using assms(1,3) by (rule writtenVersion_wfFs)
  have "noUnlinkFault fs2 (getHistoryDir ws)"
    using assms(2) writtenVersion_failing [OF assms(3)] by (simp add: noUnlinkFault_def)
  with wf have "getVersions (cleanupOldVersions fs2 ws) ws = take MAX_VERSIONS (getVersions fs2 ws)"
    by (rule cleanup_versions)
  with assms(3) have eq: "getVersions (fst (saveVersion md5hex now fs ws content)) ws =
                            take MAX_VERSIONS (getVersions fs2 ws)"
    by (simp add: saveVersion_def)
  have "timestamp w \<le> timestamp v"
    if "v \<in> set (take MAX_VERSIONS (getVersions fs2 ws))"
      and "w \<in> set (drop MAX_VERSIONS (getVersions fs2 ws))" for v w
    using sorted_take_drop [OF getVersions_sorted that] by simp
  with eq show ?thesis by (simp add: MAX_VERSIONS_def)
qed

lemma wfFs_fullStore: "wfFs fullStore"
  by code_simp

lemma written_fullStore:
  "\<not> isl (writtenVersion demoMd5 31 fullStore ''/work/demo'' ''hello world!'')"
  by code_simp

text \<open>The twenty-first version of a store of twenty: the oldest one goes.\<close>

theorem saveVersion_retention_witness:
  "length (getVersions (projr (writtenVersion demoMd5 31 fullStore ''/work/demo'' ''hello world!''))
      ''/work/demo'') = 21 \<and>
   length (getVersions (fst (saveVersion demoMd5 31 fullStore ''/work/demo'' ''hello world!''))
      ''/work/demo'') = 20 \<and>
   map timestamp (getVersions (fst (saveVersion demoMd5 31 fullStore ''/work/demo'' ''hello world!''))
      ''/work/demo'') = [31, 30, 29, 28, 27, 26, 25, 24, 23, 22, 21, 20, 19, 18, 17, 16, 15, 14, 13, 12]"
proof -
  have n: "length (getVersions (projr (writtenVersion demoMd5 31 fullStore ''/work/demo'' ''hello world!''))
      ''/work/demo'') = 21"
    by code_simp
  have t: "map timestamp (take MAX_VERSIONS
      (getVersions (projr (writtenVersion demoMd5 31 fullStore ''/work/demo'' ''hello world!''))
        ''/work/demo'')) = [31, 30, 29, 28, 27, 26, 25, 24, 23, 22, 21, 20, 19, 18, 17, 16, 15, 14, 13, 12]"
    by code_simp
  have u: "noUnlinkFault fullStore (getHistoryDir ''/work/demo'')"
    by (simp add: noUnlinkFault_def fullStore_def noFailure_def)
  have w: "writtenVersion demoMd5 31 fullStore ''/work/demo'' ''hello world!'' =
             Inr (projr (writtenVersion demoMd5 31 fullStore ''/work/demo'' ''hello world!''))"
    using written_fullStore by (cases "writtenVersion demoMd5 31 fullStore ''/work/demo'' ''hello world!''") simp_all
  from saveVersion_retention [OF wfFs_fullStore u w]
  have eq: "getVersions (fst (saveVersion demoMd5 31 fullStore ''/work/demo'' ''hello world!''))
      ''/work/demo'' = take MAX_VERSIONS
      (getVersions (projr (writtenVersion demoMd5 31 fullStore ''/work/demo'' ''hello world!''))
        ''/work/demo'')"
    by (rule conjunct1)
  have l: "length (take MAX_VERSIONS
      (getVersions (projr (writtenVersion demoMd5 31 fullStore ''/work/demo'' ''hello world!''))
        ''/work/demo'')) = 20"
    by (simp add: n MAX_VERSIONS_def)
  show ?thesis by (simp only: eq n t l simp_thms)
qed

text \<open>
  Where deletions fail, the error is ignored and the twenty-first version stays.
\<close>

theorem failed_deletion_counterexample:
  "length (getVersions (fst (saveVersion demoMd5 31 lockedStore ''/work/demo'' ''hello world!''))
      ''/work/demo'') = 21"
  by code_simp
section \<open>The version store: rollback round trip\<close>

subsection \<open>File names of versions\<close>

lemma digits_table:
  "\<forall>d \<in> set [0..<10]. digitValue (digitChar d) = d \<and> isDigit (digitChar d)"
  by code_simp

lemma digitChar_facts:
  assumes "d < 10"
  shows "digitValue (digitChar d) = d" "isDigit (digitChar d)"
  using digits_table assms by auto

lemma showNat_digits: "list_all isDigit (showNat n) \<and> showNat n \<noteq> []"
proof (induction n rule: showNat.induct)
  case (1 n)
  show ?case
  proof (cases "n < 10")
    case True
    then show ?thesis by (subst (1 2) showNat.simps) (simp add: digitChar_facts)
  next
    case False
    with 1 show ?thesis by (subst (1 2) showNat.simps) (simp add: digitChar_facts)
  qed
qed

lemma parseInt_snoc: "parseInt (ds @ [c]) = 10 * parseInt ds + digitValue c"
  by (simp add: parseInt_def)

lemma parseInt_showNat: "parseInt (showNat n) = n"
proof (induction n rule: showNat.induct)
  case (1 n)
  show ?case
  proof (cases "n < 10")
    case True
    then show ?thesis by (subst showNat.simps) (simp add: parseInt_def digitChar_facts)
  next
    case False
    with 1 show ?thesis by (subst showNat.simps) (simp add: parseInt_snoc digitChar_facts)
  qed
qed

lemma separators: "\<not> isDigit CHR ''-''" "\<not> isHexChar CHR ''.''"
  by (simp_all add: isDigit_def isHexChar_def)

lemma parseFileName_version:
  assumes "isHexString h"
  shows "parseFileName (showNat n @ ''-'' @ h @ ''.md'') = Some (showNat n, h)"
proof -
  have d: "\<And>x. x \<in> set (showNat n) \<Longrightarrow> isDigit x" and ne: "showNat n \<noteq> []"
    using showNat_digits [of n] by (auto simp: list_all_iff)
  have x: "\<And>x. x \<in> set h \<Longrightarrow> isHexChar x" and hne: "h \<noteq> []"
    using assms by (auto simp: isHexString_def list_all_iff)
  have t1: "takeWhile isDigit (showNat n @ CHR ''-'' # h @ ''.md'') = showNat n"
    using d by (simp add: takeWhile_append2 separators)
  have d1: "dropWhile isDigit (showNat n @ CHR ''-'' # h @ ''.md'') = CHR ''-'' # h @ ''.md''"
    using d by (simp add: dropWhile_append2 separators)
  have t2: "takeWhile isHexChar (h @ ''.md'') = h"
    using x by (simp add: takeWhile_append2 separators)
  have d2: "dropWhile isHexChar (h @ ''.md'') = ''.md''"
    using x by (simp add: dropWhile_append2 separators)
  show ?thesis
    by (simp add: parseFileName_def Let_def t1 d1 t2 d2 ne hne)
qed

lemma endsWith_md: "endsWith (a @ ''.md'') ''.md''"
  by (simp add: endsWith_def)

subsection \<open>The version just written\<close>

lemma set_map_filter_iff: "y \<in> set (List.map_filter f xs) \<longleftrightarrow> (\<exists>x \<in> set xs. f x = Some y)"
  by (induction xs) (auto simp: List.map_filter_simps split: option.splits)

lemma dirNames_mem: "n \<in> set (dirNames fs dir) \<longleftrightarrow> map_of (fsFiles fs) (dir, n) \<noteq> None"
proof -
  have "n \<in> set (dirNames fs dir) \<longleftrightarrow> (dir, n) \<in> fst ` set (fsFiles fs)"
    by (force simp: dirNames_def image_iff)
  then show ?thesis by (simp add: map_of_eq_None_iff)
qed

lemma versionOfFile_cong:
  assumes "failing fs' = failing fs"
    and "map_of (fsFiles fs') (dir, n) = map_of (fsFiles fs) (dir, n)"
  shows "versionOfFile fs' dir n = versionOfFile fs dir n"
proof -
  from assms have r: "readFile fs' dir n = readFile fs dir n" by (simp add: readFile_def)
  show ?thesis unfolding versionOfFile_def r by (rule refl)
qed

lemma historyFolder_not_history: "historyFolder ws \<noteq> getHistoryDir ws"
  by (simp add: historyFolder_def getHistoryDir_def)

lemma ensureHistoryDir_map_of:
  "map_of (fsFiles (ensureHistoryDir fs ws)) (getHistoryDir ws, n) =
   map_of (fsFiles fs) (getHistoryDir ws, n)"
proof (cases "writeFileExclusive (afterMkdir fs ws) (historyFolder ws) ''.gitignore'' (''*'' @ [CHR 0x0A])")
  case (Inl e)
  then show ?thesis by (simp add: ensureHistoryDir_unfold afterMkdir_fields)
next
  case (Inr fs')
  from writeFileExclusive_fields(3) [OF Inr] Inr show ?thesis
    using historyFolder_not_history [of ws]
    by (simp add: ensureHistoryDir_unfold afterMkdir_fields putFile_map_of)
qed

lemma ensureHistoryDir_dirs:
  "set (fsDirs (afterMkdir fs ws)) \<subseteq> set (fsDirs (ensureHistoryDir fs ws))"
proof (cases "writeFileExclusive (afterMkdir fs ws) (historyFolder ws) ''.gitignore'' (''*'' @ [CHR 0x0A])")
  case (Inl e)
  then show ?thesis by (simp add: ensureHistoryDir_unfold)
next
  case (Inr fs')
  from writeFileExclusive_fields(2) [OF Inr] Inr show ?thesis
    by (simp add: ensureHistoryDir_unfold)
qed

lemma ensureHistoryDir_has_dirs:
  assumes "noFault fs"
  shows "ws \<in> set (fsDirs (ensureHistoryDir fs ws))"
    "getHistoryDir ws \<in> set (fsDirs (ensureHistoryDir fs ws))"
  using assms afterMkdir_fields(5) [of fs ws] ensureHistoryDir_dirs [of fs ws]
  by (auto simp: noFault_def)

lemma writtenVersion_noFault:
  assumes "noFault fs"
  shows "writtenVersion md5hex now fs ws content =
           Inr ((ensureHistoryDir fs ws)\<lparr>fsFiles :=
                  putFile (fsFiles (ensureHistoryDir fs ws))
                    (getHistoryDir ws, versionFileName md5hex now content) content\<rparr>)"
  using assms ensureHistoryDir_has_dirs(2) [OF assms, of ws]
  by (simp add: writtenVersion_def writeFile_def noFault_def)

lemma written_map_of:
  assumes "writtenVersion md5hex now fs ws content = Inr fs2"
  shows "map_of (fsFiles fs2) (getHistoryDir ws, n) =
           (if n = versionFileName md5hex now content then Some content
            else map_of (fsFiles fs) (getHistoryDir ws, n))"
  using writeFile_fields(3) [OF assms [unfolded writtenVersion_def]]
  by (simp add: putFile_map_of ensureHistoryDir_map_of)

lemma written_dirs:
  assumes "writtenVersion md5hex now fs ws content = Inr fs2"
  shows "fsDirs fs2 = fsDirs (ensureHistoryDir fs ws)"
  using writeFile_fields(2) [OF assms [unfolded writtenVersion_def]] .

lemma versionOfFile_new:
  assumes "isHexString (generateHash md5hex content)"
    and "\<not> failing fs ReadFile (getHistoryDir ws) (versionFileName md5hex now content)"
    and "map_of (fsFiles fs) (getHistoryDir ws, versionFileName md5hex now content) = Some content"
  shows "versionOfFile fs (getHistoryDir ws) (versionFileName md5hex now content) =
           Some (newVersion md5hex now ws content)"
proof -
  have r: "readFile fs (getHistoryDir ws) (versionFileName md5hex now content) = Inr content"
    using assms(2,3) by (simp add: readFile_def)
  have e: "endsWith (versionFileName md5hex now content) ''.md''"
    using endsWith_md [of "showNat now @ ''-'' @ generateHash md5hex content"]
    by (simp add: versionFileName_def)
  have p: "parseFileName (versionFileName md5hex now content) =
             Some (showNat now, generateHash md5hex content)"
    using parseFileName_version [OF assms(1)] by (simp add: versionFileName_def)
  show ?thesis
    by (simp add: versionOfFile_def e p r parseInt_showNat newVersion_def)
qed

lemma sorted_head:
  assumes "sorted (map f xs)" "x \<in> set xs" "\<forall>y \<in> set xs. y = x \<or> f x < (f y :: int)"
  shows "\<exists>ys. xs = x # ys"
proof (cases xs)
  case Nil
  with assms(2) show ?thesis by simp
next
  case (Cons y ys)
  show ?thesis
  proof (cases "y = x")
    case True
    with Cons show ?thesis by simp
  next
    case False
    with assms(2) Cons have "x \<in> set ys" by simp
    with assms(1) Cons have "f y \<le> f x" by simp
    moreover from assms(3) Cons False have "f x < f y" by simp
    ultimately show ?thesis by simp
  qed
qed

lemma old_versions:
  assumes "wfFs fs" "noFault fs"
    and "writtenVersion md5hex now fs ws content = Inr fs2"
    and "w \<in> set (getVersions fs2 ws)"
    and "filePath w \<noteq> (getHistoryDir ws, versionFileName md5hex now content)"
  shows "w \<in> set (getVersions fs ws)"
proof -
  from assms(4) have "w \<in> set (listedVersions fs2 (getHistoryDir ws))"
    by (auto simp: getVersions_unfold split: if_splits)
  then obtain n where n: "n \<in> set (dirNames fs2 (getHistoryDir ws))"
      "versionOfFile fs2 (getHistoryDir ws) n = Some w"
    by (auto simp: listedVersions_def set_map_filter_iff)
  from versionOfFile_filePath [OF n(2)] assms(5)
  have ne: "n \<noteq> versionFileName md5hex now content" by auto
  then have m: "map_of (fsFiles fs2) (getHistoryDir ws, n) = map_of (fsFiles fs) (getHistoryDir ws, n)"
    by (simp add: written_map_of [OF assms(3)])
  with n(1) have n': "n \<in> set (dirNames fs (getHistoryDir ws))" by (simp add: dirNames_mem)
  have "versionOfFile fs2 (getHistoryDir ws) n = versionOfFile fs (getHistoryDir ws) n"
    using writtenVersion_failing [OF assms(3)] m by (rule versionOfFile_cong)
  with n(2) n' have l: "w \<in> set (listedVersions fs (getHistoryDir ws))"
    by (auto simp: listedVersions_def set_map_filter_iff)
  from n' obtain c where "((getHistoryDir ws, n), c) \<in> set (fsFiles fs)"
    by (auto simp: dirNames_mem dest: map_of_SomeD)
  with assms(1) have "getHistoryDir ws \<in> set (fsDirs fs)"
    by (auto simp: wfFs_def list_all_iff)
  with l assms(2) show ?thesis by (simp add: getVersions_unfold noFault_def)
qed

lemma new_version_listed:
  assumes "noFault fs" "isHexString (generateHash md5hex content)"
    and "writtenVersion md5hex now fs ws content = Inr fs2"
  shows "newVersion md5hex now ws content \<in> set (getVersions fs2 ws)"
proof -
  have f: "failing fs2 = failing fs" by (rule writtenVersion_failing [OF assms(3)])
  have m: "map_of (fsFiles fs2) (getHistoryDir ws, versionFileName md5hex now content) = Some content"
    by (simp add: written_map_of [OF assms(3)])
  have v: "versionOfFile fs2 (getHistoryDir ws) (versionFileName md5hex now content) =
             Some (newVersion md5hex now ws content)"
    using assms(1,2) f m by (intro versionOfFile_new) (simp_all add: noFault_def)
  have "versionFileName md5hex now content \<in> set (dirNames fs2 (getHistoryDir ws))"
    using m by (simp add: dirNames_mem)
  with v have "newVersion md5hex now ws content \<in> set (listedVersions fs2 (getHistoryDir ws))"
    by (auto simp: listedVersions_def set_map_filter_iff)
  moreover have "getHistoryDir ws \<in> set (fsDirs fs2)"
    using ensureHistoryDir_has_dirs(2) [OF assms(1)] by (simp add: written_dirs [OF assms(3)])
  ultimately show ?thesis using assms(1) f by (simp add: getVersions_unfold noFault_def)
qed

lemma new_version_first:
  assumes "wfFs fs" "noFault fs" "isHexString (generateHash md5hex content)"
    and "\<forall>v \<in> set (getVersions fs ws). timestamp v < now"
    and "writtenVersion md5hex now fs ws content = Inr fs2"
  shows "\<exists>vs. getVersions fs2 ws = newVersion md5hex now ws content # vs"
proof (rule sorted_head [OF getVersions_sorted new_version_listed [OF assms(2,3,5)]], rule ballI)
  fix w assume w: "w \<in> set (getVersions fs2 ws)"
  show "w = newVersion md5hex now ws content \<or>
        - int (timestamp (newVersion md5hex now ws content)) < - int (timestamp w)"
  proof (cases "filePath w = (getHistoryDir ws, versionFileName md5hex now content)")
    case True
    from w have "w \<in> set (listedVersions fs2 (getHistoryDir ws))"
      by (auto simp: getVersions_unfold split: if_splits)
    then obtain n where n: "versionOfFile fs2 (getHistoryDir ws) n = Some w"
      by (auto simp: listedVersions_def set_map_filter_iff)
    from versionOfFile_filePath [OF n] True have "n = versionFileName md5hex now content" by simp
    moreover have "versionOfFile fs2 (getHistoryDir ws) (versionFileName md5hex now content) =
             Some (newVersion md5hex now ws content)"
      using assms(2,3) writtenVersion_failing [OF assms(5)] written_map_of [OF assms(5)]
      by (intro versionOfFile_new) (simp_all add: noFault_def)
    ultimately show ?thesis using n by simp
  next
    case False
    from old_versions [OF assms(1,2,5) w False] assms(4)
    show ?thesis by (simp add: newVersion_def)
  qed
qed

subsection \<open>Rolling back to the version just saved\<close>

lemma removeFiles_nil: "removeFiles [] fs = fs"
  by (simp add: removeFiles_def)

lemma cleanup_removeFiles:
  assumes "noUnlinkFault fs (getHistoryDir ws)"
  shows "cleanupOldVersions fs ws =
           removeFiles (map filePath (drop MAX_VERSIONS (getVersions fs ws))) fs"
proof (cases "length (getVersions fs ws) \<le> MAX_VERSIONS")
  case True
  then show ?thesis by (simp add: cleanupOldVersions_def removeFiles_nil)
next
  case False
  have "\<forall>v \<in> set (drop MAX_VERSIONS (getVersions fs ws)).
          \<not> failing fs Unlink (fst (filePath v)) (snd (filePath v))"
  proof
    fix v assume "v \<in> set (drop MAX_VERSIONS (getVersions fs ws))"
    then have "v \<in> set (getVersions fs ws)" by (rule in_set_dropD)
    from getVersions_dir [OF this] assms
    show "\<not> failing fs Unlink (fst (filePath v)) (snd (filePath v))"
      by (simp add: noUnlinkFault_def)
  qed
  from fold_unlink_removeFiles [OF this] False
  show ?thesis by (simp add: cleanupOldVersions_def)
qed

text \<open>
  Claim C3, as the code has it. On a well-formed file system where no operation fails,
  for a document that is not empty, whose hash is a string of hexadecimal digits, saved
  at a time later than every stored version: \<open>saveVersion\<close> returns a version, and
  \<open>rollbackToVersion\<close> with its id, right after, returns \<open>true\<close> and leaves \<open>README.md\<close>
  with the document.
\<close>

theorem save_then_rollback:
  assumes "wfFs fs" and "noFault fs" and "content \<noteq> []"
    and "isHexString (generateHash md5hex content)"
    and "\<forall>v \<in> set (getVersions fs ws). timestamp v < now"
  shows "\<exists>v. snd (saveVersion md5hex now fs ws content) = Inr v \<and>
           snd (rollbackToVersion (fst (saveVersion md5hex now fs ws content)) ws (versionId v)) = True \<and>
           readFile (fst (rollbackToVersion (fst (saveVersion md5hex now fs ws content)) ws (versionId v)))
             ws ''README.md'' = Inr content"
proof -
  define fs2 where "fs2 = (ensureHistoryDir fs ws)\<lparr>fsFiles :=
      putFile (fsFiles (ensureHistoryDir fs ws))
        (getHistoryDir ws, versionFileName md5hex now content) content\<rparr>"
  define nv where "nv = newVersion md5hex now ws content"
  define fs3 where "fs3 = cleanupOldVersions fs2 ws"
  have w: "writtenVersion md5hex now fs ws content = Inr fs2"
    unfolding fs2_def by (rule writtenVersion_noFault [OF assms(2)])
  have f2: "failing fs2 = failing fs" by (rule writtenVersion_failing [OF w])
  have wf2: "wfFs fs2" by (rule writtenVersion_wfFs [OF assms(1) w])
  have nu: "noUnlinkFault fs2 (getHistoryDir ws)"
    using assms(2) f2 by (simp add: noUnlinkFault_def noFault_def)
  have s: "saveVersion md5hex now fs ws content = (fs3, Inr nv)"
    by (simp add: saveVersion_def w fs3_def nv_def newVersion_def)
  from new_version_first [OF assms(1,2,4,5) w]
  obtain vs where vs: "getVersions fs2 ws = nv # vs" by (auto simp: nv_def)
  have g3: "getVersions fs3 ws = nv # take 19 vs"
    unfolding fs3_def by (simp add: cleanup_versions [OF wf2 nu] vs MAX_VERSIONS_def)
  have fp: "filePath nv = (getHistoryDir ws, versionFileName md5hex now content)"
    by (simp add: nv_def newVersion_def)
  have "distinct (map filePath (nv # vs))"
    using getVersions_distinct [OF wf2, of ws] by (simp add: vs)
  then have "filePath nv \<notin> filePath ` set (drop 19 vs)"
    by (auto dest: in_set_dropD)
  then have "filePath nv \<notin> set (map filePath (drop MAX_VERSIONS (getVersions fs2 ws)))"
    by (simp add: vs MAX_VERSIONS_def)
  then have "readFile fs3 (getHistoryDir ws) (versionFileName md5hex now content) =
               readFile fs2 (getHistoryDir ws) (versionFileName md5hex now content)"
    unfolding fs3_def cleanup_removeFiles [OF nu] fp by (rule readFile_removeFiles)
  also have "\<dots> = Inr content"
    using assms(2) f2 by (simp add: readFile_def written_map_of [OF w] noFault_def)
  finally have r3: "readFile fs3 (getHistoryDir ws) (versionFileName md5hex now content) = Inr content" .
  have c: "getVersionContent fs3 ws (versionId nv) = Some content"
    by (simp add: getVersionContent_def g3 fp r3)
  have d3: "fsDirs fs3 = fsDirs fs2" "failing fs3 = failing fs2"
    unfolding fs3_def cleanup_removeFiles [OF nu] by simp_all
  have "ws \<in> set (fsDirs fs3)"
    using ensureHistoryDir_has_dirs(1) [OF assms(2), of ws] by (simp add: d3 written_dirs [OF w])
  then have wr: "writeFile fs3 ws ''README.md'' content =
                   Inr (fs3\<lparr>fsFiles := putFile (fsFiles fs3) (ws, ''README.md'') content\<rparr>)"
    using assms(2) by (simp add: writeFile_def d3 f2 noFault_def)
  have rb: "rollbackToVersion fs3 ws (versionId nv) =
              (fs3\<lparr>fsFiles := putFile (fsFiles fs3) (ws, ''README.md'') content\<rparr>, True)"
    using assms(3) by (simp add: rollbackToVersion_def c wr)
  have "readFile (fs3\<lparr>fsFiles := putFile (fsFiles fs3) (ws, ''README.md'') content\<rparr>) ws ''README.md'' =
          Inr content"
    using assms(2) by (simp add: readFile_def putFile_map_of d3 f2 noFault_def)
  with s rb show ?thesis by simp
qed

lemma emptyWorkspace_ok:
  "wfFs emptyWorkspace" "noFault emptyWorkspace"
  "isHexString (generateHash demoMd5 ''hello world!'')"
  "\<forall>v \<in> set (getVersions emptyWorkspace ''/work/demo''). timestamp v < 31"
proof -
  show "wfFs emptyWorkspace" by code_simp
  show "noFault emptyWorkspace" by (simp add: noFault_def emptyWorkspace_def noFailure_def)
  show "isHexString (generateHash demoMd5 ''hello world!'')" by code_simp
  have "getVersions emptyWorkspace ''/work/demo'' = []" by code_simp
  then show "\<forall>v \<in> set (getVersions emptyWorkspace ''/work/demo''). timestamp v < 31" by simp
qed

text \<open>A first version saved in a workspace with no history, and rolled back to.\<close>

theorem save_then_rollback_witness:
  "\<exists>v. snd (saveVersion demoMd5 31 emptyWorkspace ''/work/demo'' ''hello world!'') = Inr v \<and>
       snd (rollbackToVersion (fst (saveVersion demoMd5 31 emptyWorkspace ''/work/demo'' ''hello world!''))
              ''/work/demo'' (versionId v)) = True \<and>
       readFile (fst (rollbackToVersion
                        (fst (saveVersion demoMd5 31 emptyWorkspace ''/work/demo'' ''hello world!''))
                        ''/work/demo'' (versionId v)))
         ''/work/demo'' ''README.md'' = Inr ''hello world!''"
  using save_then_rollback [OF emptyWorkspace_ok(1,2) _ emptyWorkspace_ok(3,4)] by simp

text \<open>
  Three round trips that fail: the empty document, which \<open>rollbackToVersion\<close> takes for
  no content (\<open>README.md\<close> keeps its old text); a \<open>README.md\<close> that cannot be written;
  and a version saved with a time stamp older than the twenty stored ones, which the
  cleanup of the same \<open>saveVersion\<close> deletes.
\<close>

theorem rollback_counterexample:
  "(case snd (saveVersion demoMd5 31 emptyWorkspace ''/work/demo'' '''') of
      Inl e \<Rightarrow> [] | Inr v \<Rightarrow> versionId v) = ''31-d41d8cd9'' \<and>
   snd (rollbackToVersion (fst (saveVersion demoMd5 31 emptyWorkspace ''/work/demo'' ''''))
          ''/work/demo'' ''31-d41d8cd9'') = False \<and>
   readFile (fst (rollbackToVersion (fst (saveVersion demoMd5 31 emptyWorkspace ''/work/demo'' ''''))
                    ''/work/demo'' ''31-d41d8cd9''))
     ''/work/demo'' ''README.md'' = Inr ''# Demo'' \<and>
   (case snd (saveVersion demoMd5 31 readOnlyReadme ''/work/demo'' ''hello world!'') of
      Inl e \<Rightarrow> [] | Inr v \<Rightarrow> versionId v) = ''31-fc3ff98e'' \<and>
   snd (rollbackToVersion (fst (saveVersion demoMd5 31 readOnlyReadme ''/work/demo'' ''hello world!''))
          ''/work/demo'' ''31-fc3ff98e'') = False \<and>
   (case snd (saveVersion demoMd5 5 fullStore ''/work/demo'' ''hello world!'') of
      Inl e \<Rightarrow> [] | Inr v \<Rightarrow> versionId v) = ''5-fc3ff98e'' \<and>
   snd (rollbackToVersion (fst (saveVersion demoMd5 5 fullStore ''/work/demo'' ''hello world!''))
          ''/work/demo'' ''5-fc3ff98e'') = False"
  by code_simp

end
